theory Spec2Isabelle
  imports Complex_Main
begin

section \<open>Command channel (bridge.ts, createBridge)\<close>

text \<open>
  The bridge owns a table \<open>pending\<close> (a JavaScript \<open>Map\<close> from command id to the
  closures \<open>resolve\<close>, \<open>reject\<close> and the timer handle of one promise) and talks to a
  socket.  Promises and timers are objects allocated by the runtime; the model numbers
  them with a counter (\<open>nextFuture\<close>), one number for the promise created by one call of
  \<open>sendCommand\<close> and for the timer armed in that call.  The id returned by \<open>uuidv4()\<close>
  and the outcome of \<open>socket.send\<close> are inputs of \<open>sendCommand\<close>: the model assumes
  nothing about either.  Every call of a \<open>resolve\<close> or \<open>reject\<close> closure is appended to
  the log \<open>settles\<close>, so that a promise settled twice would show as two entries.
\<close>

type_synonym cid = string
type_synonym payload = string

datatype readyState = CONNECTING | OPEN | CLOSING | CLOSED

datatype cause = ByErrorResponse | ByTimeout | ByTeardown | BySendFailure | ByNotConnected

datatype outcome = Resolved payload | Rejected cause string

record command =
  ctype :: string
  cbody :: payload

datatype pluginResponse =
    Result cid payload
  | Error cid string
  | Selection_changed payload
  | Page_changed string

record bridge =
  readyState :: readyState
  pending :: "(cid \<times> nat) list"
  timers :: "nat \<rightharpoonup> (cid \<times> string)"
  nextFuture :: nat
  settles :: "(nat \<times> outcome) list"
  wire :: "(nat \<times> cid \<times> command) list"

text \<open>What \<open>sendCommand\<close> hands back: a promise rejected on the spot
  (\<open>Promise.reject\<close>), or the promise number of \<open>new Promise\<close>.\<close>

datatype future = Immediate outcome | Awaiting nat

definition createBridge :: "readyState \<Rightarrow> bridge" where
  "createBridge rs =
     \<lparr>readyState = rs, pending = [], timers = Map.empty, nextFuture = 0,
      settles = [], wire = []\<rparr>"

text \<open>\<open>Map.prototype.set\<close>, \<open>get\<close> and \<open>delete\<close> on the insertion-ordered table.\<close>

fun map_set :: "'k \<Rightarrow> 'v \<Rightarrow> ('k \<times> 'v) list \<Rightarrow> ('k \<times> 'v) list" where
  "map_set k v [] = [(k, v)]"
| "map_set k v ((k', v') # m) = (if k = k' then (k, v) # m else (k', v') # map_set k v m)"

definition map_get :: "('k \<times> 'v) list \<Rightarrow> 'k \<Rightarrow> 'v option" where
  "map_get m k = map_of m k"

definition map_delete :: "'k \<Rightarrow> ('k \<times> 'v) list \<Rightarrow> ('k \<times> 'v) list" where
  "map_delete k m = filter (\<lambda>e. fst e \<noteq> k) m"

definition timeout_message :: "string \<Rightarrow> string" where
  "timeout_message ty = ''Command timeout after 30000ms: '' @ ty"

text \<open>\<open>sendCommand(command)\<close>; \<open>uuid\<close> is what \<open>uuidv4()\<close> returns in this call and
  \<open>thrown\<close> is \<open>Some e\<close> when \<open>socket.send\<close> throws \<open>e\<close>.\<close>

definition sendCommand ::
  "command \<Rightarrow> cid \<Rightarrow> string option \<Rightarrow> bridge \<Rightarrow> future \<times> bridge" where
  "sendCommand c uuid thrown b =
     (if readyState b \<noteq> OPEN
      then (Immediate (Rejected ByNotConnected ''WebSocket not connected''), b)
      else
        let p = nextFuture b;
            b1 = b\<lparr>nextFuture := Suc p,
                   timers := (timers b)(p \<mapsto> (uuid, ctype c)),
                   pending := map_set uuid p (pending b)\<rparr>
        in (case thrown of
              None \<Rightarrow> (Awaiting p, b1\<lparr>wire := wire b1 @ [(p, uuid, c)]\<rparr>)
            | Some e \<Rightarrow>
                (Awaiting p,
                 b1\<lparr>timers := (timers b1)(p := None),
                    pending := map_delete uuid (pending b1),
                    settles := settles b1 @ [(p, Rejected BySendFailure e)]\<rparr>)))"

text \<open>The callback given to \<open>setTimeout\<close>; a timer that was cleared, or has fired,
  does not fire.\<close>

definition timerFires :: "nat \<Rightarrow> bridge \<Rightarrow> bridge" where
  "timerFires p b =
     (case timers b p of
        None \<Rightarrow> b
      | Some (uuid, ty) \<Rightarrow>
          b\<lparr>timers := (timers b)(p := None),
            pending := map_delete uuid (pending b),
            settles := settles b @ [(p, Rejected ByTimeout (timeout_message ty))]\<rparr>)"

definition settle_response :: "cid \<Rightarrow> outcome \<Rightarrow> bridge \<Rightarrow> bridge" where
  "settle_response i out b =
     (case map_get (pending b) i of
        None \<Rightarrow> b
      | Some p \<Rightarrow>
          b\<lparr>timers := (timers b)(p := None),
            pending := map_delete i (pending b),
            settles := settles b @ [(p, out)]\<rparr>)"

fun handleResponse :: "pluginResponse \<Rightarrow> bridge \<Rightarrow> bridge" where
  "handleResponse (Result i d) b = settle_response i (Resolved d) b"
| "handleResponse (Error i e) b = settle_response i (Rejected ByErrorResponse e) b"
| "handleResponse (Selection_changed _) b = b"
| "handleResponse (Page_changed _) b = b"

text \<open>The loop shared by the socket's \<open>close\<close> listener and by \<open>close()\<close>: clear the
  timer of every entry and reject its promise; then \<open>pending.clear()\<close>.\<close>

fun reject_all :: "string \<Rightarrow> (cid \<times> nat) list \<Rightarrow> bridge \<Rightarrow> bridge" where
  "reject_all msg [] b = b"
| "reject_all msg ((i, p) # es) b =
     reject_all msg es
       (b\<lparr>timers := (timers b)(p := None),
          settles := settles b @ [(p, Rejected ByTeardown msg)]\<rparr>)"

definition onSocketClose :: "bridge \<Rightarrow> bridge" where
  "onSocketClose b =
     (reject_all ''WebSocket connection closed'' (pending b) b)
       \<lparr>pending := [], readyState := CLOSED\<rparr>"

definition close :: "bridge \<Rightarrow> bridge" where
  "close b =
     (let b1 = (reject_all ''Bridge closed'' (pending b) b)\<lparr>pending := []\<rparr>
      in if readyState b1 = OPEN then b1\<lparr>readyState := CLOSING\<rparr> else b1)"

definition isConnected :: "bridge \<Rightarrow> bool" where
  "isConnected b = (readyState b = OPEN)"

text \<open>Everything that can happen to a bridge; the socket's state is the environment's.\<close>

datatype event =
    Send command cid "string option"
  | Response pluginResponse
  | TimerFires nat
  | SocketClose
  | Close
  | SocketState readyState

fun step :: "event \<Rightarrow> bridge \<Rightarrow> bridge" where
  "step (Send c uuid thrown) b = snd (sendCommand c uuid thrown b)"
| "step (Response r) b = handleResponse r b"
| "step (TimerFires p) b = timerFires p b"
| "step SocketClose b = onSocketClose b"
| "step Close b = close b"
| "step (SocketState rs) b = b\<lparr>readyState := rs\<rparr>"

fun run :: "event list \<Rightarrow> bridge \<Rightarrow> bridge" where
  "run [] b = b"
| "run (e # es) b = run es (step e b)"

definition sentFutures :: "bridge \<Rightarrow> nat set" where
  "sentFutures b = fst ` set (wire b)"

definition outcomesOf :: "nat \<Rightarrow> bridge \<Rightarrow> outcome list" where
  "outcomesOf p b = map snd (filter (\<lambda>e. fst e = p) (settles b))"

fun terminal :: "outcome \<Rightarrow> bool" where
  "terminal (Resolved d) = True"
| "terminal (Rejected c m) = (c = ByErrorResponse \<or> c = ByTimeout \<or> c = ByTeardown)"

text \<open>The invariant of the table, the armed timers and the log, on the fields.\<close>

definition inv_fields ::
  "(cid \<times> nat) list \<Rightarrow> (nat \<rightharpoonup> (cid \<times> string)) \<Rightarrow> nat \<Rightarrow> (nat \<times> outcome) list
     \<Rightarrow> (nat \<times> cid \<times> command) list \<Rightarrow> bool" where
  "inv_fields pd tm nf st wr \<longleftrightarrow>
     distinct (map fst pd) \<and> distinct (map snd pd) \<and>
     (\<forall>e \<in> set pd. \<exists>ty. tm (snd e) = Some (fst e, ty)) \<and>
     (\<forall>p. tm p \<noteq> None \<longrightarrow> p < nf \<and> p \<notin> fst ` set st) \<and>
     distinct (map fst st) \<and>
     (\<forall>e \<in> set st. fst e < nf) \<and>
     (\<forall>p \<in> fst ` set wr. tm p \<noteq> None \<or> (\<exists>out. (p, out) \<in> set st \<and> terminal out))"

definition bridge_inv :: "bridge \<Rightarrow> bool" where
  "bridge_inv b \<longleftrightarrow> inv_fields (pending b) (timers b) (nextFuture b) (settles b) (wire b)"

text \<open>What an event does to the promise \<open>p\<close> when it settles it with \<open>out\<close> in the state
  \<open>b\<close>: the response carries the id under which \<open>p\<close> is pending, or the timer of \<open>p\<close>
  fires, or \<open>p\<close> is pending at a teardown, or \<open>socket.send\<close> throws in the call that
  made \<open>p\<close>.\<close>

definition caused_by :: "event \<Rightarrow> bridge \<Rightarrow> nat \<Rightarrow> outcome \<Rightarrow> bool" where
  "caused_by ev b p out =
     (case ev of
        Response (Result i d) \<Rightarrow> map_get (pending b) i = Some p \<and> out = Resolved d
      | Response (Error i e) \<Rightarrow> map_get (pending b) i = Some p \<and> out = Rejected ByErrorResponse e
      | TimerFires q \<Rightarrow>
          q = p \<and> (case timers b p of
                     None \<Rightarrow> False
                   | Some (uuid, ty) \<Rightarrow> out = Rejected ByTimeout (timeout_message ty))
      | SocketClose \<Rightarrow>
          p \<in> snd ` set (pending b) \<and> out = Rejected ByTeardown ''WebSocket connection closed''
      | Close \<Rightarrow> p \<in> snd ` set (pending b) \<and> out = Rejected ByTeardown ''Bridge closed''
      | Send c uuid (Some e) \<Rightarrow>
          readyState b = OPEN \<and> p = nextFuture b \<and> out = Rejected BySendFailure e
      | _ \<Rightarrow> False)"

text \<open>A run used to exercise the channel: two commands, a result for the first, a late
  timer and a late error for it, then \<open>close()\<close>.\<close>

definition demo_command :: command where
  "demo_command = \<lparr>ctype = ''get_state'', cbody = ''''\<rparr>"

definition demo_events :: "event list" where
  "demo_events =
     [Send demo_command ''a'' None, Send demo_command ''b'' None,
      Response (Result ''a'' ''ok''), TimerFires 0, Response (Error ''a'' ''late''), Close]"

text \<open>The state with two commands transmitted and none answered.\<close>

definition two_sent :: bridge where
  "two_sent = run [Send demo_command ''a'' None, Send demo_command ''b'' None] (createBridge OPEN)"

section \<open>JavaScript values\<close>

text \<open>
  The values that cross the channel and sit in property bags.  An object is the list of
  its own enumerable members in the order in which the runtime enumerates them, which
  for the keys written by the code modelled here is the order of insertion.  Numbers are only copied and compared with constants in the code
  modelled here, so exact rationals stand for them.  \<open>JMixed\<close> is the host's
  \<open>figma.mixed\<close> symbol.  \<open>JFun f\<close> is a function of the runtime with the name
  \<open>f\<close>, the value that reading a method gives.  \<open>JNaN\<close> is the number \<open>NaN\<close>.
\<close>

datatype jsval =
    JUndefined
  | JNull
  | JMixed
  | JBool bool
  | JNum rat
  | JStr string
  | JArr "jsval list"
  | JObj "(string \<times> jsval) list"
  | JFun string
  | JNaN

text \<open>Reading a key of a bag: a missing key reads as \<open>undefined\<close>.\<close>

definition pget :: "(string \<times> jsval) list \<Rightarrow> string \<Rightarrow> jsval" where
  "pget m k = (case map_of m k of None \<Rightarrow> JUndefined | Some v \<Rightarrow> v)"

text \<open>JavaScript truthiness (\<open>if (v)\<close>, \<open>v || d\<close>, \<open>!v\<close>).\<close>

fun truthy :: "jsval \<Rightarrow> bool" where
  "truthy JUndefined = False"
| "truthy JNull = False"
| "truthy (JBool b) = b"
| "truthy (JNum n) = (n \<noteq> 0)"
| "truthy (JStr s) = (s \<noteq> [])"
| "truthy JNaN = False"
| "truthy _ = True"

text \<open>\<open>a || d\<close> and \<open>a ?? d\<close>.\<close>

definition js_or :: "jsval \<Rightarrow> jsval \<Rightarrow> jsval" where
  "js_or a d = (if truthy a then a else d)"

definition nullish :: "jsval \<Rightarrow> bool" where
  "nullish v = (v = JUndefined \<or> v = JNull)"

definition js_coalesce :: "jsval \<Rightarrow> jsval \<Rightarrow> jsval" where
  "js_coalesce a d = (if nullish a then d else a)"

definition startsWith :: "string \<Rightarrow> string \<Rightarrow> bool" where
  "startsWith s pre = (take (length pre) s = pre)"

text \<open>
  A string is the list of the bytes of its UTF-8 text; the texts that the code modelled
  here takes apart are ASCII.  \<open>white_space\<close> lists the characters that \<open>trim\<close> and
  \<open>parseInt\<close> skip (WhiteSpace and LineTerminator of the language), each as its bytes.
\<close>

definition white_space :: "string list" where
  "white_space =
     [[CHR 0x09], [CHR 0x0A], [CHR 0x0B], [CHR 0x0C], [CHR 0x0D], [CHR 0x20],
      [CHR 0xC2, CHR 0xA0], [CHR 0xE1, CHR 0x9A, CHR 0x80],
      [CHR 0xE2, CHR 0x80, CHR 0x80], [CHR 0xE2, CHR 0x80, CHR 0x81], [CHR 0xE2, CHR 0x80, CHR 0x82],
      [CHR 0xE2, CHR 0x80, CHR 0x83], [CHR 0xE2, CHR 0x80, CHR 0x84], [CHR 0xE2, CHR 0x80, CHR 0x85],
      [CHR 0xE2, CHR 0x80, CHR 0x86], [CHR 0xE2, CHR 0x80, CHR 0x87], [CHR 0xE2, CHR 0x80, CHR 0x88],
      [CHR 0xE2, CHR 0x80, CHR 0x89], [CHR 0xE2, CHR 0x80, CHR 0x8A],
      [CHR 0xE2, CHR 0x80, CHR 0xA8], [CHR 0xE2, CHR 0x80, CHR 0xA9], [CHR 0xE2, CHR 0x80, CHR 0xAF],
      [CHR 0xE2, CHR 0x81, CHR 0x9F], [CHR 0xE3, CHR 0x80, CHR 0x80], [CHR 0xEF, CHR 0xBB, CHR 0xBF]]"

text \<open>The number of bytes of the blank at the head of a string, 0 when there is none;
  the same at its end.\<close>

definition blank_at :: "string \<Rightarrow> nat" where
  "blank_at s = (case find (\<lambda>w. take (length w) s = w) white_space of None \<Rightarrow> 0 | Some w \<Rightarrow> length w)"

definition blank_before :: "string \<Rightarrow> nat" where
  "blank_before s =
     (case find (\<lambda>w. take (length w) (rev s) = rev w) white_space of None \<Rightarrow> 0 | Some w \<Rightarrow> length w)"

fun drop_blanks :: "nat \<Rightarrow> string \<Rightarrow> string" where
  "drop_blanks 0 s = s"
| "drop_blanks (Suc n) s = (if blank_at s = 0 then s else drop_blanks n (drop (blank_at s) s))"

fun drop_blanks_end :: "nat \<Rightarrow> string \<Rightarrow> string" where
  "drop_blanks_end 0 s = s"
| "drop_blanks_end (Suc n) s =
     (if blank_before s = 0 then s else drop_blanks_end n (take (length s - blank_before s) s))"

definition trimStart :: "string \<Rightarrow> string" where
  "trimStart s = drop_blanks (length s) s"

definition trim :: "string \<Rightarrow> string" where
  "trim s = (let t = trimStart s in drop_blanks_end (length t) t)"

text \<open>\<open>s.split(c)\<close> for a one-character separator, and \<open>parts.join(sep)\<close>.\<close>

fun split_acc :: "char \<Rightarrow> string \<Rightarrow> string \<Rightarrow> string list" where
  "split_acc c cur [] = [rev cur]"
| "split_acc c cur (x # xs) =
     (if x = c then rev cur # split_acc c [] xs else split_acc c (x # cur) xs)"

definition split :: "string \<Rightarrow> char \<Rightarrow> string list" where
  "split s c = split_acc c [] s"

fun join :: "string list \<Rightarrow> string \<Rightarrow> string" where
  "join [] sep = []"
| "join [x] sep = x"
| "join (x # y # ys) sep = x @ sep @ join (y # ys) sep"

text \<open>Decimal keys of arrays: \<open>''0''\<close>, \<open>''17''\<close>, without leading zeros.\<close>

definition digit_of :: "char \<Rightarrow> nat option" where
  "digit_of c =
     (let n = (of_char c :: nat) in if 48 \<le> n \<and> n \<le> 57 then Some (n - 48) else None)"

fun digits_value :: "nat \<Rightarrow> string \<Rightarrow> nat option" where
  "digits_value acc [] = Some acc"
| "digits_value acc (c # cs) =
     (case digit_of c of None \<Rightarrow> None | Some d \<Rightarrow> digits_value (10 * acc + d) cs)"

definition index_of_key :: "string \<Rightarrow> nat option" where
  "index_of_key k =
     (if k = [] then None
      else if hd k = CHR ''0'' \<and> tl k \<noteq> [] then None
      else digits_value 0 k)"

text \<open>
  \<open>value[key]\<close>.  On \<open>null\<close> and \<open>undefined\<close> it throws.  Otherwise the own members are
  read first: the keys of an object, the elements and \<open>length\<close> of an array, the
  characters and \<open>length\<close> of a string, the \<open>name\<close> of a function.  A key that is not an
  own member is looked up along the prototype chain, which belongs to the runtime and is
  a parameter here: \<open>inherited rt v k\<close> is what the chain of \<open>v\<close> gives for \<open>k\<close>, that
  is \<open>undefined\<close> when no prototype has the member, the member when one has it (a
  method reads as a function value), or the throw of an accessor.  Two conversions of
  the runtime are parameters as well, for the values on which they are not spelled out
  below: \<open>to_text rt v\<close> is the text of \<open>v\<close> in a template literal, and
  \<open>minus rt v c\<close> is the value of \<open>v - c\<close>.
\<close>

record runtime =
  inherited :: "jsval \<Rightarrow> string \<Rightarrow> string + jsval"
  to_text :: "jsval \<Rightarrow> string"
  minus :: "jsval \<Rightarrow> rat \<Rightarrow> jsval"

fun own_member :: "jsval \<Rightarrow> string \<Rightarrow> jsval option" where
  "own_member (JObj m) k = map_of m k"
| "own_member (JArr xs) k =
     (if k = ''length'' then Some (JNum (of_nat (length xs)))
      else (case index_of_key k of
              None \<Rightarrow> None
            | Some i \<Rightarrow> (if i < length xs then Some (xs ! i) else None)))"
| "own_member (JStr s) k =
     (if k = ''length'' then Some (JNum (of_nat (length s)))
      else (case index_of_key k of
              None \<Rightarrow> None
            | Some i \<Rightarrow> (if i < length s then Some (JStr [s ! i]) else None)))"
| "own_member (JFun f) k = (if k = ''name'' then Some (JStr f) else None)"
| "own_member _ k = None"

definition read_of_nullish :: "jsval \<Rightarrow> string \<Rightarrow> string" where
  "read_of_nullish v k =
     ''Cannot read properties of '' @ (if v = JNull then ''null'' else ''undefined'')
       @ '' (reading '' @ [CHR 0x27] @ k @ [CHR 0x27] @ '')''"

definition js_index :: "runtime \<Rightarrow> jsval \<Rightarrow> string \<Rightarrow> string + jsval" where
  "js_index rt v k =
     (if nullish v then Inl (read_of_nullish v k)
      else (case own_member v k of Some x \<Rightarrow> Inr x | None \<Rightarrow> inherited rt v k))"

text \<open>
  A runtime for the examples.  Every value inherits the members of \<open>Object.prototype\<close>,
  listed here; the members that arrays, strings, numbers and functions inherit from their
  own prototypes before that one are left out of the example, and so are the texts of
  fractions, arrays, objects and functions, and the subtraction from a value that is not a
  number.
\<close>

definition object_prototype :: "(string \<times> jsval) list" where
  "object_prototype =
     [(''constructor'', JFun ''Object''),
      (''__defineGetter__'', JFun ''__defineGetter__''),
      (''__defineSetter__'', JFun ''__defineSetter__''),
      (''hasOwnProperty'', JFun ''hasOwnProperty''),
      (''__lookupGetter__'', JFun ''__lookupGetter__''),
      (''__lookupSetter__'', JFun ''__lookupSetter__''),
      (''isPrototypeOf'', JFun ''isPrototypeOf''),
      (''propertyIsEnumerable'', JFun ''propertyIsEnumerable''),
      (''toString'', JFun ''toString''),
      (''valueOf'', JFun ''valueOf''),
      (''toLocaleString'', JFun ''toLocaleString'')]"

definition sample_runtime :: runtime where
  "sample_runtime =
     \<lparr>inherited = (\<lambda>v k. Inr (pget object_prototype k)),
      to_text = (\<lambda>v. if v = JUndefined then ''undefined'' else if v = JNull then ''null''
                     else if v = JBool True then ''true'' else if v = JBool False then ''false''
                     else if v = JNaN then ''NaN'' else []),
      minus = (\<lambda>v c. JNaN)\<rparr>"
section \<open>Pipeline references (batch-pipeline.ts, resolveVariables)\<close>

text \<open>\<open>throw new Error(msg)\<close> is \<open>Inl msg\<close>.  \<open>bindings\<close> is the \<open>Map\<close> from step id to
  the stored result; \<open>bindings.get\<close> of a missing key is \<open>undefined\<close>.\<close>

type_synonym bindings = "(string \<times> jsval) list"

definition bindings_get :: "bindings \<Rightarrow> string \<Rightarrow> jsval" where
  "bindings_get b k = (case map_get b k of None \<Rightarrow> JUndefined | Some v \<Rightarrow> v)"

definition unresolved_message :: "string \<Rightarrow> string \<Rightarrow> string" where
  "unresolved_message obj stepId =
     ''Unresolved reference: '' @ obj @ '' (step \"'' @ stepId @ ''\" not found in completed steps)''"

definition cannot_resolve_message :: "string \<Rightarrow> string list \<Rightarrow> nat \<Rightarrow> string" where
  "cannot_resolve_message obj path i =
     ''Cannot resolve '' @ obj @ '': null at \"'' @ join (take (i + 1) path) ''.'' @ ''\"''"

text \<open>The loop \<open>for (let i = 1; i < path.length; i++)\<close>; \<open>segs\<close> is \<open>path\<close> from index
  \<open>i\<close> on.\<close>

fun traverse ::
  "runtime \<Rightarrow> string \<Rightarrow> string list \<Rightarrow> nat \<Rightarrow> string list \<Rightarrow> jsval \<Rightarrow> string + jsval" where
  "traverse rt obj path i [] v = Inr v"
| "traverse rt obj path i (seg # segs) v =
     (if v = JNull \<or> v = JUndefined then Inl (cannot_resolve_message obj path i)
      else (case js_index rt v seg of
              Inl e \<Rightarrow> Inl e
            | Inr x \<Rightarrow> traverse rt obj path (i + 1) segs x))"


definition resolveReference :: "runtime \<Rightarrow> string \<Rightarrow> bindings \<Rightarrow> string + jsval" where
  "resolveReference rt obj b =
     (let path = split (drop 1 obj) (CHR ''.'');
          stepId = hd path;
          result = bindings_get b stepId
      in if result = JUndefined then Inl (unresolved_message obj stepId)
         else traverse rt obj path 1 (tl path) result)"

text \<open>
  In the object case the code fills a new object with \<open>resolved[key] = ...\<close> for each
  entry.  For the key \<open>__proto__\<close> that assignment goes to the accessor inherited from
  \<open>Object.prototype\<close> and adds no own member, so the entry is absent from the result;
  the change of prototype that the accessor makes is not represented.
\<close>

definition assigned :: "(string \<times> jsval) list \<Rightarrow> (string \<times> jsval) list" where
  "assigned m = filter (\<lambda>kv. fst kv \<noteq> ''__proto__'') m"

fun resolveVariables :: "runtime \<Rightarrow> jsval \<Rightarrow> bindings \<Rightarrow> string + jsval"
  and resolveItems :: "runtime \<Rightarrow> jsval list \<Rightarrow> bindings \<Rightarrow> string + jsval list"
  and resolveEntries :: "runtime \<Rightarrow> (string \<times> jsval) list \<Rightarrow> bindings \<Rightarrow> string + (string \<times> jsval) list"
where
  "resolveVariables rt (JStr s) b =
     (if startsWith s ''$'' then resolveReference rt s b else Inr (JStr s))"
| "resolveVariables rt (JArr xs) b =
     (case resolveItems rt xs b of Inl e \<Rightarrow> Inl e | Inr ys \<Rightarrow> Inr (JArr ys))"
| "resolveVariables rt (JObj m) b =
     (case resolveEntries rt m b of Inl e \<Rightarrow> Inl e | Inr m' \<Rightarrow> Inr (JObj (assigned m')))"
| "resolveVariables rt JUndefined b = Inr JUndefined"
| "resolveVariables rt JNull b = Inr JNull"
| "resolveVariables rt JMixed b = Inr JMixed"
| "resolveVariables rt (JBool x) b = Inr (JBool x)"
| "resolveVariables rt (JNum n) b = Inr (JNum n)"
| "resolveVariables rt (JFun f) b = Inr (JFun f)"
| "resolveVariables rt JNaN b = Inr JNaN"
| "resolveItems rt [] b = Inr []"
| "resolveItems rt (x # xs) b =
     (case resolveVariables rt x b of
        Inl e \<Rightarrow> Inl e
      | Inr y \<Rightarrow> (case resolveItems rt xs b of Inl e \<Rightarrow> Inl e | Inr ys \<Rightarrow> Inr (y # ys)))"
| "resolveEntries rt [] b = Inr []"
| "resolveEntries rt ((k, v) # m) b =
     (case resolveVariables rt v b of
        Inl e \<Rightarrow> Inl e
      | Inr y \<Rightarrow> (case resolveEntries rt m b of Inl e \<Rightarrow> Inl e | Inr m' \<Rightarrow> Inr ((k, y) # m')))"


section \<open>Script references (dsl-parser.ts resolveRef, code.ts resolveVarRef)\<close>

text \<open>A reference that is \<open>null\<close> or \<open>undefined\<close> on the JavaScript side is \<open>None\<close>.\<close>

definition resolveRef :: "string \<Rightarrow> string option" where
  "resolveRef ref = (if ref = ''null'' then None else Some ref)"

type_synonym variables = "(string \<times> string) list"

definition resolveVarRef :: "string option \<Rightarrow> variables \<Rightarrow> string + string option" where
  "resolveVarRef ref vars =
     (case ref of
        None \<Rightarrow> Inr None
      | Some r \<Rightarrow>
          if startsWith r ''$''
          then (let varName = drop 1 r
                in case map_get vars varName of
                     None \<Rightarrow> Inl (''Unresolved variable: '' @ r)
                   | Some resolved \<Rightarrow>
                       if resolved = [] then Inl (''Unresolved variable: '' @ r)
                       else Inr (Some resolved))
          else Inr (Some r))"

section \<open>Document nodes and snapshots (code.ts, shared/types.ts)\<close>

text \<open>
  A scene node of the host and a \<open>SerializedNode\<close> have the same shape: a kind
  (\<open>type\<close>), an \<open>id\<close> and a \<open>name\<close>, which both typings give as strings, a bag of the
  other properties, and the children when the node has a \<open>children\<close> member.  A property
  that holds \<open>undefined\<close> reads like a missing one everywhere in this code and is dropped
  by \<open>JSON.stringify\<close> on the wire, so bags never store \<open>undefined\<close>.

  The host is modelled as a store: assigning a property, or calling \<open>resize\<close>, records
  the values and nothing else.  What the host does on its own accord (layout passes,
  validation of values) is outside this model.
\<close>

datatype node =
  Node (ntype: string) (nid: string) (nname: string)
       (nprops: "(string \<times> jsval) list") (nkids: "node list option")

definition has :: "(string \<times> jsval) list \<Rightarrow> string \<Rightarrow> bool" where
  "has m k = (map_of m k \<noteq> None)"

definition put :: "string \<Rightarrow> jsval \<Rightarrow> (string \<times> jsval) list \<Rightarrow> (string \<times> jsval) list" where
  "put k v m = (if v = JUndefined then map_delete k m else map_set k v m)"

text \<open>An object literal.\<close>

definition js_object :: "(string \<times> jsval) list \<Rightarrow> jsval" where
  "js_object kvs = JObj (fold (\<lambda>kv m. put (fst kv) (snd kv) m) kvs [])"

text \<open>\<open>node.k = v\<close> on a live node.\<close>

definition assign :: "string \<Rightarrow> jsval \<Rightarrow> node \<Rightarrow> node" where
  "assign k v n = Node (ntype n) (nid n) (nname n) (put k v (nprops n)) (nkids n)"

definition rename :: "string \<Rightarrow> node \<Rightarrow> node" where
  "rename s n = Node (ntype n) (nid n) s (nprops n) (nkids n)"

definition with_kids :: "node list option \<Rightarrow> node \<Rightarrow> node" where
  "with_kids ks n = Node (ntype n) (nid n) (nname n) (nprops n) ks"

text \<open>\<open>if (c) node.k = v\<close>.\<close>

definition assign_if :: "bool \<Rightarrow> string \<Rightarrow> jsval \<Rightarrow> node \<Rightarrow> node" where
  "assign_if c k v n = (if c then assign k v n else n)"

text \<open>\<open>if (data.k !== undefined) node.k = data.k\<close>, for a list of keys in order.\<close>

definition copy_defined :: "(string \<times> jsval) list \<Rightarrow> string list \<Rightarrow> node \<Rightarrow> node" where
  "copy_defined d ks n = fold (\<lambda>k n'. assign_if (pget d k \<noteq> JUndefined) k (pget d k) n') ks n"

text \<open>The \<open>type\<close> of a paint or an effect is a string by the host's typing; a test on a
  value that is not a string is false here.\<close>

definition str_is :: "jsval \<Rightarrow> string \<Rightarrow> bool" where
  "str_is v s = (v = JStr s)"

definition str_startsWith :: "jsval \<Rightarrow> string \<Rightarrow> bool" where
  "str_startsWith v pre = (case v of JStr s \<Rightarrow> startsWith s pre | _ \<Rightarrow> False)"

text \<open>\<open>xs.map(f)\<close> on a value that the typing gives as an array.\<close>

definition arr_map :: "(jsval \<Rightarrow> jsval) \<Rightarrow> jsval \<Rightarrow> jsval" where
  "arr_map f v = (case v of JArr xs \<Rightarrow> JArr (map f xs) | _ \<Rightarrow> JUndefined)"

definition is_array :: "jsval \<Rightarrow> bool" where
  "is_array v = (case v of JArr xs \<Rightarrow> True | _ \<Rightarrow> False)"

definition members :: "jsval \<Rightarrow> (string \<times> jsval) list" where
  "members v = (case v of JObj m \<Rightarrow> m | _ \<Rightarrow> [])"

text \<open>\<open>{ ...v }\<close>.\<close>

definition spread :: "jsval \<Rightarrow> jsval" where
  "spread v = JObj (members v)"

definition identity_transform :: jsval where
  "identity_transform = JArr [JArr [JNum 1, JNum 0, JNum 0], JArr [JNum 0, JNum 1, JNum 0]]"

subsection \<open>serializeNode\<close>

definition serializePaint :: "jsval \<Rightarrow> jsval" where
  "serializePaint paint =
     (let p = members paint;
          base = [(''type'', pget p ''type''), (''visible'', pget p ''visible''),
                  (''opacity'', pget p ''opacity'')]
      in if str_is (pget p ''type'') ''SOLID'' then js_object (base @ [(''color'', pget p ''color'')])
         else if str_startsWith (pget p ''type'') ''GRADIENT'' then
           js_object (base @
             [(''gradientStops'',
                 arr_map (\<lambda>s. js_object [(''position'', pget (members s) ''position''),
                                     (''color'', spread (pget (members s) ''color''))])
                   (pget p ''gradientStops'')),
              (''gradientTransform'', pget p ''gradientTransform'')])
         else if str_is (pget p ''type'') ''IMAGE'' then
           js_object (base @
             [(''imageHash'', js_coalesce (pget p ''imageHash'') JUndefined),
              (''scaleMode'', pget p ''scaleMode''),
              (''imageTransform'', pget p ''imageTransform'')])
         else js_object base)"

definition serializeEffect :: "jsval \<Rightarrow> jsval" where
  "serializeEffect effect =
     (let e = members effect
      in js_object [(''type'', pget e ''type''), (''visible'', pget e ''visible''),
              (''radius'', pget e ''radius''), (''color'', pget e ''color''),
              (''offset'', pget e ''offset''), (''spread'', pget e ''spread'')])"

text \<open>The part of \<open>serializeNode\<close> before the children: the bag \<open>base\<close>.\<close>

definition serialize_visual :: "(string \<times> jsval) list \<Rightarrow> (string \<times> jsval) list \<Rightarrow> (string \<times> jsval) list" where
  "serialize_visual p base0 =
     (let b1 = (if has p ''fills'' \<and> pget p ''fills'' \<noteq> JMixed \<and> is_array (pget p ''fills'')
                then put ''fills'' (arr_map serializePaint (pget p ''fills'')) base0 else base0);
          b2 = (if has p ''strokes'' \<and> pget p ''strokes'' \<noteq> JMixed \<and> is_array (pget p ''strokes'')
                then put ''strokes'' (arr_map serializePaint (pget p ''strokes'')) b1 else b1);
          b3 = (if has p ''strokeWeight'' then put ''strokeWeight'' (pget p ''strokeWeight'') b2 else b2);
          b4 = (if has p ''cornerRadius'' \<and> pget p ''cornerRadius'' \<noteq> JMixed
                then put ''cornerRadius'' (pget p ''cornerRadius'') b3 else b3);
          b5 = (if has p ''effects'' \<and> pget p ''effects'' \<noteq> JMixed \<and> is_array (pget p ''effects'')
                then put ''effects'' (arr_map serializeEffect (pget p ''effects'')) b4 else b4);
          b6 = (if has p ''opacity'' \<and> pget p ''opacity'' \<noteq> JNum 1
                then put ''opacity'' (pget p ''opacity'') b5 else b5)
      in b6)"

definition copy_keys :: "(string \<times> jsval) list \<Rightarrow> string list \<Rightarrow> (string \<times> jsval) list \<Rightarrow> (string \<times> jsval) list" where
  "copy_keys p ks base = fold (\<lambda>k b. put k (pget p k) b) ks base"

definition serialize_frame_props :: "(string \<times> jsval) list \<Rightarrow> (string \<times> jsval) list \<Rightarrow> (string \<times> jsval) list" where
  "serialize_frame_props p base0 =
     (let b1 = copy_keys p [''layoutMode'', ''layoutPositioning''] base0;
          b2 = (if pget p ''layoutMode'' \<noteq> JStr ''NONE''
                then copy_keys p
                       [''itemSpacing'', ''paddingTop'', ''paddingRight'', ''paddingBottom'',
                        ''paddingLeft'', ''primaryAxisAlignItems'', ''counterAxisAlignItems'',
                        ''primaryAxisSizingMode'', ''counterAxisSizingMode'',
                        ''layoutSizingHorizontal'', ''layoutSizingVertical''] b1
                else b1)
      in copy_keys p [''clipsContent''] b2)"

definition unless_mixed :: "jsval \<Rightarrow> jsval" where
  "unless_mixed v = (if v \<noteq> JMixed then v else JUndefined)"

definition serialize_text_props :: "(string \<times> jsval) list \<Rightarrow> (string \<times> jsval) list \<Rightarrow> (string \<times> jsval) list" where
  "serialize_text_props p base0 =
     (let b1 = copy_keys p [''characters'', ''fontSize''] base0;
          b2 = put ''fontName'' (unless_mixed (pget p ''fontName'')) b1;
          b3 = copy_keys p [''textAlignHorizontal'', ''textAlignVertical'', ''textAutoResize''] b2;
          b4 = put ''lineHeight'' (unless_mixed (pget p ''lineHeight'')) b3
      in put ''letterSpacing'' (unless_mixed (pget p ''letterSpacing'')) b4)"

definition serialize_base :: "node \<Rightarrow> (string \<times> jsval) list" where
  "serialize_base n =
     (let p = nprops n;
          b0 = fold (\<lambda>kv m. put (fst kv) (snd kv) m)
                 [(''x'', pget p ''x''), (''y'', pget p ''y''),
                  (''width'', pget p ''width''), (''height'', pget p ''height''),
                  (''rotation'', if pget p ''rotation'' \<noteq> JNum 0 then pget p ''rotation'' else JUndefined),
                  (''visible'', if \<not> truthy (pget p ''visible'') then JBool False else JUndefined),
                  (''locked'', if truthy (pget p ''locked'') then JBool True else JUndefined)] [];
          b1 = serialize_visual p b0;
          b2 = (if ntype n = ''FRAME'' then serialize_frame_props p b1 else b1)
      in if ntype n = ''TEXT'' then serialize_text_props p b2 else b2)"

text \<open>The recursion of \<open>serializeNode(node, maxDepth, currentDepth)\<close>.\<close>

fun serializeNode :: "node \<Rightarrow> nat \<Rightarrow> nat \<Rightarrow> node"
  and serializeChildren :: "node list \<Rightarrow> nat \<Rightarrow> nat \<Rightarrow> node list"
where
  "serializeNode (Node ty i nm p ks) maxDepth currentDepth =
     Node ty i nm (serialize_base (Node ty i nm p ks))
       (case ks of
          None \<Rightarrow> None
        | Some cs \<Rightarrow>
            if currentDepth < maxDepth
            then Some (serializeChildren cs maxDepth (currentDepth + 1)) else None)"
| "serializeChildren [] maxDepth d = []"
| "serializeChildren (c # cs) maxDepth d =
     serializeNode c maxDepth d # serializeChildren cs maxDepth d"

text \<open>\<open>countNodes\<close> of checkpoint.ts, also used to count the nodes of a live subtree.\<close>

fun countNodes :: "node \<Rightarrow> nat"
  and countList :: "node list \<Rightarrow> nat"
where
  "countNodes (Node ty i nm p ks) = 1 + (case ks of None \<Rightarrow> 0 | Some cs \<Rightarrow> countList cs)"
| "countList [] = 0"
| "countList (c # cs) = countNodes c + countList cs"

text \<open>The ids of a subtree, root first.\<close>

fun idsOf :: "node \<Rightarrow> string list"
  and idsOfList :: "node list \<Rightarrow> string list"
where
  "idsOf (Node ty i nm p ks) = i # (case ks of None \<Rightarrow> [] | Some cs \<Rightarrow> idsOfList cs)"
| "idsOfList [] = []"
| "idsOfList (c # cs) = idsOf c @ idsOfList cs"

section \<open>The host document and checkpoint restore (code.ts)\<close>

text \<open>
  What the plugin is given by the host and does not define itself: the properties a
  freshly created node of each kind starts with, the fonts that \<open>loadFontAsync\<close> can
  load, the hash \<open>createImage\<close> gives to image bytes, and the outcome of the comparison
  \<open>v <= c\<close> with a number \<open>c\<close> for a value \<open>v\<close> that has to be converted by the plugin's
  interpreter first (a string, an array, an object).  The document is the list of
  top-level nodes of the current page together with the host's id allocator.
\<close>

record host =
  defaults :: "string \<Rightarrow> string \<times> (string \<times> jsval) list \<times> node list option"
  fonts :: "(string \<times> string) list"
  imageHash :: "string \<Rightarrow> string"
  compare_le :: "jsval \<Rightarrow> rat \<Rightarrow> bool"

record figma =
  page :: "node list"
  nextNode :: nat

function digits :: "nat \<Rightarrow> string" where
  "digits n = (if n < 10 then [char_of (48 + n)] else digits (n div 10) @ [char_of (48 + n mod 10)])"
  by pat_completeness auto
termination
  by (relation "measure id") auto

definition fresh_id :: "nat \<Rightarrow> string" where
  "fresh_id n = ''1:'' @ digits n"

text \<open>\<open>figma.createFrame()\<close> and its siblings, as a value: the new node of the given
  kind with the host's defaults and the next id.\<close>

definition fresh :: "host \<Rightarrow> string \<Rightarrow> nat \<Rightarrow> node" where
  "fresh h kind c =
     (case defaults h kind of (nm, p, ks) \<Rightarrow> Node kind (fresh_id c) nm p ks)"

definition font_of :: "jsval \<Rightarrow> string \<times> string" where
  "font_of v =
     (case (pget (members v) ''family'', pget (members v) ''style'') of
        (JStr f, JStr s) \<Rightarrow> (f, s)
      | _ \<Rightarrow> ([], []))"

text \<open>\<open>await figma.loadFontAsync(fontName)\<close> returns when the font exists and throws
  otherwise.\<close>

definition loadFont :: "host \<Rightarrow> jsval \<Rightarrow> bool" where
  "loadFont h fontName = (font_of fontName \<in> set (fonts h))"

subsection \<open>restorePaint, restoreEffect, restoreNodeProperties\<close>

definition restorePaint :: "jsval \<Rightarrow> jsval option" where
  "restorePaint fill =
     (let f = members fill
      in if str_is (pget f ''type'') ''SOLID'' \<and> truthy (pget f ''color'') then
           Some (js_object
             [(''type'', JStr ''SOLID''), (''color'', pget f ''color''),
              (''opacity'', js_coalesce (pget f ''opacity'') (JNum 1)),
              (''visible'', js_coalesce (pget f ''visible'') (JBool True))])
         else if str_startsWith (pget f ''type'') ''GRADIENT'' \<and> truthy (pget f ''gradientStops'') then
           Some (js_object
             [(''type'', pget f ''type''),
              (''gradientStops'',
                 arr_map (\<lambda>s. js_object [(''position'', pget (members s) ''position''),
                                           (''color'', pget (members s) ''color'')])
                   (pget f ''gradientStops'')),
              (''gradientTransform'', js_or (pget f ''gradientTransform'') identity_transform),
              (''opacity'', js_coalesce (pget f ''opacity'') (JNum 1)),
              (''visible'', js_coalesce (pget f ''visible'') (JBool True))])
         else if str_is (pget f ''type'') ''IMAGE'' \<and> truthy (pget f ''imageHash'') then
           Some (js_object
             [(''type'', JStr ''IMAGE''), (''imageHash'', pget f ''imageHash''),
              (''scaleMode'', js_or (pget f ''scaleMode'') (JStr ''FILL'')),
              (''imageTransform'', js_or (pget f ''imageTransform'') identity_transform),
              (''opacity'', js_coalesce (pget f ''opacity'') (JNum 1)),
              (''visible'', js_coalesce (pget f ''visible'') (JBool True))])
         else None)"

definition restoreEffect :: "jsval \<Rightarrow> jsval" where
  "restoreEffect data =
     (let d = members data
      in js_object
           [(''type'', pget d ''type''),
            (''visible'', js_coalesce (pget d ''visible'') (JBool True)),
            (''radius'', pget d ''radius''), (''color'', pget d ''color''),
            (''offset'', pget d ''offset''), (''spread'', pget d ''spread'')])"

text \<open>The loop \<open>for (const fill of data.fills) { const paint = restorePaint(fill);
  if (paint) restored.push(paint) }\<close>.\<close>

definition restorePaints :: "jsval \<Rightarrow> jsval list" where
  "restorePaints v = (case v of JArr fs \<Rightarrow> List.map_filter restorePaint fs | _ \<Rightarrow> [])"

definition resize :: "jsval \<Rightarrow> jsval \<Rightarrow> node \<Rightarrow> node" where
  "resize w h n = assign ''height'' h (assign ''width'' w n)"

definition restore_paint_list :: "string \<Rightarrow> (string \<times> jsval) list \<Rightarrow> node \<Rightarrow> node" where
  "restore_paint_list k d n =
     (if truthy (pget d k) \<and> has (nprops n) k
      then (let restored = restorePaints (pget d k)
            in if restored \<noteq> [] then assign k (JArr restored) n else n)
      else n)"

definition restore_frame_props :: "(string \<times> jsval) list \<Rightarrow> node \<Rightarrow> node" where
  "restore_frame_props d n0 =
     (let n1 = copy_defined d [''layoutMode''] n0;
          n2 = (if truthy (pget d ''layoutMode'') \<and> pget d ''layoutMode'' \<noteq> JStr ''NONE''
                then copy_defined d
                       [''itemSpacing'', ''paddingTop'', ''paddingRight'', ''paddingBottom'',
                        ''paddingLeft'', ''primaryAxisAlignItems'', ''counterAxisAlignItems'',
                        ''primaryAxisSizingMode'', ''counterAxisSizingMode''] n1
                else n1);
          n3 = copy_defined d [''layoutSizingHorizontal'', ''layoutSizingVertical'', ''clipsContent''] n2
      in if pget d ''width'' \<noteq> JUndefined \<and> pget d ''height'' \<noteq> JUndefined
         then resize (pget d ''width'') (pget d ''height'') n3 else n3)"

definition restore_text_props :: "host \<Rightarrow> (string \<times> jsval) list \<Rightarrow> node \<Rightarrow> node" where
  "restore_text_props h d n0 =
     (let n1 = (if truthy (pget d ''fontName'') \<and> loadFont h (pget d ''fontName'')
                then assign ''fontName'' (pget d ''fontName'') n0 else n0)
      in copy_defined d
           [''characters'', ''fontSize'', ''textAlignHorizontal'', ''textAlignVertical'',
            ''textAutoResize'', ''lineHeight'', ''letterSpacing'', ''textCase'',
            ''textDecoration''] n1)"

definition restoreNodeProperties :: "host \<Rightarrow> node \<Rightarrow> node \<Rightarrow> node" where
  "restoreNodeProperties h node data =
     (let d = nprops data;
          n1 = (if nname data \<noteq> [] then rename (nname data) node else node);
          n2 = copy_defined d [''x'', ''y''] n1;
          n3 = (if pget d ''width'' \<noteq> JUndefined \<and> pget d ''height'' \<noteq> JUndefined
                then resize (pget d ''width'') (pget d ''height'') n2 else n2);
          n4 = copy_defined d [''rotation''] n3;
          n5 = assign_if (pget d ''visible'' = JBool False) ''visible'' (JBool False) n4;
          n6 = assign_if (pget d ''locked'' = JBool True) ''locked'' (JBool True) n5;
          n7 = copy_defined d [''opacity''] n6;
          n8 = restore_paint_list ''fills'' d n7;
          n9 = restore_paint_list ''strokes'' d n8;
          n10 = assign_if (pget d ''strokeWeight'' \<noteq> JUndefined \<and> has (nprops n9) ''strokeWeight'')
                  ''strokeWeight'' (pget d ''strokeWeight'') n9;
          n11 = assign_if (pget d ''cornerRadius'' \<noteq> JUndefined \<and> has (nprops n10) ''cornerRadius'')
                  ''cornerRadius'' (pget d ''cornerRadius'') n10;
          n12 = assign_if (truthy (pget d ''effects'') \<and> has (nprops n11) ''effects'')
                  ''effects'' (arr_map restoreEffect (pget d ''effects'')) n11;
          n13 = copy_defined d [''layoutPositioning'', ''layoutSizingHorizontal'',
                                ''layoutSizingVertical''] n12;
          n14 = (if ntype node = ''FRAME'' then restore_frame_props d n13 else n13)
      in if ntype node = ''TEXT'' then restore_text_props h d n14 else n14)"

subsection \<open>rebuildNode\<close>

text \<open>
  \<open>rebuildNode(data, parent)\<close> creates a node, appends it to \<open>parent\<close>, fills it in
  and, for a frame, rebuilds the children under it.  The function below returns the node
  so built, with the allocator advanced; the caller puts it at the end of the parent's
  children, which is where \<open>parent.appendChild\<close> put it.  Font loading in the \<open>TEXT\<close>
  case is inside \<open>try\<close> blocks and changes nothing in the store.
\<close>

definition placeholder :: "host \<Rightarrow> node \<Rightarrow> nat \<Rightarrow> node" where
  "placeholder h data c =
     (let d = nprops data;
          p1 = rename (''['' @ ntype data @ ''] '' @ nname data) (fresh h ''RECTANGLE'' c);
          p2 = resize (js_or (pget d ''width'') (JNum 100)) (js_or (pget d ''height'') (JNum 100)) p1;
          p3 = assign ''x'' (js_or (pget d ''x'') (JNum 0)) p2
      in assign ''y'' (js_or (pget d ''y'') (JNum 0)) p3)"

definition append_kids :: "node list \<Rightarrow> node \<Rightarrow> node" where
  "append_kids cs n = with_kids (Some ((case nkids n of None \<Rightarrow> [] | Some ks \<Rightarrow> ks) @ cs)) n"

fun rebuildNode :: "host \<Rightarrow> node \<Rightarrow> nat \<Rightarrow> node \<times> nat"
  and rebuildChildren :: "host \<Rightarrow> node list \<Rightarrow> nat \<Rightarrow> node list \<times> nat"
where
  "rebuildNode h (Node ty i nm p ks) c =
     (if ty = ''FRAME'' then
        (let frame = restoreNodeProperties h (fresh h ''FRAME'' c) (Node ty i nm p ks)
         in case ks of
              None \<Rightarrow> (frame, Suc c)
            | Some cs \<Rightarrow>
                (case rebuildChildren h cs (Suc c) of
                   (built, c') \<Rightarrow> (append_kids built frame, c')))
      else if ty = ''TEXT'' then
        (restoreNodeProperties h (fresh h ''TEXT'' c) (Node ty i nm p ks), Suc c)
      else if ty = ''RECTANGLE'' then
        (restoreNodeProperties h (fresh h ''RECTANGLE'' c) (Node ty i nm p ks), Suc c)
      else if ty = ''ELLIPSE'' then
        (restoreNodeProperties h (fresh h ''ELLIPSE'' c) (Node ty i nm p ks), Suc c)
      else (placeholder h (Node ty i nm p ks) c, Suc c))"
| "rebuildChildren h [] c = ([], c)"
| "rebuildChildren h (x # xs) c =
     (case rebuildNode h x c of
        (n, c1) \<Rightarrow> (case rebuildChildren h xs c1 of (ns, c2) \<Rightarrow> (n # ns, c2)))"

subsection \<open>Finding and replacing nodes of the document\<close>

fun find_node :: "string \<Rightarrow> node \<Rightarrow> node option"
  and find_in :: "string \<Rightarrow> node list \<Rightarrow> node option"
where
  "find_node i (Node ty j nm p ks) =
     (if i = j then Some (Node ty j nm p ks)
      else (case ks of None \<Rightarrow> None | Some cs \<Rightarrow> find_in i cs))"
| "find_in i [] = None"
| "find_in i (c # cs) = (case find_node i c of Some n \<Rightarrow> Some n | None \<Rightarrow> find_in i cs)"

definition getNodeById :: "figma \<Rightarrow> string \<Rightarrow> node option" where
  "getNodeById doc i = find_in i (page doc)"

fun modify_node :: "string \<Rightarrow> (node \<Rightarrow> node) \<Rightarrow> node \<Rightarrow> node"
  and modify_in :: "string \<Rightarrow> (node \<Rightarrow> node) \<Rightarrow> node list \<Rightarrow> node list"
where
  "modify_node i f (Node ty j nm p ks) =
     (if i = j then f (Node ty j nm p ks)
      else Node ty j nm p (case ks of None \<Rightarrow> None | Some cs \<Rightarrow> Some (modify_in i f cs)))"
| "modify_in i f [] = []"
| "modify_in i f (c # cs) = modify_node i f c # modify_in i f cs"

fun remove_in :: "string \<Rightarrow> node list \<Rightarrow> node list"
  and remove_under :: "string \<Rightarrow> node \<Rightarrow> node"
where
  "remove_in i [] = []"
| "remove_in i (c # cs) =
     (if nid c = i then remove_in i cs else remove_under i c # remove_in i cs)"
| "remove_under i (Node ty j nm p ks) =
     Node ty j nm p (case ks of None \<Rightarrow> None | Some cs \<Rightarrow> Some (remove_in i cs))"

subsection \<open>The two checkpoint handlers\<close>

definition handleSerializeFrame :: "figma \<Rightarrow> string \<Rightarrow> string + node" where
  "handleSerializeFrame doc frameId =
     (case getNodeById doc frameId of
        None \<Rightarrow> Inl (''Frame not found: '' @ frameId)
      | Some n \<Rightarrow> Inr (serializeNode n 10 0))"

text \<open>The new state of the target: children cleared, own properties restored, children
  rebuilt in order.\<close>

definition restore_target :: "host \<Rightarrow> node \<Rightarrow> node \<Rightarrow> nat \<Rightarrow> node \<times> nat" where
  "restore_target h target serialized c =
     (let t1 = restoreNodeProperties h (with_kids (Some []) target) serialized
      in case nkids serialized of
           None \<Rightarrow> (t1, c)
         | Some cs \<Rightarrow> (case rebuildChildren h cs c of (built, c') \<Rightarrow> (append_kids built t1, c')))"

record restoreResult =
  rr_success :: bool
  rr_frameId :: string
  rr_childrenRestored :: nat

definition handleRestoreCheckpoint ::
  "host \<Rightarrow> string \<Rightarrow> node \<Rightarrow> figma \<Rightarrow> (string + restoreResult) \<times> figma" where
  "handleRestoreCheckpoint h frameId serialized doc =
     (case getNodeById doc frameId of
        None \<Rightarrow> (Inl (''Frame not found: '' @ frameId), doc)
      | Some target \<Rightarrow>
          (case nkids target of
             None \<Rightarrow> (Inl (read_of_nullish JUndefined ''length''), doc)
           | Some old \<Rightarrow>
               (case restore_target h target serialized (nextNode doc) of
                  (t', c') \<Rightarrow>
                    (Inr \<lparr>rr_success = True, rr_frameId = frameId,
                          rr_childrenRestored = (case nkids serialized of None \<Rightarrow> 0 | Some cs \<Rightarrow> length cs)\<rparr>,
                     doc\<lparr>page := modify_in frameId (\<lambda>_. t') (page doc), nextNode := c'\<rparr>))))"

subsection \<open>The checkpoint store (checkpoint.ts)\<close>

text \<open>
  The backend reaches the plugin through \<open>bridge.sendCommand\<close>.  In the functions below
  the command is delivered and answered: the promise settles with what the plugin's
  handler sends back (\<open>sendResult\<close>, or \<open>sendError\<close> from the \<open>catch\<close> of the message
  loop).  The channel's own failures are the subject of the bridge model above.  The
  \<open>savedAt\<close> time stamp of an entry is not modelled.
\<close>

record checkpoint =
  cp_frameId :: string
  cp_data :: node

record world =
  w_doc :: figma
  w_store :: "(string \<times> checkpoint) list"

record saveResult =
  sv_label :: string
  sv_frameId :: string
  sv_nodeCount :: nat
  sv_available :: "string list"

definition saveCheckpoint :: "string \<Rightarrow> string \<Rightarrow> world \<Rightarrow> (string + saveResult) \<times> world" where
  "saveCheckpoint frameId label w =
     (case handleSerializeFrame (w_doc w) frameId of
        Inl e \<Rightarrow> (Inl e, w)
      | Inr serialized \<Rightarrow>
          if nid serialized = [] then (Inl (''Failed to serialize frame '' @ frameId), w)
          else
            (let st = map_set label \<lparr>cp_frameId = frameId, cp_data = serialized\<rparr> (w_store w)
             in (Inr \<lparr>sv_label = label, sv_frameId = frameId,
                      sv_nodeCount = countNodes serialized, sv_available = map fst st\<rparr>,
                 w\<lparr>w_store := st\<rparr>)))"

definition not_found_message :: "string \<Rightarrow> string list \<Rightarrow> string" where
  "not_found_message label available =
     ''Checkpoint \"'' @ label @ ''\" not found. Available: '' @
       (if length available > 0 then join available '', '' else ''none'')"

definition restoreCheckpoint :: "host \<Rightarrow> string \<Rightarrow> world \<Rightarrow> (string + restoreResult) \<times> world" where
  "restoreCheckpoint h label w =
     (case map_get (w_store w) label of
        None \<Rightarrow> (Inl (not_found_message label (map fst (w_store w))), w)
      | Some cp \<Rightarrow>
          (case handleRestoreCheckpoint h (cp_frameId cp) (cp_data cp) (w_doc w) of
             (r, d') \<Rightarrow> (r, w\<lparr>w_doc := d'\<rparr>)))"

subsection \<open>Sample host and sample trees\<close>

definition solid :: "rat \<Rightarrow> rat \<Rightarrow> rat \<Rightarrow> jsval" where
  "solid r g b =
     JObj [(''type'', JStr ''SOLID''), (''visible'', JBool True), (''opacity'', JNum 1),
           (''color'', JObj [(''r'', JNum r), (''g'', JNum g), (''b'', JNum b)])]"

definition shape_defaults :: "(string \<times> jsval) list" where
  "shape_defaults =
     [(''x'', JNum 0), (''y'', JNum 0), (''width'', JNum 100), (''height'', JNum 100),
      (''rotation'', JNum 0), (''visible'', JBool True), (''locked'', JBool False),
      (''opacity'', JNum 1), (''strokes'', JArr []), (''strokeWeight'', JNum 1),
      (''effects'', JArr []), (''layoutPositioning'', JStr ''AUTO'')]"

definition sample_defaults :: "string \<Rightarrow> string \<times> (string \<times> jsval) list \<times> node list option" where
  "sample_defaults kind =
     (if kind = ''FRAME'' then
        (''Frame'',
         shape_defaults @
           [(''fills'', JArr [solid 1 1 1]), (''cornerRadius'', JNum 0),
            (''layoutMode'', JStr ''NONE''), (''clipsContent'', JBool True)],
         Some [])
      else if kind = ''RECTANGLE'' then
        (''Rectangle'',
         shape_defaults @ [(''fills'', JArr [solid (17/20) (17/20) (17/20)]), (''cornerRadius'', JNum 0)],
         None)
      else if kind = ''ELLIPSE'' then
        (''Ellipse'', shape_defaults @ [(''fills'', JArr [solid (17/20) (17/20) (17/20)])], None)
      else if kind = ''TEXT'' then
        (''Text'',
         shape_defaults @
           [(''fills'', JArr [solid 0 0 0]), (''characters'', JStr []), (''fontSize'', JNum 12),
            (''fontName'', JObj [(''family'', JStr ''Inter''), (''style'', JStr ''Regular'')]),
            (''textAlignHorizontal'', JStr ''LEFT''), (''textAlignVertical'', JStr ''TOP''),
            (''textAutoResize'', JStr ''WIDTH_AND_HEIGHT'')],
         None)
      else (kind, shape_defaults, None))"

definition sample_host :: host where
  "sample_host =
     \<lparr>defaults = sample_defaults,
      fonts = [(''Inter'', ''Regular''), (''Inter'', ''Bold'')],
      imageHash = (\<lambda>b. ''hash:'' @ b),
      compare_le = (\<lambda>v c. False)\<rparr>"

text \<open>A chain of nested frames: \<open>chain k\<close> has \<open>k\<close> frames below its root; the frame at
  depth \<open>j\<close> below the root of \<open>chain k\<close> has the id \<open>fresh_id (k - j)\<close>.\<close>

fun chain :: "nat \<Rightarrow> node" where
  "chain 0 = fresh sample_host ''FRAME'' 0"
| "chain (Suc k) = with_kids (Some [chain k]) (fresh sample_host ''FRAME'' (Suc k))"

text \<open>How deep a tree is: 0 for a node without children.\<close>

fun height :: "node \<Rightarrow> nat"
  and height_list :: "node list \<Rightarrow> nat"
where
  "height (Node ty i nm p ks) = (case ks of None \<Rightarrow> 0 | Some cs \<Rightarrow> height_list cs)"
| "height_list [] = 0"
| "height_list (c # cs) = max (Suc (height c)) (height_list cs)"

text \<open>A frame holding one line (a kind the restore has no case for) of height 0.\<close>

definition sample_line :: node where
  "sample_line =
     Node ''LINE'' ''1:2'' ''Line 1''
       [(''x'', JNum 5), (''y'', JNum 6), (''width'', JNum 40), (''height'', JNum 0),
        (''rotation'', JNum 0), (''visible'', JBool True), (''locked'', JBool False),
        (''opacity'', JNum 1), (''strokes'', JArr [solid 0 0 0]), (''strokeWeight'', JNum 1)]
       None"

definition sample_frame :: node where
  "sample_frame = with_kids (Some [sample_line]) (fresh sample_host ''FRAME'' 1)"

text \<open>Two snapshots agree on what was captured: same kind, same name, every property of
  either bag reads the same in the other, and the children agree in order.  Ids are not
  compared.\<close>

definition same_bag :: "(string \<times> jsval) list \<Rightarrow> (string \<times> jsval) list \<Rightarrow> bool" where
  "same_bag p q = list_all (\<lambda>k. pget p k = pget q k) (map fst p @ map fst q)"

fun same_captured :: "node \<Rightarrow> node \<Rightarrow> bool"
  and same_captured_list :: "node list \<Rightarrow> node list \<Rightarrow> bool"
where
  "same_captured (Node ty i nm p ks) b =
     (ty = ntype b \<and> nm = nname b \<and> same_bag p (nprops b) \<and>
      (case ks of
         None \<Rightarrow> nkids b = None
       | Some cs \<Rightarrow> (case nkids b of None \<Rightarrow> False | Some ds \<Rightarrow> same_captured_list cs ds)))"
| "same_captured_list [] ds = (ds = [])"
| "same_captured_list (c # cs) ds =
     (case ds of [] \<Rightarrow> False | d # ds' \<Rightarrow> same_captured c d \<and> same_captured_list cs ds')"

section \<open>The batch script interpreter of the plugin (code.ts, handleBatchOperations)\<close>

subsection \<open>applyNodeProperties\<close>

text \<open>
  \<open>applyNodeProperties\<close> mutates the node as it goes, so what it did before a throw
  stays done: the result is the node as left behind, and the error if one was thrown.
  It can throw where it awaits \<open>loadFontAsync\<close>, and where the host's typed setter for
  \<open>name\<close> is given a value that is not a string.
\<close>

definition font_error :: "jsval \<Rightarrow> string" where
  "font_error fontName =
     ''The font \"'' @ fst (font_of fontName) @ '' '' @ snd (font_of fontName) @ ''\" could not be loaded''"

text \<open>
  \<open>v <= c\<close> for a number \<open>c\<close>: a number is compared as it is, \<open>null\<close> and booleans
  count as 0 and 1, \<open>undefined\<close> and \<open>NaN\<close> compare false, and every other value is
  converted by the interpreter, whose answer is the parameter \<open>conv\<close>.
\<close>

definition js_le :: "(jsval \<Rightarrow> rat \<Rightarrow> bool) \<Rightarrow> jsval \<Rightarrow> rat \<Rightarrow> bool" where
  "js_le conv v c =
     (case v of
        JNum w \<Rightarrow> w \<le> c
      | JNull \<Rightarrow> 0 \<le> c
      | JBool b \<Rightarrow> (if b then 1 else 0) \<le> c
      | JUndefined \<Rightarrow> False
      | JNaN \<Rightarrow> False
      | _ \<Rightarrow> conv v c)"

definition mapWeightToStyle :: "host \<Rightarrow> jsval \<Rightarrow> string" where
  "mapWeightToStyle h weight =
     (if js_le (compare_le h) weight 200 then ''Ultralight''
      else if js_le (compare_le h) weight 300 then ''Light''
      else if js_le (compare_le h) weight 400 then ''Regular''
      else if js_le (compare_le h) weight 500 then ''Medium''
      else if js_le (compare_le h) weight 600 then ''SemiBold''
      else if js_le (compare_le h) weight 700 then ''Bold''
      else ''Black'')"

definition elements :: "jsval \<Rightarrow> jsval list" where
  "elements v = (case v of JArr xs \<Rightarrow> xs | _ \<Rightarrow> [])"

definition apply_visual :: "(string \<times> jsval) list \<Rightarrow> node \<Rightarrow> node" where
  "apply_visual props n0 =
     (let n1 = copy_defined props [''x'', ''y''] n0;
          n2 = (if pget props ''width'' \<noteq> JUndefined \<or> pget props ''height'' \<noteq> JUndefined
                then resize (js_coalesce (pget props ''width'') (pget (nprops n1) ''width''))
                            (js_coalesce (pget props ''height'') (pget (nprops n1) ''height'')) n1
                else n1);
          n3 = copy_defined props [''rotation'', ''fills'', ''strokes'', ''strokeWeight'',
                                   ''cornerRadius'', ''effects''] n2;
          n4 = (if truthy (pget props ''addEffects'') \<and> is_array (pget props ''addEffects'')
                then assign ''effects''
                       (JArr (elements (js_or (pget (nprops n3) ''effects'') (JArr []))
                              @ elements (pget props ''addEffects''))) n3
                else n3)
      in copy_defined props [''opacity'', ''visible'', ''locked''] n4)"

definition apply_name :: "(string \<times> jsval) list \<Rightarrow> node \<Rightarrow> node \<times> string option" where
  "apply_name props n =
     (case pget props ''name'' of
        JUndefined \<Rightarrow> (n, None)
      | JStr s \<Rightarrow> (rename s n, None)
      | _ \<Rightarrow> (n, Some ''in set_name: Expected string''))"

definition apply_frame :: "(string \<times> jsval) list \<Rightarrow> node \<Rightarrow> node" where
  "apply_frame props n0 =
     (let n1 = copy_defined props
                 [''layoutMode'', ''itemSpacing'', ''paddingTop'', ''paddingRight'',
                  ''paddingBottom'', ''paddingLeft'', ''primaryAxisAlignItems'',
                  ''counterAxisAlignItems''] n0;
          hasExplicitDims = (pget props ''width'' \<noteq> JUndefined \<or> pget props ''height'' \<noteq> JUndefined);
          isAutoLayout = (pget props ''layoutMode'' \<noteq> JUndefined \<and> pget props ''layoutMode'' \<noteq> JStr ''NONE'');
          n2 = (if hasExplicitDims \<and> isAutoLayout
                then assign_if (pget props ''counterAxisSizingMode'' = JUndefined)
                       ''counterAxisSizingMode'' (JStr ''FIXED'')
                       (assign_if (pget props ''primaryAxisSizingMode'' = JUndefined)
                          ''primaryAxisSizingMode'' (JStr ''FIXED'') n1)
                else n1);
          n3 = copy_defined props [''primaryAxisSizingMode'', ''counterAxisSizingMode'', ''clipsContent''] n2
      in if hasExplicitDims \<and>
            (isAutoLayout \<or> pget props ''primaryAxisSizingMode'' \<noteq> JUndefined
               \<or> pget props ''counterAxisSizingMode'' \<noteq> JUndefined)
         then resize (js_coalesce (pget props ''width'') (pget (nprops n3) ''width''))
                     (js_coalesce (pget props ''height'') (pget (nprops n3) ''height'')) n3
         else n3)"

definition inter_regular :: jsval where
  "inter_regular = JObj [(''family'', JStr ''Inter''), (''style'', JStr ''Regular'')]"

definition apply_text_rest :: "(string \<times> jsval) list \<Rightarrow> node \<Rightarrow> node" where
  "apply_text_rest props n =
     copy_defined props
       [''fontSize'', ''characters'', ''textAlignHorizontal'', ''textAlignVertical'',
        ''textAutoResize'', ''lineHeight'', ''letterSpacing'', ''textCase'', ''textDecoration''] n"

definition apply_text :: "host \<Rightarrow> (string \<times> jsval) list \<Rightarrow> node \<Rightarrow> node \<times> string option" where
  "apply_text h props n =
     (if pget props ''fontName'' \<noteq> JUndefined then
        (if loadFont h (pget props ''fontName'')
         then (apply_text_rest props (assign ''fontName'' (pget props ''fontName'') n), None)
         else (n, Some (font_error (pget props ''fontName''))))
      else if pget props ''fontWeight'' \<noteq> JUndefined then
        (let fontFamily = (if pget (nprops n) ''fontName'' \<noteq> JMixed
                           then pget (members (pget (nprops n) ''fontName'')) ''family''
                           else JStr ''Inter'');
             fontName = js_object [(''family'', fontFamily),
                                   (''style'', JStr (mapWeightToStyle h (pget props ''fontWeight'')))]
         in if loadFont h fontName
            then (apply_text_rest props (assign ''fontName'' fontName n), None)
            else (n, Some (font_error fontName)))
      else if pget props ''characters'' \<noteq> JUndefined \<or> pget props ''fontSize'' \<noteq> JUndefined then
        (let currentFont = (if pget (nprops n) ''fontName'' \<noteq> JMixed
                            then pget (nprops n) ''fontName'' else inter_regular)
         in if loadFont h currentFont then (apply_text_rest props n, None)
            else (n, Some (font_error currentFont)))
      else (apply_text_rest props n, None))"

definition applyNodeProperties :: "host \<Rightarrow> node \<Rightarrow> (string \<times> jsval) list \<Rightarrow> node \<times> string option" where
  "applyNodeProperties h node props =
     (case apply_name props (apply_visual props node) of
        (n1, Some e) \<Rightarrow> (n1, Some e)
      | (n1, None) \<Rightarrow>
          (let n2 = copy_defined props [''layoutPositioning'', ''layoutSizingHorizontal'',
                                        ''layoutSizingVertical''] n1;
               n3 = (if ntype node = ''FRAME'' then apply_frame props n2 else n2)
           in if ntype node = ''TEXT'' then apply_text h props n3 else (n3, None)))"

subsection \<open>Host calls on the document\<close>

definition createNode :: "host \<Rightarrow> string \<Rightarrow> figma \<Rightarrow> string \<times> figma" where
  "createNode h kind doc =
     (fresh_id (nextNode doc),
      doc\<lparr>page := page doc @ [fresh h kind (nextNode doc)], nextNode := Suc (nextNode doc)\<rparr>)"

definition modifyNode :: "string \<Rightarrow> (node \<Rightarrow> node) \<Rightarrow> figma \<Rightarrow> figma" where
  "modifyNode i f doc = doc\<lparr>page := modify_in i f (page doc)\<rparr>"

definition removeNode :: "string \<Rightarrow> figma \<Rightarrow> figma" where
  "removeNode i doc = doc\<lparr>page := remove_in i (page doc)\<rparr>"

text \<open>\<open>parent.appendChild(child)\<close> and \<open>parent.insertChild(index, child)\<close>, by id: the child
  leaves its place and enters the parent's children.  The host throws when the parent is
  the child or lies inside it, and when the index is out of range.\<close>

definition insert_at :: "nat \<Rightarrow> node \<Rightarrow> node \<Rightarrow> node" where
  "insert_at k child p =
     (case nkids p of
        None \<Rightarrow> p
      | Some ks \<Rightarrow> with_kids (Some (take k ks @ [child] @ drop k ks)) p)"

definition moveNode :: "string \<Rightarrow> string \<Rightarrow> int option \<Rightarrow> figma \<Rightarrow> string option \<times> figma" where
  "moveNode parentId childId idx doc =
     (case getNodeById doc childId of
        None \<Rightarrow> (Some ''in appendChild: node does not exist'', doc)
      | Some child \<Rightarrow>
          (let rest = remove_in childId (page doc)
           in case find_in parentId rest of
                None \<Rightarrow> (Some ''in appendChild: cannot move a node into itself'', doc)
              | Some p \<Rightarrow>
                  (case nkids p of
                     None \<Rightarrow> (Some ''TypeError: appendChild is not a function'', doc)
                   | Some ks \<Rightarrow>
                       (case idx of
                          None \<Rightarrow>
                            (None, doc\<lparr>page := modify_in parentId (insert_at (length ks) child) rest\<rparr>)
                        | Some k \<Rightarrow>
                            if 0 \<le> k \<and> nat k \<le> length ks
                            then (None, doc\<lparr>page := modify_in parentId (insert_at (nat k) child) rest\<rparr>)
                            else (Some ''in insertChild: index out of bounds'', doc)))))"

text \<open>Running a function that may throw on the node with a given id.\<close>

definition onNode :: "string \<Rightarrow> (node \<Rightarrow> node \<times> string option) \<Rightarrow> figma \<Rightarrow> string option \<times> figma" where
  "onNode i f doc =
     (case getNodeById doc i of
        None \<Rightarrow> (None, doc)
      | Some n \<Rightarrow> (snd (f n), modifyNode i (\<lambda>m. fst (f m)) doc))"

subsection \<open>Operations and results\<close>

record operation =
  o_op :: string
  o_variable :: "string option"
  o_parent :: "string option"
  o_nodeId :: "string option"
  o_props :: "(string \<times> jsval) list option"
  o_fontFamily :: jsval
  o_fontStyle :: jsval
  o_base64 :: "string option"
  o_scaleMode :: jsval
  o_newParent :: "string option"
  o_index :: jsval

record opResult =
  r_op :: string
  r_variable :: "string option"
  r_nodeId :: "string option"
  r_success :: bool
  r_error :: "string option"

datatype outcome_of_op = Continue opResult | Break string

definition success_entry :: "operation \<Rightarrow> string option \<Rightarrow> string \<Rightarrow> opResult" where
  "success_entry opn var i =
     \<lparr>r_op = o_op opn, r_variable = var, r_nodeId = Some i, r_success = True, r_error = None\<rparr>"

definition failure_entry :: "operation \<Rightarrow> string \<Rightarrow> opResult" where
  "failure_entry opn e =
     \<lparr>r_op = o_op opn, r_variable = o_variable opn, r_nodeId = None, r_success = False,
      r_error = Some e\<rparr>"

definition unknown_entry :: "operation \<Rightarrow> opResult" where
  "unknown_entry opn =
     \<lparr>r_op = o_op opn, r_variable = None, r_nodeId = None, r_success = False,
      r_error = Some (''Unknown operation: '' @ o_op opn)\<rparr>"

text \<open>\<open>if (s)\<close> on an optional string: present and not empty.\<close>

definition given :: "string option \<Rightarrow> bool" where
  "given s = (case s of None \<Rightarrow> False | Some x \<Rightarrow> x \<noteq> [])"

definition the_props :: "operation \<Rightarrow> (string \<times> jsval) list" where
  "the_props opn = (case o_props opn of None \<Rightarrow> [] | Some p \<Rightarrow> p)"

text \<open>The tail shared by the three creation cases, after the node \<open>i\<close> was created:
  resolve the parent, append to it when it exists and can hold children, apply the
  properties, bind the variable, push the result.\<close>

definition place_and_fill ::
  "host \<Rightarrow> operation \<Rightarrow> (string \<times> jsval) list option \<Rightarrow> string \<Rightarrow> figma \<Rightarrow> variables
     \<Rightarrow> outcome_of_op \<times> figma \<times> variables" where
  "place_and_fill h opn props i doc vars =
     (case resolveVarRef (o_parent opn) vars of
        Inl e \<Rightarrow> (Break e, doc, vars)
      | Inr parentId \<Rightarrow>
          (case (if given parentId
                 then (case getNodeById doc (the parentId) of
                         None \<Rightarrow> (None, doc)
                       | Some p \<Rightarrow>
                           if nkids p \<noteq> None then moveNode (the parentId) i None doc
                           else (None, doc))
                 else (None, doc)) of
             (Some e, doc1) \<Rightarrow> (Break e, doc1, vars)
           | (None, doc1) \<Rightarrow>
               (case (case props of
                        None \<Rightarrow> (None, doc1)
                      | Some p \<Rightarrow> onNode i (\<lambda>n. applyNodeProperties h n p) doc1) of
                  (Some e, doc2) \<Rightarrow> (Break e, doc2, vars)
                | (None, doc2) \<Rightarrow>
                    (Continue (success_entry opn (o_variable opn) i), doc2,
                     if given (o_variable opn) then map_set (the (o_variable opn)) i vars else vars))))"

text \<open>Font loading of \<open>CREATE_TEXT\<close>: the requested font, else a style of the same
  family (the same style up to case, else \<open>Regular\<close>, else the first listed), else
  Inter Regular; the last load is outside every \<open>try\<close>.  The fonts listed by
  \<open>listAvailableFontsAsync\<close> are the ones \<open>loadFontAsync\<close> loads.  A style that is not a
  string makes \<open>toLowerCase\<close> throw inside the inner \<open>try\<close>, which leads to the last
  fallback.\<close>

definition is_string :: "jsval \<Rightarrow> bool" where
  "is_string v = (case v of JStr s \<Rightarrow> True | _ \<Rightarrow> False)"

definition lower :: "string \<Rightarrow> string" where
  "lower s = map (\<lambda>c. let n = (of_char c :: nat) in if 65 \<le> n \<and> n \<le> 90 then char_of (n + 32) else c) s"

definition arr_lower :: "jsval \<Rightarrow> jsval" where
  "arr_lower v = (case v of JStr s \<Rightarrow> JStr (lower s) | _ \<Rightarrow> JUndefined)"

definition pick_font :: "host \<Rightarrow> jsval \<Rightarrow> jsval \<Rightarrow> string + jsval" where
  "pick_font h fontFamily fontStyle =
     (if loadFont h (JObj [(''family'', fontFamily), (''style'', fontStyle)])
      then Inr (JObj [(''family'', fontFamily), (''style'', fontStyle)])
      else
        (let familyFonts = filter (\<lambda>f. JStr (fst f) = fontFamily) (fonts h)
         in if length familyFonts > 0 \<and> is_string fontStyle then
              (case find (\<lambda>f. JStr (lower (snd f)) = arr_lower fontStyle) familyFonts of
                 Some exactMatch \<Rightarrow> Inr (JObj [(''family'', fontFamily), (''style'', JStr (snd exactMatch))])
               | None \<Rightarrow>
                   (case find (\<lambda>f. snd f = ''Regular'') familyFonts of
                      Some regular \<Rightarrow> Inr (JObj [(''family'', fontFamily), (''style'', JStr (snd regular))])
                    | None \<Rightarrow>
                        Inr (JObj [(''family'', fontFamily), (''style'', JStr (snd (hd familyFonts)))])))
            else if loadFont h inter_regular then Inr inter_regular
            else Inl (font_error inter_regular)))"

definition node_target ::
  "string \<Rightarrow> operation \<Rightarrow> figma \<Rightarrow> variables \<Rightarrow> string + string" where
  "node_target name opn doc vars =
     (case resolveVarRef (o_nodeId opn) vars of
        Inl e \<Rightarrow> Inl e
      | Inr r \<Rightarrow>
          if \<not> given r then Inl (name @ '': missing node reference'')
          else (case getNodeById doc (the r) of
                  None \<Rightarrow> Inl (name @ '': node not found: '' @ the r)
                | Some n \<Rightarrow> Inr (the r)))"

definition gradient_fill :: "(string \<times> jsval) list \<Rightarrow> string + jsval" where
  "gradient_fill props =
     (case js_or (pget props ''gradientType'') (JStr ''GRADIENT_LINEAR'') of
        JStr gradientType \<Rightarrow>
          (let figmaType = (if startsWith gradientType ''GRADIENT_'' then gradientType
                            else ''GRADIENT_'' @ gradientType);
               stops = js_or (pget props ''gradientStops'') (JArr [])
           in if is_array stops then
                Inr (js_object
                  [(''type'', JStr figmaType),
                   (''gradientStops'',
                      arr_map (\<lambda>s. js_object [(''position'', pget (members s) ''position''),
                                                (''color'', pget (members s) ''color'')]) stops),
                   (''gradientTransform'', js_or (pget props ''gradientTransform'') identity_transform)])
              else Inl ''TypeError: map is not a function'')
      | _ \<Rightarrow> Inl ''TypeError: gradientType.startsWith is not a function'')"

definition new_effect :: "(string \<times> jsval) list \<Rightarrow> jsval" where
  "new_effect props =
     js_object
       [(''type'', js_or (pget props ''type'') (JStr ''DROP_SHADOW'')),
        (''visible'', JBool True),
        (''radius'', pget props ''radius''),
        (''color'', if truthy (pget props ''color'') then pget props ''color'' else JUndefined),
        (''offset'', if truthy (pget props ''offset'') then pget props ''offset'' else JUndefined),
        (''spread'', pget props ''spread'')]"

subsection \<open>One iteration of the loop\<close>

definition exec_op ::
  "host \<Rightarrow> operation \<Rightarrow> figma \<Rightarrow> variables \<Rightarrow> outcome_of_op \<times> figma \<times> variables" where
  "exec_op h opn doc vars =
     (if o_op opn = ''CREATE_FRAME'' then
        (case createNode h ''FRAME'' doc of
           (i, doc1) \<Rightarrow> place_and_fill h opn (o_props opn) i doc1 vars)
      else if o_op opn = ''CREATE_TEXT'' then
        (case createNode h ''TEXT'' doc of
           (i, doc1) \<Rightarrow>
             (case pick_font h (js_or (o_fontFamily opn) (JStr ''Inter''))
                     (js_or (o_fontStyle opn) (JStr ''Regular'')) of
                Inl e \<Rightarrow> (Break e, doc1, vars)
              | Inr fontName \<Rightarrow>
                  (let doc2 = modifyNode i (assign ''fontName'' fontName) doc1;
                       p0 = the_props opn;
                       doc3 = (if truthy (pget p0 ''characters'')
                               then modifyNode i (assign ''characters'' (pget p0 ''characters'')) doc2
                               else doc2);
                       p1 = (if truthy (pget p0 ''characters'') then map_delete ''characters'' p0 else p0);
                       doc4 = (if truthy (pget p1 ''fontSize'')
                               then modifyNode i (assign ''fontSize'' (pget p1 ''fontSize'')) doc3
                               else doc3);
                       p2 = (if truthy (pget p1 ''fontSize'') then map_delete ''fontSize'' p1 else p1)
                   in place_and_fill h opn (map_option (\<lambda>_. p2) (o_props opn)) i doc4 vars)))
      else if o_op opn = ''CREATE_RECT'' then
        (case createNode h ''RECTANGLE'' doc of
           (i, doc1) \<Rightarrow> place_and_fill h opn (o_props opn) i doc1 vars)
      else if o_op opn = ''SET_IMAGE_FILL'' then
        (case node_target ''SET_IMAGE_FILL'' opn doc vars of
           Inl e \<Rightarrow> (Break e, doc, vars)
         | Inr i \<Rightarrow>
             if \<not> given (o_base64 opn) then (Break ''SET_IMAGE_FILL: missing image data'', doc, vars)
             else
               (Continue (success_entry opn None i),
                modifyNode i
                  (assign ''fills''
                     (JArr [js_object
                        [(''type'', JStr ''IMAGE''),
                         (''scaleMode'', js_or (o_scaleMode opn) (JStr ''FILL'')),
                         (''imageHash'', JStr (imageHash h (the (o_base64 opn))))]])) doc,
                vars))
      else if o_op opn = ''TRIM'' then
        (case node_target ''TRIM'' opn doc vars of
           Inl e \<Rightarrow> (Break e, doc, vars)
         | Inr i \<Rightarrow> (Continue (success_entry opn None i), doc, vars))
      else if o_op opn = ''UPDATE'' then
        (case node_target ''UPDATE'' opn doc vars of
           Inl e \<Rightarrow> (Break e, doc, vars)
         | Inr i \<Rightarrow>
             (case (case o_props opn of
                      None \<Rightarrow> (None, doc)
                    | Some p \<Rightarrow> onNode i (\<lambda>n. applyNodeProperties h n p) doc) of
                (Some e, doc1) \<Rightarrow> (Break e, doc1, vars)
              | (None, doc1) \<Rightarrow> (Continue (success_entry opn None i), doc1, vars)))
      else if o_op opn = ''SET_GRADIENT'' then
        (case node_target ''SET_GRADIENT'' opn doc vars of
           Inl e \<Rightarrow> (Break e, doc, vars)
         | Inr i \<Rightarrow>
             (case gradient_fill (the_props opn) of
                Inl e \<Rightarrow> (Break e, doc, vars)
              | Inr fill \<Rightarrow>
                  (Continue (success_entry opn None i),
                   modifyNode i (assign ''fills'' (JArr [fill])) doc, vars)))
      else if o_op opn = ''ADD_EFFECT'' then
        (case node_target ''ADD_EFFECT'' opn doc vars of
           Inl e \<Rightarrow> (Break e, doc, vars)
         | Inr i \<Rightarrow>
             (Continue (success_entry opn None i),
              modifyNode i
                (\<lambda>n. assign ''effects''
                        (JArr (elements (js_or (pget (nprops n) ''effects'') (JArr []))
                               @ [new_effect (the_props opn)])) n) doc,
              vars))
      else if o_op opn = ''DELETE'' then
        (case node_target ''DELETE'' opn doc vars of
           Inl e \<Rightarrow> (Break e, doc, vars)
         | Inr i \<Rightarrow> (Continue (success_entry opn None i), removeNode i doc, vars))
      else if o_op opn = ''REPARENT'' then
        (case resolveVarRef (o_nodeId opn) vars of
           Inl e \<Rightarrow> (Break e, doc, vars)
         | Inr reparentNodeId \<Rightarrow>
             (case resolveVarRef (o_newParent opn) vars of
                Inl e \<Rightarrow> (Break e, doc, vars)
              | Inr newParentId \<Rightarrow>
                  if \<not> given reparentNodeId then (Break ''REPARENT: missing node reference'', doc, vars)
                  else if \<not> given newParentId
                  then (Break ''REPARENT: missing new parent reference'', doc, vars)
                  else if getNodeById doc (the reparentNodeId) = None
                  then (Break (''REPARENT: node not found: '' @ the reparentNodeId), doc, vars)
                  else if getNodeById doc (the newParentId) = None
                  then (Break (''REPARENT: parent not found: '' @ the newParentId), doc, vars)
                  else
                    (case (case o_index opn of
                             JUndefined \<Rightarrow> moveNode (the newParentId) (the reparentNodeId) None doc
                           | JNum k \<Rightarrow>
                               if of_int \<lfloor>k\<rfloor> = k
                               then moveNode (the newParentId) (the reparentNodeId) (Some \<lfloor>k\<rfloor>) doc
                               else (Some ''in insertChild: index out of bounds'', doc)
                           | _ \<Rightarrow> (Some ''in insertChild: index out of bounds'', doc)) of
                       (Some e, doc1) \<Rightarrow> (Break e, doc1, vars)
                     | (None, doc1) \<Rightarrow>
                         (Continue (success_entry opn None (the reparentNodeId)), doc1, vars))))
      else (Continue (unknown_entry opn), doc, vars))"

subsection \<open>The loop and the response\<close>

record batchState =
  b_doc :: figma
  b_vars :: variables
  b_results :: "opResult list"

fun run_ops :: "host \<Rightarrow> operation list \<Rightarrow> batchState \<Rightarrow> batchState" where
  "run_ops h [] st = st"
| "run_ops h (opn # rest) st =
     (case exec_op h opn (b_doc st) (b_vars st) of
        (Continue r, d, v) \<Rightarrow>
          run_ops h rest \<lparr>b_doc = d, b_vars = v, b_results = b_results st @ [r]\<rparr>
      | (Break e, d, v) \<Rightarrow>
          \<lparr>b_doc = d, b_vars = v, b_results = b_results st @ [failure_entry opn e]\<rparr>)"

record batchResponse =
  br_results :: "opResult list"
  br_variableBindings :: variables
  br_errors :: "opResult list"

definition handleBatchOperations :: "host \<Rightarrow> operation list \<Rightarrow> figma \<Rightarrow> batchResponse \<times> figma" where
  "handleBatchOperations h operations doc =
     (let st = run_ops h operations \<lparr>b_doc = doc, b_vars = [], b_results = []\<rparr>
      in (\<lparr>br_results = b_results st, br_variableBindings = b_vars st,
           br_errors = filter (\<lambda>r. \<not> r_success r) (b_results st)\<rparr>,
          b_doc st))"

text \<open>No operation of the list throws when the list is run from \<open>st\<close>.\<close>

fun all_continue :: "host \<Rightarrow> operation list \<Rightarrow> batchState \<Rightarrow> bool" where
  "all_continue h [] st = True"
| "all_continue h (opn # rest) st =
     (case exec_op h opn (b_doc st) (b_vars st) of
        (Continue r, d, v) \<Rightarrow>
          all_continue h rest \<lparr>b_doc = d, b_vars = v, b_results = b_results st @ [r]\<rparr>
      | (Break e, d, v) \<Rightarrow> False)"

definition known_ops :: "string list" where
  "known_ops =
     [''CREATE_FRAME'', ''CREATE_TEXT'', ''CREATE_RECT'', ''SET_IMAGE_FILL'', ''UPDATE'',
      ''SET_GRADIENT'', ''ADD_EFFECT'', ''TRIM'', ''DELETE'', ''REPARENT'']"

definition blank_op :: operation where
  "blank_op =
     \<lparr>o_op = [], o_variable = None, o_parent = None, o_nodeId = None, o_props = None,
      o_fontFamily = JUndefined, o_fontStyle = JUndefined, o_base64 = None,
      o_scaleMode = JUndefined,
      o_newParent = None, o_index = JUndefined\<rparr>"

text \<open>A script of four lines whose third refers to a variable that was never bound.\<close>

definition sample_pre :: "operation list" where
  "sample_pre =
     [blank_op\<lparr>o_op := ''CREATE_FRAME'', o_variable := Some ''a'', o_parent := None,
               o_props := Some [(''width'', JNum 10), (''height'', JNum 10)]\<rparr>,
      blank_op\<lparr>o_op := ''CREATE_RECT'', o_variable := Some ''b'', o_parent := Some ''$a'',
               o_props := Some [(''width'', JNum 5), (''height'', JNum 5)]\<rparr>]"

definition sample_failing :: operation where
  "sample_failing =
     blank_op\<lparr>o_op := ''UPDATE'', o_nodeId := Some ''$c'', o_props := Some [(''width'', JNum 6)]\<rparr>"

definition sample_post :: "operation list" where
  "sample_post =
     [blank_op\<lparr>o_op := ''CREATE_RECT'', o_variable := Some ''d'', o_parent := Some ''$a'',
               o_props := Some []\<rparr>]"

definition sample_script :: "operation list" where
  "sample_script = sample_pre @ sample_failing # sample_post"

text \<open>A script whose first operation has a kind that the interpreter does not know.\<close>

definition unknown_first :: "operation list" where
  "unknown_first =
     [blank_op\<lparr>o_op := ''NOPE''\<rparr>,
      blank_op\<lparr>o_op := ''CREATE_FRAME'', o_variable := Some ''a'', o_props := Some []\<rparr>]"

definition empty_doc :: figma where
  "empty_doc = \<lparr>page = [], nextNode = 1\<rparr>"

definition start :: "figma \<Rightarrow> batchState" where
  "start doc = \<lparr>b_doc = doc, b_vars = [], b_results = []\<rparr>"

section \<open>The script parser of the backend (dsl-parser.ts)\<close>

text \<open>
  Strings are taken as sequences of one-byte characters.  What the parser gets from the
  JavaScript library and the conversions it imports are parameters: \<open>parsePropsObject\<close>
  (the key-quoting regular expression followed by \<open>JSON.parse\<close>), \<open>convertToolProps\<close>,
  \<open>hexToRgba\<close>, \<open>rotationToGradientTransform\<close>, and reading an image file as base64.
\<close>

record env =
  parsePropsObject :: "string \<Rightarrow> nat \<Rightarrow> string + (string \<times> jsval) list"
  convertToolProps :: "(string \<times> jsval) list \<Rightarrow> (string \<times> jsval) list"
  hexToRgba :: "string \<Rightarrow> jsval"
  rotationToGradientTransform :: "jsval \<Rightarrow> jsval"
  readImage :: "jsval \<Rightarrow> string + string"
  coerced_le :: "jsval \<Rightarrow> rat \<Rightarrow> bool"

definition CREATE_OPS :: "string list" where
  "CREATE_OPS = [''CREATE_FRAME'', ''CREATE_TEXT'', ''CREATE_RECT'']"

definition MUTATION_OPS :: "string list" where
  "MUTATION_OPS = [''SET_IMAGE_FILL'', ''UPDATE'', ''SET_GRADIENT'', ''ADD_EFFECT'']"

definition SIMPLE_OPS :: "string list" where
  "SIMPLE_OPS = [''TRIM'', ''DELETE'']"

definition ALL_OPS :: "string list" where
  "ALL_OPS = CREATE_OPS @ MUTATION_OPS @ SIMPLE_OPS @ [''REPARENT'']"

definition substring :: "string \<Rightarrow> nat \<Rightarrow> nat \<Rightarrow> string" where
  "substring s a b = take (b - a) (drop a s)"

fun index_from :: "char \<Rightarrow> nat \<Rightarrow> string \<Rightarrow> nat option" where
  "index_from c i [] = None"
| "index_from c i (x # xs) = (if x = c then Some i else index_from c (i + 1) xs)"

definition indexOf :: "string \<Rightarrow> char \<Rightarrow> nat option" where
  "indexOf s c = index_from c 0 s"

definition dquote :: char where "dquote = CHR 0x22"
definition squote :: char where "squote = CHR 0x27"
definition backslash :: char where "backslash = CHR 0x5C"

text \<open>The string-tracking step shared by all scanners: inside a string the closing quote
  ends it unless the character before is a backslash.\<close>

definition in_string_next :: "char \<Rightarrow> char \<Rightarrow> char \<Rightarrow> char option" where
  "in_string_next q prev ch = (if ch = q \<and> prev \<noteq> backslash then None else Some q)"

fun strip_scan :: "nat \<Rightarrow> char option \<Rightarrow> char \<Rightarrow> string \<Rightarrow> nat option" where
  "strip_scan i ins prev [] = None"
| "strip_scan i ins prev (ch # rest) =
     (case ins of
        Some q \<Rightarrow> strip_scan (i + 1) (in_string_next q prev ch) ch rest
      | None \<Rightarrow>
          if ch = dquote \<or> ch = squote then strip_scan (i + 1) (Some ch) ch rest
          else if ch = CHR ''/'' \<and> (case rest of [] \<Rightarrow> False | n # _ \<Rightarrow> n = CHR ''/'')
          then Some i
          else strip_scan (i + 1) None ch rest)"

definition stripInlineComment :: "string \<Rightarrow> string" where
  "stripInlineComment line =
     (case strip_scan 0 None (CHR ''x'') line of
        Some i \<Rightarrow> trim (substring line 0 i)
      | None \<Rightarrow> line)"

text \<open>\<open>findMatchingParen\<close> and \<open>findMatchingBrace\<close> have the same body up to the pair of
  delimiters.\<close>

fun match_scan :: "char \<Rightarrow> char \<Rightarrow> nat \<Rightarrow> int \<Rightarrow> char option \<Rightarrow> char \<Rightarrow> string \<Rightarrow> nat option" where
  "match_scan opn cls i depth ins prev [] = None"
| "match_scan opn cls i depth ins prev (ch # rest) =
     (case ins of
        Some q \<Rightarrow> match_scan opn cls (i + 1) depth (in_string_next q prev ch) ch rest
      | None \<Rightarrow>
          if ch = dquote \<or> ch = squote then match_scan opn cls (i + 1) depth (Some ch) ch rest
          else if ch = opn then match_scan opn cls (i + 1) (depth + 1) None ch rest
          else if ch = cls then
            (if depth - 1 = 0 then Some i else match_scan opn cls (i + 1) (depth - 1) None ch rest)
          else match_scan opn cls (i + 1) depth None ch rest)"

definition findMatchingParen :: "string \<Rightarrow> nat \<Rightarrow> nat option" where
  "findMatchingParen str start' =
     match_scan (CHR ''('') (CHR '')'') start' 0 None (CHR ''x'') (drop start' str)"

definition findMatchingBrace :: "string \<Rightarrow> nat \<Rightarrow> nat option" where
  "findMatchingBrace str start' =
     match_scan (CHR ''{'') (CHR ''}'') start' 0 None (CHR ''x'') (drop start' str)"

fun brace_scan :: "nat \<Rightarrow> char option \<Rightarrow> char \<Rightarrow> string \<Rightarrow> nat option" where
  "brace_scan i ins prev [] = None"
| "brace_scan i ins prev (ch # rest) =
     (case ins of
        Some q \<Rightarrow> brace_scan (i + 1) (in_string_next q prev ch) ch rest
      | None \<Rightarrow>
          if ch = dquote \<or> ch = squote then brace_scan (i + 1) (Some ch) ch rest
          else if ch = CHR ''{'' then Some i
          else brace_scan (i + 1) None ch rest)"

definition findFirstBrace :: "string \<Rightarrow> nat option" where
  "findFirstBrace str = brace_scan 0 None (CHR ''x'') str"

text \<open>\<open>splitTopLevel\<close>: \<open>cur\<close> is \<open>current\<close> reversed.\<close>

fun split_scan :: "char \<Rightarrow> string \<Rightarrow> int \<Rightarrow> char option \<Rightarrow> char \<Rightarrow> string \<Rightarrow> string list" where
  "split_scan delim cur depth ins prev [] = (if cur \<noteq> [] then [rev cur] else [])"
| "split_scan delim cur depth ins prev (ch # rest) =
     (case ins of
        Some q \<Rightarrow> split_scan delim (ch # cur) depth (in_string_next q prev ch) ch rest
      | None \<Rightarrow>
          if ch = dquote \<or> ch = squote then split_scan delim (ch # cur) depth (Some ch) ch rest
          else if ch = CHR ''{'' \<or> ch = CHR ''('' \<or> ch = CHR ''[''
          then split_scan delim (ch # cur) (depth + 1) None ch rest
          else if ch = CHR ''}'' \<or> ch = CHR '')'' \<or> ch = CHR '']''
          then split_scan delim (ch # cur) (depth - 1) None ch rest
          else if ch = delim \<and> depth = 0 then rev cur # split_scan delim [] depth None ch rest
          else split_scan delim (ch # cur) depth None ch rest)"

definition splitTopLevel :: "string \<Rightarrow> char \<Rightarrow> string list" where
  "splitTopLevel str delimiter = split_scan delimiter [] 0 None (CHR ''x'') str"

definition simple_args :: "string \<Rightarrow> string list" where
  "simple_args s = filter (\<lambda>a. length a > 0) (map trim (splitTopLevel s (CHR '','')))"

text \<open>\<open>s.replace(/,\s*$/, '')\<close> on a trimmed string: a final comma is removed.\<close>

definition drop_final_comma :: "string \<Rightarrow> string" where
  "drop_final_comma s = (if s \<noteq> [] \<and> last s = CHR '','' then butlast s else s)"

definition line_prefix :: "nat \<Rightarrow> string" where
  "line_prefix lineNumber = ''Line '' @ digits lineNumber @ '': ''"

definition splitArgs ::
  "env \<Rightarrow> string \<Rightarrow> nat \<Rightarrow> string + (string list \<times> (string \<times> jsval) list option)" where
  "splitArgs ev argsContent lineNumber =
     (if argsContent = [] then Inr ([], None)
      else
        (case findFirstBrace argsContent of
           None \<Rightarrow> Inr (simple_args argsContent, None)
         | Some braceIdx \<Rightarrow>
             (let beforeBrace = drop_final_comma (trim (substring argsContent 0 braceIdx));
                  simpleArgs = (if beforeBrace \<noteq> [] then simple_args beforeBrace else [])
              in case findMatchingBrace argsContent braceIdx of
                   None \<Rightarrow> Inl (line_prefix lineNumber @ ''Unmatched brace in props'')
                 | Some closeBrace \<Rightarrow>
                     (case parsePropsObject ev (substring argsContent braceIdx (closeBrace + 1)) lineNumber of
                        Inl e \<Rightarrow> Inl e
                      | Inr props \<Rightarrow>
                          (let afterBrace = trim (drop (closeBrace + 1) argsContent)
                           in if startsWith afterBrace '',''
                              then Inr (simpleArgs @ simple_args (drop 1 afterBrace), Some props)
                              else Inr (simpleArgs, Some props))))))"

text \<open>\<open>weightToStyle\<close> of the parser; the comparison of a value that is not a number
  is the backend interpreter's, a parameter.\<close>

definition weightToStyle :: "env \<Rightarrow> jsval \<Rightarrow> string" where
  "weightToStyle ev weight =
     (if js_le (coerced_le ev) weight 200 then ''Ultralight''
      else if js_le (coerced_le ev) weight 300 then ''Light''
      else if js_le (coerced_le ev) weight 400 then ''Regular''
      else if js_le (coerced_le ev) weight 500 then ''Medium''
      else if js_le (coerced_le ev) weight 600 then ''SemiBold''
      else if js_le (coerced_le ev) weight 700 then ''Bold''
      else ''Black'')"

definition parseCreateOp ::
  "env \<Rightarrow> string \<Rightarrow> string \<Rightarrow> string \<Rightarrow> nat \<Rightarrow> string + operation" where
  "parseCreateOp ev opName var argsContent lineNumber =
     (case splitArgs ev argsContent lineNumber of
        Inl e \<Rightarrow> Inl e
      | Inr (simpleArgs, props) \<Rightarrow>
          if length simpleArgs < 1
          then Inl (line_prefix lineNumber @ opName @ '' requires a parent reference'')
          else
            (let result = blank_op\<lparr>o_op := opName, o_variable := Some var,
                                   o_parent := resolveRef (hd simpleArgs)\<rparr>
             in case props of
                  None \<Rightarrow> Inr (result\<lparr>o_props := Some []\<rparr>)
                | Some p0 \<Rightarrow>
                    if opName \<noteq> ''CREATE_TEXT'' then Inr (result\<lparr>o_props := Some p0\<rparr>)
                    else
                      (let fontFamily = (if truthy (pget p0 ''fontFamily'') then pget p0 ''fontFamily''
                                         else JUndefined);
                           p1 = (if truthy (pget p0 ''fontFamily'') then map_delete ''fontFamily'' p0 else p0);
                           fontStyle0 = (if truthy (pget p1 ''fontStyle'') then pget p1 ''fontStyle''
                                         else JUndefined);
                           p2 = (if truthy (pget p1 ''fontStyle'') then map_delete ''fontStyle'' p1 else p1);
                           fontStyle = (if pget p2 ''fontWeight'' \<noteq> JUndefined
                                        then js_or fontStyle0 (JStr (weightToStyle ev (pget p2 ''fontWeight'')))
                                        else fontStyle0);
                           p3 = (if pget p2 ''fontWeight'' \<noteq> JUndefined then map_delete ''fontWeight'' p2
                                 else p2);
                           p4 = (if pget p3 ''text'' \<noteq> JUndefined
                                 then map_delete ''text'' (put ''characters'' (pget p3 ''text'') p3)
                                 else p3)
                       in Inr (result\<lparr>o_props := Some p4, o_fontFamily := fontFamily,
                                      o_fontStyle := fontStyle\<rparr>))))"

definition parseMutationOp :: "env \<Rightarrow> string \<Rightarrow> string \<Rightarrow> nat \<Rightarrow> string + operation" where
  "parseMutationOp ev opName argsContent lineNumber =
     (case splitArgs ev argsContent lineNumber of
        Inl e \<Rightarrow> Inl e
      | Inr (simpleArgs, props) \<Rightarrow>
          if length simpleArgs < 1
          then Inl (line_prefix lineNumber @ opName @ '' requires a node reference'')
          else Inr (blank_op\<lparr>o_op := opName, o_nodeId := Some (hd simpleArgs),
                             o_props := Some (case props of None \<Rightarrow> [] | Some p \<Rightarrow> p)\<rparr>))"

definition parseSimpleOp :: "env \<Rightarrow> string \<Rightarrow> string \<Rightarrow> nat \<Rightarrow> string + operation" where
  "parseSimpleOp ev opName argsContent lineNumber =
     (case splitArgs ev argsContent lineNumber of
        Inl e \<Rightarrow> Inl e
      | Inr (simpleArgs, props) \<Rightarrow>
          if length simpleArgs < 1
          then Inl (line_prefix lineNumber @ opName @ '' requires a node reference'')
          else Inr (blank_op\<lparr>o_op := opName, o_nodeId := Some (hd simpleArgs)\<rparr>))"

text \<open>
  The number that a natural number becomes as a double: itself below \<open>2^53\<close>, and
  rounded to 53 significant bits, ties to even, from there on; \<open>None\<close> is \<open>Infinity\<close>.
\<close>

function bits :: "int \<Rightarrow> nat" where
  "bits n = (if n \<le> 0 then 0 else Suc (bits (n div 2)))"
  by pat_completeness auto
termination
  by (relation "measure nat") auto

definition to_double :: "int \<Rightarrow> int option" where
  "to_double n =
     (if bits n \<le> 53 then Some n
      else
        (let k = bits n - 53;
             q = n div 2 ^ k;
             r = n mod 2 ^ k;
             q' = (if r > 2 ^ (k - 1) \<or> (r = 2 ^ (k - 1) \<and> odd q) then q + 1 else q)
         in if q' * 2 ^ k \<ge> 2 ^ 1024 then None else Some (q' * 2 ^ k)))"

fun digits_int :: "int \<Rightarrow> string \<Rightarrow> int" where
  "digits_int acc [] = acc"
| "digits_int acc (c # cs) =
     (case digit_of c of None \<Rightarrow> acc | Some d \<Rightarrow> digits_int (10 * acc + int d) cs)"

text \<open>\<open>parseInt(s, 10)\<close>: leading blanks, a sign, then the longest run of digits, read
  as a double; \<open>NaN\<close> (here \<open>JNaN\<close>) when there is no digit.  An infinite result is
  given as it is sent to the plugin, \<open>null\<close>.\<close>

definition parseInt :: "string \<Rightarrow> jsval" where
  "parseInt s =
     (let t = trimStart s;
          neg = (t \<noteq> [] \<and> hd t = CHR ''-'');
          u = (if t \<noteq> [] \<and> (hd t = CHR ''-'' \<or> hd t = CHR ''+'') then tl t else t);
          ds = takeWhile (\<lambda>c. digit_of c \<noteq> None) u
      in if ds = [] then JNaN
         else (case to_double (digits_int 0 ds) of
                 None \<Rightarrow> JNull
               | Some m \<Rightarrow> JNum (if neg then - of_int m else of_int m)))"

definition parseReparentOp :: "env \<Rightarrow> string \<Rightarrow> nat \<Rightarrow> string + operation" where
  "parseReparentOp ev argsContent lineNumber =
     (case splitArgs ev argsContent lineNumber of
        Inl e \<Rightarrow> Inl e
      | Inr (simpleArgs, props) \<Rightarrow>
          if length simpleArgs < 2
          then Inl (line_prefix lineNumber @ ''REPARENT requires nodeRef and newParentRef'')
          else
            (let result = blank_op\<lparr>o_op := ''REPARENT'', o_nodeId := Some (simpleArgs ! 0),
                                   o_newParent := Some (simpleArgs ! 1)\<rparr>
             in if length simpleArgs \<ge> 3 then
                  (case parseInt (simpleArgs ! 2) of
                     JNaN \<Rightarrow> Inl (line_prefix lineNumber @ ''REPARENT index must be a number, got \"''
                                   @ simpleArgs ! 2 @ ''\"'')
                   | idx \<Rightarrow> Inr (result\<lparr>o_index := idx\<rparr>))
                else Inr result))"

definition parseLine :: "env \<Rightarrow> string \<Rightarrow> nat \<Rightarrow> string + operation" where
  "parseLine ev line lineNumber =
     (let firstParen = indexOf line (CHR ''('');
          firstEq = indexOf line (CHR ''='');
          assignment = (case firstEq of
                          None \<Rightarrow> False
                        | Some e \<Rightarrow> e > 0 \<and> (case firstParen of None \<Rightarrow> True | Some p \<Rightarrow> e < p));
          var = (if assignment then Some (trim (substring line 0 (the firstEq))) else None);
          rest = (if assignment then trim (drop (the firstEq + 1) line) else line)
      in case indexOf rest (CHR ''('') of
           None \<Rightarrow> Inl (line_prefix lineNumber @ ''Missing opening parenthesis: '' @ line)
         | Some openParen \<Rightarrow>
             (let opName = trim (substring rest 0 openParen)
              in if opName \<notin> set ALL_OPS
                 then Inl (line_prefix lineNumber @ ''Unknown operation \"'' @ opName @ ''\". Valid: ''
                           @ join ALL_OPS '', '')
                 else
                   (case findMatchingParen rest openParen of
                      None \<Rightarrow> Inl (line_prefix lineNumber @ ''Unmatched parenthesis: '' @ line)
                    | Some closeParen \<Rightarrow>
                        (let argsContent = trim (substring rest (openParen + 1) closeParen)
                         in if opName \<in> set CREATE_OPS then
                              (if \<not> given var
                               then Inl (line_prefix lineNumber
                                         @ ''CREATE operations must assign to a variable: varName=''
                                         @ opName @ ''(...)'')
                               else parseCreateOp ev opName (the var) argsContent lineNumber)
                            else if opName = ''REPARENT'' then parseReparentOp ev argsContent lineNumber
                            else if opName \<in> set SIMPLE_OPS
                            then parseSimpleOp ev opName argsContent lineNumber
                            else parseMutationOp ev opName argsContent lineNumber))))"

text \<open>The loop of \<open>parseDSL\<close> over the lines, \<open>i\<close> being the index of the first of
  them.\<close>

fun parseLines :: "env \<Rightarrow> nat \<Rightarrow> string list \<Rightarrow> string + operation list" where
  "parseLines ev i [] = Inr []"
| "parseLines ev i (l # ls) =
     (let line = trim l
      in if line = [] \<or> startsWith line ''//'' then parseLines ev (i + 1) ls
         else
           (let line' = stripInlineComment line
            in if line' = [] then parseLines ev (i + 1) ls
               else
                 (case parseLine ev line' (i + 1) of
                    Inl e \<Rightarrow> Inl e
                  | Inr opn \<Rightarrow>
                      (case parseLines ev (i + 1) ls of
                         Inl e \<Rightarrow> Inl e
                       | Inr ops \<Rightarrow> Inr (opn # ops)))))"

definition parseDSL :: "env \<Rightarrow> string \<Rightarrow> string + operation list" where
  "parseDSL ev dsl = parseLines ev 0 (split dsl (CHR 0x0A))"

section \<open>The batch_operations tool of the backend (batch-operations.ts)\<close>

text \<open>Step 3 of \<open>batchOperations\<close> for one operation.\<close>

definition convert_stop :: "env \<Rightarrow> jsval \<Rightarrow> jsval" where
  "convert_stop ev s =
     js_object
       [(''position'', pget (members s) ''position''),
        (''color'', (case pget (members s) ''color'' of
                       JStr c \<Rightarrow> hexToRgba ev c
                     | c \<Rightarrow> c))]"

definition processOp :: "env \<Rightarrow> operation \<Rightarrow> string + operation" where
  "processOp ev opn =
     (let p1 = (case o_props opn of
                  None \<Rightarrow> None
                | Some p \<Rightarrow> if length p > 0 then Some (convertToolProps ev p) else Some p)
      in if o_op opn = ''SET_IMAGE_FILL'' \<and> p1 \<noteq> None then
           (let p = the p1
            in if \<not> truthy (pget p ''imagePath'')
               then Inl ''SET_IMAGE_FILL requires imagePath in props''
               else
                 (case readImage ev (pget p ''imagePath'') of
                    Inl e \<Rightarrow> Inl e
                  | Inr b64 \<Rightarrow>
                      Inr (opn\<lparr>o_base64 := Some b64,
                               o_scaleMode := js_or (pget p ''scaleMode'') (JStr ''FILL''),
                               o_props := Some (map_delete ''scaleMode'' (map_delete ''imagePath'' p))\<rparr>)))
         else if o_op opn = ''SET_GRADIENT'' \<and> p1 \<noteq> None then
           (let p = the p1;
                q1 = (if truthy (pget p ''gradientStops'') \<and> is_array (pget p ''gradientStops'')
                      then put ''gradientStops'' (arr_map (convert_stop ev) (pget p ''gradientStops'')) p
                      else p);
                q2 = (if pget q1 ''rotation'' \<noteq> JUndefined
                      then map_delete ''rotation''
                             (put ''gradientTransform''
                                (rotationToGradientTransform ev (pget q1 ''rotation'')) q1)
                      else q1)
            in Inr (opn\<lparr>o_props := Some q2\<rparr>))
         else if o_op opn = ''ADD_EFFECT'' \<and> p1 \<noteq> None then
           (let p = the p1
            in Inr (opn\<lparr>o_props :=
                 Some (case pget p ''color'' of
                         JStr c \<Rightarrow> if c \<noteq> [] then put ''color'' (hexToRgba ev c) p else p
                       | _ \<Rightarrow> p)\<rparr>))
         else Inr (opn\<lparr>o_props := p1\<rparr>))"

fun processAll :: "env \<Rightarrow> operation list \<Rightarrow> string + operation list" where
  "processAll ev [] = Inr []"
| "processAll ev (opn # ops) =
     (case processOp ev opn of
        Inl e \<Rightarrow> Inl e
      | Inr p \<Rightarrow> (case processAll ev ops of Inl e \<Rightarrow> Inl e | Inr ps \<Rightarrow> Inr (p # ps)))"

text \<open>
  The plugin's side of the tool: the document, and the batches that reached it.  A
  batch that is sent is delivered and run by \<open>handleBatchOperations\<close>, whose response
  resolves the promise.
\<close>

record plugin =
  p_doc :: figma
  p_received :: "operation list list"

definition arrow :: string where
  "arrow = [CHR 0xE2, CHR 0x86, CHR 0x92]"

definition summary_line :: "opResult \<Rightarrow> string list" where
  "summary_line r =
     (if given (r_variable r) \<and> given (r_nodeId r)
      then [the (r_variable r) @ '' '' @ arrow @ '' '' @ the (r_nodeId r) @ '' ('' @ r_op r @ '')'']
      else if r_op r \<noteq> []
      then [r_op r @ '' '' @ arrow @ '' '' @
              (if r_success r then ''ok'' else (case r_error r of None \<Rightarrow> ''undefined'' | Some e \<Rightarrow> e))]
      else [])"

record toolResult =
  t_message :: string
  t_results :: "string list"
  t_variableBindings :: variables
  t_errors :: "opResult list"

definition summary_bindings :: "opResult list \<Rightarrow> variables" where
  "summary_bindings rs =
     fold (\<lambda>r b. if given (r_variable r) \<and> given (r_nodeId r)
                  then map_set (the (r_variable r)) (the (r_nodeId r)) b else b) rs []"

definition batchOperations ::
  "env \<Rightarrow> host \<Rightarrow> string \<Rightarrow> plugin \<Rightarrow> (string + toolResult) \<times> plugin" where
  "batchOperations ev h input pl =
     (case parseDSL ev input of
        Inl e \<Rightarrow> (Inl e, pl)
      | Inr parsed \<Rightarrow>
          if length parsed > 50
          then (Inl (''Too many operations: '' @ digits (length parsed) @ '' (max 50)''), pl)
          else if length parsed = 0 then (Inl ''No operations parsed from DSL'', pl)
          else
            (case processAll ev parsed of
               Inl e \<Rightarrow> (Inl e, pl)
             | Inr processedOps \<Rightarrow>
                 (case handleBatchOperations h processedOps (p_doc pl) of
                    (result, doc') \<Rightarrow>
                      (Inr \<lparr>t_message = ''Executed '' @ digits (length processedOps) @ '' operations'',
                            t_results = concat (map summary_line (br_results result)),
                            t_variableBindings = summary_bindings (br_results result),
                            t_errors = br_errors result\<rparr>,
                       \<lparr>p_doc = doc', p_received = p_received pl @ [processedOps]\<rparr>))))"

text \<open>A sample environment: property blocks are not parsed (the sample scripts have
  none), conversions are the identity, no image can be read.\<close>

definition sample_env :: env where
  "sample_env =
     \<lparr>parsePropsObject = (\<lambda>s n. Inl (line_prefix n @ ''Invalid props object: '' @ s)),
      convertToolProps = (\<lambda>p. p),
      hexToRgba = (\<lambda>c. JStr c),
      rotationToGradientTransform = (\<lambda>r. identity_transform),
      readImage = (\<lambda>p. Inl ''Failed to read image''),
      coerced_le = (\<lambda>v c. False)\<rparr>"

text \<open>Fifty-one lines \<open>TRIM(1:1)\<close>, and a script whose second line has no parenthesis.\<close>

definition long_script :: string where
  "long_script = join (replicate 51 ''TRIM(1:1)'') [CHR 0x0A]"

definition broken_script :: string where
  "broken_script = join [''DELETE(1:1)'', ''DELETE 1:1''] [CHR 0x0A]"

definition one_frame :: plugin where
  "one_frame = \<lparr>p_doc = \<lparr>page = [fresh sample_host ''FRAME'' 1], nextNode = 2\<rparr>, p_received = []\<rparr>"

section \<open>Reference tokens of creation lines\<close>


text \<open>
  The operation that \<open>parseCreateOp\<close> returns for a line \<open>var=OP(tok)\<close> without a
  property block, a document that holds one frame, and a script of four creation lines.
  \<open>outline\<close> lists the kind, the id and the children's ids of the top-level nodes.
\<close>

definition tokens_script :: string where
  "tokens_script = join [''f=CREATE_FRAME(none)'', ''r=CREATE_RECT($f)'', ''s=CREATE_RECT(1:1)'',
                         ''t=CREATE_RECT(none)''] [CHR 0x0A]"


definition creation_line :: "string \<Rightarrow> string \<Rightarrow> string \<Rightarrow> operation" where
  "creation_line opname var tok =
     blank_op\<lparr>o_op := opname, o_variable := Some var, o_parent := resolveRef tok, o_props := Some []\<rparr>"


section \<open>The batch pipeline of the backend (batch-pipeline.ts)\<close>

subsection \<open>What crosses the channel\<close>

text \<open>
  A command is sent as JSON text.  \<open>as_json v\<close> is \<open>v\<close> as it arrives: members whose value
  is \<open>undefined\<close>, a function or a symbol are left out of objects and become \<open>null\<close> in
  arrays, and \<open>NaN\<close> becomes \<open>null\<close>.
\<close>

definition unsent :: "jsval \<Rightarrow> bool" where
  "unsent v = (case v of JUndefined \<Rightarrow> True | JFun f \<Rightarrow> True | JMixed \<Rightarrow> True | _ \<Rightarrow> False)"

fun as_json :: "jsval \<Rightarrow> jsval"
  and as_json_items :: "jsval list \<Rightarrow> jsval list"
  and as_json_entries :: "(string \<times> jsval) list \<Rightarrow> (string \<times> jsval) list"
where
  "as_json (JObj m) = JObj (as_json_entries m)"
| "as_json (JArr xs) = JArr (as_json_items xs)"
| "as_json JNaN = JNull"
| "as_json JUndefined = JUndefined"
| "as_json JNull = JNull"
| "as_json JMixed = JUndefined"
| "as_json (JFun f) = JUndefined"
| "as_json (JBool b) = JBool b"
| "as_json (JNum n) = JNum n"
| "as_json (JStr s) = JStr s"
| "as_json_items [] = []"
| "as_json_items (x # xs) = (if unsent x then JNull else as_json x) # as_json_items xs"
| "as_json_entries [] = []"
| "as_json_entries ((k, v) # m) = (if unsent v then as_json_entries m else (k, as_json v) # as_json_entries m)"

text \<open>An element of the \<open>args\<close> array of a command.\<close>

definition as_json_arg :: "jsval \<Rightarrow> jsval" where
  "as_json_arg v = (if unsent v then JNull else as_json v)"

subsection \<open>The plugin's \<open>figma_call\<close> methods used by the tools (code.ts, handleFigmaCall)\<close>

text \<open>
  A method returns its result, or throws; the message loop answers a throw with
  \<open>sendError(id, error.message)\<close>, and the bridge rejects the promise with that message.
  What the method did to the document before it threw stays done.  \<open>text_of\<close> is the
  text of a value in a template literal: a string as it is, an integer in decimal, and
  the runtime's conversion otherwise.
\<close>

definition text_of :: "runtime \<Rightarrow> jsval \<Rightarrow> string" where
  "text_of rt v =
     (case v of
        JStr s \<Rightarrow> s
      | JNum n \<Rightarrow>
          if of_int \<lfloor>n\<rfloor> = n \<and> \<bar>n\<bar> < 10 ^ 21
          then (if n < 0 then ''-'' else []) @ digits (nat \<bar>\<lfloor>n\<rfloor>\<bar>)
          else to_text rt v
      | _ \<Rightarrow> to_text rt v)"

text \<open>\<open>createFrame(opts)\<close>: the new frame goes under \<open>opts.parentId\<close> when that node
  exists and can hold children, at \<open>opts.insertIndex\<close> when one is given, and stays on
  the page otherwise; then the properties are applied.\<close>

definition figma_createFrame :: "host \<Rightarrow> jsval \<Rightarrow> figma \<Rightarrow> (string + jsval) \<times> figma" where
  "figma_createFrame h opts d =
     (case createNode h ''FRAME'' d of
        (i, d1) \<Rightarrow>
          (case (case pget (members opts) ''parentId'' of
                   JStr parentId \<Rightarrow>
                     (if parentId \<noteq> [] then
                        (case getNodeById d1 parentId of
                           None \<Rightarrow> (None, d1)
                         | Some p \<Rightarrow>
                             if nkids p \<noteq> None then
                               (case pget (members opts) ''insertIndex'' of
                                  JUndefined \<Rightarrow> moveNode parentId i None d1
                                | JNum k \<Rightarrow>
                                    if of_int \<lfloor>k\<rfloor> = k then moveNode parentId i (Some \<lfloor>k\<rfloor>) d1
                                    else (Some ''in insertChild: index out of bounds'', d1)
                                | _ \<Rightarrow> (Some ''in insertChild: index out of bounds'', d1))
                             else (None, d1))
                      else (None, d1))
                 | _ \<Rightarrow> (None, d1)) of
             (Some e, d2) \<Rightarrow> (Inl e, d2)
           | (None, d2) \<Rightarrow>
               (case onNode i (\<lambda>n. applyNodeProperties h n (members opts)) d2 of
                  (Some e, d3) \<Rightarrow> (Inl e, d3)
                | (None, d3) \<Rightarrow> (Inr (JObj [(''id'', JStr i)]), d3))))"

text \<open>\<open>updateNode(nodeId, props)\<close>.\<close>

definition figma_updateNode :: "runtime \<Rightarrow> host \<Rightarrow> jsval \<Rightarrow> jsval \<Rightarrow> figma \<Rightarrow> (string + jsval) \<times> figma" where
  "figma_updateNode rt h nodeId props d =
     (case (case nodeId of JStr i \<Rightarrow> (case getNodeById d i of None \<Rightarrow> None | Some n \<Rightarrow> Some i)
                         | _ \<Rightarrow> None) of
        None \<Rightarrow> (Inl (''Node not found: '' @ text_of rt nodeId), d)
      | Some i \<Rightarrow>
          (case onNode i (\<lambda>n. applyNodeProperties h n (members props)) d of
             (Some e, d1) \<Rightarrow> (Inl e, d1)
           | (None, d1) \<Rightarrow> (Inr (JObj [(''success'', JBool True)]), d1)))"

subsection \<open>Two of the tools (build-ad-skeleton.ts, update-node.ts)\<close>

text \<open>
  A tool handler takes the resolved arguments and works on the document through the
  bridge; it returns its result or throws, and what it did to the document before
  throwing stays done.  The arguments of a step are a record, and \<open>field v k\<close> reads
  one of its members by name; the names read below are not members of a prototype.
\<close>

type_synonym handler = "jsval \<Rightarrow> figma \<Rightarrow> (string + jsval) \<times> figma"
type_synonym registry = "string \<Rightarrow> handler option"

definition field :: "jsval \<Rightarrow> string \<Rightarrow> jsval" where
  "field v k = (case own_member v k of None \<Rightarrow> JUndefined | Some x \<Rightarrow> x)"

text \<open>\<open>parseInt(s, 16)\<close>: blanks are skipped, then a sign, then \<open>0x\<close>, and the longest run
  of hexadecimal digits is read; \<open>None\<close> is \<open>NaN\<close>.\<close>

definition hex_digit :: "char \<Rightarrow> nat option" where
  "hex_digit c =
     (let n = (of_char c :: nat)
      in if 48 \<le> n \<and> n \<le> 57 then Some (n - 48)
         else if 97 \<le> n \<and> n \<le> 102 then Some (n - 87)
         else if 65 \<le> n \<and> n \<le> 70 then Some (n - 55)
         else None)"

fun hex_run :: "nat \<Rightarrow> string \<Rightarrow> nat" where
  "hex_run acc [] = acc"
| "hex_run acc (c # cs) = (case hex_digit c of None \<Rightarrow> acc | Some k \<Rightarrow> hex_run (16 * acc + k) cs)"

definition parseInt16 :: "string \<Rightarrow> int option" where
  "parseInt16 s =
     (let s1 = trimStart s;
          neg = (take 1 s1 = ''-'');
          s2 = (if take 1 s1 = ''-'' \<or> take 1 s1 = ''+'' then drop 1 s1 else s1);
          s3 = (if take 2 s2 = ''0x'' \<or> take 2 s2 = ''0X'' then drop 2 s2 else s2)
      in case s3 of
           [] \<Rightarrow> None
         | c # cs \<Rightarrow>
             (case hex_digit c of
                None \<Rightarrow> None
              | Some k \<Rightarrow> Some (if neg then - int (hex_run 0 s3) else int (hex_run 0 s3))))"

definition channel :: "string \<Rightarrow> jsval" where
  "channel s = (case parseInt16 s of None \<Rightarrow> JNaN | Some n \<Rightarrow> JNum (of_int n / 255))"

text \<open>\<open>hexToRgb\<close> of build-ad-skeleton.ts; a value without a \<open>replace\<close> method makes it
  throw.\<close>

definition hexToRgb :: "jsval \<Rightarrow> string + jsval" where
  "hexToRgb hex =
     (case hex of
        JStr s \<Rightarrow>
          (let cleanHex = (if take 1 s = ''#'' then drop 1 s else s)
           in Inr (JObj [(''r'', channel (take 2 cleanHex)),
                         (''g'', channel (take 2 (drop 2 cleanHex))),
                         (''b'', channel (take 2 (drop 4 cleanHex)))]))
      | _ \<Rightarrow> Inl ''hex.replace is not a function'')"

definition js_minus :: "runtime \<Rightarrow> jsval \<Rightarrow> rat \<Rightarrow> jsval" where
  "js_minus rt v c = (case v of JNum a \<Rightarrow> JNum (a - c) | _ \<Rightarrow> minus rt v c)"

definition buildAdSkeleton :: "runtime \<Rightarrow> host \<Rightarrow> handler" where
  "buildAdSkeleton rt h input d =
     (let format = field input ''format'';
          story = (format = JStr ''story'')
      in case (if story then Inr (JNum 1080, JNum 1920)
               else if format = JStr ''feed'' then Inr (JNum 1080, JNum 1080)
               else if \<not> truthy (field input ''width'') \<or> \<not> truthy (field input ''height'')
               then Inl ''Custom format requires width and height''
               else Inr (field input ''width'', field input ''height'')) of
           Inl e \<Rightarrow> (Inl e, d)
         | Inr (frameWidth, frameHeight) \<Rightarrow>
             (let name = js_or (field input ''name'') (JStr ''Ad Frame'');
                  backgroundColor = js_or (field input ''backgroundColor'') (JStr ''#000000'');
                  padding = js_or (field input ''padding'') (JNum 80)
              in case hexToRgb backgroundColor of
                   Inl e \<Rightarrow> (Inl e, d)
                 | Inr bgColor \<Rightarrow>
                     (case figma_createFrame h
                             (as_json (JObj
                                [(''name'', name), (''width'', frameWidth), (''height'', frameHeight),
                                 (''fills'', JArr [JObj [(''type'', JStr ''SOLID''), (''color'', bgColor)]]),
                                 (''layoutMode'', JStr ''VERTICAL''),
                                 (''paddingTop'', padding), (''paddingRight'', padding),
                                 (''paddingBottom'', padding), (''paddingLeft'', padding),
                                 (''itemSpacing'', JNum 32),
                                 (''primaryAxisAlignItems'', JStr ''MIN''),
                                 (''counterAxisAlignItems'', JStr ''CENTER''),
                                 (''primaryAxisSizingMode'', JStr ''FIXED''),
                                 (''counterAxisSizingMode'', JStr ''FIXED''),
                                 (''layoutSizingHorizontal'', JStr ''FIXED''),
                                 (''layoutSizingVertical'', JStr ''FIXED'')])) d of
                        (Inl e, d1) \<Rightarrow> (Inl e, d1)
                      | (Inr result, d1) \<Rightarrow>
                          (let frameId = (if truthy (field result ''id'') then field result ''id'' else result);
                               safeZoneTop = (if story then 250 else 0);
                               safeZoneBottom = (if story then js_minus rt frameHeight 250 else frameHeight)
                           in (Inr (JObj
                                 [(''frameId'', frameId),
                                  (''dimensions'', JObj [(''width'', frameWidth), (''height'', frameHeight)]),
                                  (''padding'', padding),
                                  (''safeZone'',
                                     JObj [(''top'', JNum safeZoneTop), (''bottom'', safeZoneBottom),
                                           (''usableHeight'', js_minus rt safeZoneBottom safeZoneTop)]),
                                  (''message'',
                                     JStr (''Created '' @ text_of rt format @ '' frame ('' @ text_of rt frameWidth
                                           @ ''x'' @ text_of rt frameHeight @ ''px) with '' @ text_of rt padding
                                           @ ''px padding. ''
                                           @ (if story then ''Safe zone: 250px top/bottom.'' else [])))]),
                               d1)))))"

text \<open>
  \<open>updateNode\<close> of update-node.ts.  \<open>hexToRgb\<close> is imported there from utils.ts and is a
  parameter here.  The properties are copied one by one into \<open>props\<close>, the command is
  sent, and the message lists the kinds of change.
\<close>

definition copied :: "jsval \<Rightarrow> string list \<Rightarrow> (string \<times> jsval) list" where
  "copied p ks = map (\<lambda>k. (k, field p k)) (filter (\<lambda>k. field p k \<noteq> JUndefined) ks)"

definition colour_entry :: "(jsval \<Rightarrow> string + jsval) \<Rightarrow> jsval \<Rightarrow> string \<Rightarrow> string \<Rightarrow> string + (string \<times> jsval) list" where
  "colour_entry utils_hexToRgb p k target =
     (if truthy (field p k)
      then (case utils_hexToRgb (field p k) of
              Inl e \<Rightarrow> Inl e
            | Inr c \<Rightarrow> Inr [(target, JArr [JObj [(''type'', JStr ''SOLID''), (''color'', c)]])])
      else Inr [])"

definition changes :: "jsval \<Rightarrow> string list" where
  "changes p =
     (if field p ''x'' \<noteq> JUndefined \<or> field p ''y'' \<noteq> JUndefined then [''position''] else [])
     @ (if field p ''width'' \<noteq> JUndefined \<or> field p ''height'' \<noteq> JUndefined then [''size''] else [])
     @ (if truthy (field p ''fillColor'') \<or> truthy (field p ''strokeColor'') \<or> truthy (field p ''fontColor'')
        then [''color''] else [])
     @ (if field p ''layoutMode'' \<noteq> JUndefined \<or> field p ''primaryAxisAlignItems'' \<noteq> JUndefined
           \<or> field p ''counterAxisAlignItems'' \<noteq> JUndefined then [''alignment''] else [])
     @ (if field p ''layoutSizingHorizontal'' \<noteq> JUndefined \<or> field p ''layoutSizingVertical'' \<noteq> JUndefined
        then [''sizing''] else [])
     @ (if field p ''layoutPositioning'' \<noteq> JUndefined then [''positioning''] else [])
     @ (if field p ''characters'' \<noteq> JUndefined then [''text''] else [])
     @ (if field p ''textAlignHorizontal'' \<noteq> JUndefined \<or> field p ''textAutoResize'' \<noteq> JUndefined
        then [''text-layout''] else [])"

text \<open>An object literal filled by assignments: a key assigned twice keeps its first
  place and takes the last value.\<close>

definition assigned_in_order :: "(string \<times> jsval) list \<Rightarrow> (string \<times> jsval) list" where
  "assigned_in_order kvs = fold (\<lambda>kv m. map_set (fst kv) (snd kv) m) kvs []"

definition updateNode :: "runtime \<Rightarrow> host \<Rightarrow> (jsval \<Rightarrow> string + jsval) \<Rightarrow> handler" where
  "updateNode rt h utils_hexToRgb input d =
     (let p = field input ''properties''
      in if nullish p then (Inl (read_of_nullish p ''x''), d)
         else
           (case colour_entry utils_hexToRgb p ''fillColor'' ''fills'' of
              Inl e \<Rightarrow> (Inl e, d)
            | Inr fills \<Rightarrow>
                (case colour_entry utils_hexToRgb p ''strokeColor'' ''strokes'' of
                   Inl e \<Rightarrow> (Inl e, d)
                 | Inr strokes \<Rightarrow>
                     (case colour_entry utils_hexToRgb p ''fontColor'' ''fills'' of
                        Inl e \<Rightarrow> (Inl e, d)
                      | Inr fontFills \<Rightarrow>
                          (let props = assigned_in_order
                                 (copied p [''x'', ''y'', ''width'', ''height'', ''rotation'', ''opacity'',
                                            ''visible'', ''name'']
                                  @ fills @ strokes
                                  @ copied p [''strokeWeight'', ''cornerRadius'', ''layoutMode'',
                                              ''itemSpacing'', ''paddingTop'', ''paddingRight'',
                                              ''paddingBottom'', ''paddingLeft'',
                                              ''primaryAxisAlignItems'', ''counterAxisAlignItems'',
                                              ''clipsContent'', ''layoutSizingHorizontal'',
                                              ''layoutSizingVertical'', ''layoutPositioning'', ''fontSize'']
                                  @ fontFills
                                  @ copied p [''characters'', ''textAlignHorizontal'', ''textAutoResize''])
                           in case figma_updateNode rt h (as_json_arg (field input ''nodeId'')) (as_json (JObj props)) d of
                                (Inl e, d1) \<Rightarrow> (Inl e, d1)
                              | (Inr r, d1) \<Rightarrow>
                                  (Inr (JObj [(''message'',
                                          JStr (''Updated '' @ (if length (changes p) > 0
                                                                then join (changes p) '', ''
                                                                else ''properties'')))]),
                                   d1))))))"

subsection \<open>The pipeline\<close>

text \<open>
  The registry maps the allow-listed tool names to handlers; the checkpoint tools are
  not in it, so a handler has no access to the checkpoint store.
\<close>

record pipelineStep =
  s_id :: string
  s_tool :: string
  s_args :: jsval

record completedStep =
  c_id :: string
  c_tool :: string
  c_summary :: string

record failedStep =
  f_step :: string
  f_tool :: string
  f_error :: string

datatype pipelineResult =
    Finished "completedStep list" bindings string
  | Failed "completedStep list" failedStep bool

record pstate =
  ps_world :: world
  ps_bindings :: bindings
  ps_completed :: "completedStep list"
  ps_label :: "string option"

text \<open>\<open>result?.k\<close>; the read can throw when the member is an accessor.\<close>

definition opt_field :: "runtime \<Rightarrow> jsval \<Rightarrow> string \<Rightarrow> string + jsval" where
  "opt_field rt v k = (if nullish v then Inr JUndefined else js_index rt v k)"

definition summaryText :: "runtime \<Rightarrow> string \<Rightarrow> jsval \<Rightarrow> string + string" where
  "summaryText rt tool result =
     (case opt_field rt result ''message'' of
        Inl e \<Rightarrow> Inl e
      | Inr (JStr m) \<Rightarrow> Inr m
      | Inr _ \<Rightarrow> Inr (tool @ '' completed''))"

text \<open>The \<open>try\<close> around \<open>saveCheckpoint\<close> after the first step: the label when it
  returned, \<open>null\<close> when it threw.  \<open>saveCheckpoint\<close> sends \<open>frameId\<close> in a
  \<open>serialize_frame\<close> command, and the plugin finds no node for an id that is not a
  string.\<close>

definition auto_checkpoint :: "jsval \<Rightarrow> world \<Rightarrow> string option \<times> world" where
  "auto_checkpoint frameId w =
     (case frameId of
        JStr f \<Rightarrow>
          (case saveCheckpoint f ''_pipeline_auto'' w of
             (Inl e, w') \<Rightarrow> (None, w')
           | (Inr r, w') \<Rightarrow> (Some ''_pipeline_auto'', w'))
      | _ \<Rightarrow> (None, w))"

text \<open>The \<open>catch\<close> block: attempt the rollback when there is a label, then return.\<close>

definition fail_step :: "host \<Rightarrow> pipelineStep \<Rightarrow> string \<Rightarrow> pstate \<Rightarrow> world \<Rightarrow> pipelineResult \<times> world" where
  "fail_step h stp errorMsg st w =
     (case ps_label st of
        None \<Rightarrow>
          (Failed (ps_completed st)
             \<lparr>f_step = s_id stp, f_tool = s_tool stp, f_error = errorMsg\<rparr> False, w)
      | Some label \<Rightarrow>
          (case restoreCheckpoint h label w of
             (Inl e, w') \<Rightarrow>
               (Failed (ps_completed st)
                  \<lparr>f_step = s_id stp, f_tool = s_tool stp, f_error = errorMsg\<rparr> False, w')
           | (Inr r, w') \<Rightarrow>
               (Failed (ps_completed st)
                  \<lparr>f_step = s_id stp, f_tool = s_tool stp, f_error = errorMsg\<rparr> True, w')))"

datatype step_outcome = Next pstate | Stop pipelineResult world

text \<open>One turn of the loop.  Everything from \<open>resolveVariables\<close> to the automatic
  checkpoint is inside the \<open>try\<close>, so a throw at any of these points is handled by
  the \<open>catch\<close> block with the lists as they stand at that point.\<close>

definition pipeline_step :: "runtime \<Rightarrow> registry \<Rightarrow> host \<Rightarrow> nat \<Rightarrow> pipelineStep \<Rightarrow> pstate \<Rightarrow> step_outcome" where
  "pipeline_step rt tools h i stp st =
     (case tools (s_tool stp) of
        None \<Rightarrow>
          Stop (Failed (ps_completed st)
                  \<lparr>f_step = s_id stp, f_tool = s_tool stp,
                    f_error = ''Unknown tool: '' @ s_tool stp\<rparr> False) (ps_world st)
      | Some run_tool \<Rightarrow>
          (case resolveVariables rt (s_args stp) (ps_bindings st) of
             Inl e \<Rightarrow> (case fail_step h stp e st (ps_world st) of (r, w) \<Rightarrow> Stop r w)
           | Inr resolvedArgs \<Rightarrow>
               (case run_tool resolvedArgs (w_doc (ps_world st)) of
                  (Inl e, d) \<Rightarrow>
                    (case fail_step h stp e st ((ps_world st)\<lparr>w_doc := d\<rparr>) of (r, w) \<Rightarrow> Stop r w)
                | (Inr result, d) \<Rightarrow>
                    (let w1 = (ps_world st)\<lparr>w_doc := d\<rparr>;
                         st0 = st\<lparr>ps_world := w1,
                                 ps_bindings := map_set (s_id stp) result (ps_bindings st)\<rparr>
                     in case summaryText rt (s_tool stp) result of
                          Inl e \<Rightarrow> (case fail_step h stp e st0 w1 of (r, w) \<Rightarrow> Stop r w)
                        | Inr summary \<Rightarrow>
                            (let st1 = st0\<lparr>ps_completed := ps_completed st @
                                   [\<lparr>c_id = s_id stp, c_tool = s_tool stp, c_summary = summary\<rparr>]\<rparr>
                             in if i = 0 then
                                  (case opt_field rt result ''frameId'' of
                                     Inl e \<Rightarrow> (case fail_step h stp e st1 w1 of (r, w) \<Rightarrow> Stop r w)
                                   | Inr frameId \<Rightarrow>
                                       if truthy frameId
                                       then (case auto_checkpoint frameId w1 of
                                               (label, w2) \<Rightarrow> Next (st1\<lparr>ps_world := w2, ps_label := label\<rparr>))
                                       else Next st1)
                                else Next st1)))))"

definition strip_content :: "jsval \<Rightarrow> jsval" where
  "strip_content v =
     (case v of
        JObj m \<Rightarrow> JObj (map_delete ''content'' m)
      | JArr xs \<Rightarrow> JObj (zip (map digits [0..<length xs]) xs)
      | _ \<Rightarrow> v)"

definition finish :: "pstate \<Rightarrow> pipelineResult" where
  "finish st =
     Finished (ps_completed st)
       (map (\<lambda>kv. (fst kv, strip_content (snd kv))) (ps_bindings st))
       (''Pipeline completed: '' @ digits (length (ps_completed st)) @ '' steps executed'')"

fun run_pipeline :: "runtime \<Rightarrow> registry \<Rightarrow> host \<Rightarrow> nat \<Rightarrow> pipelineStep list \<Rightarrow> pstate \<Rightarrow> pipelineResult \<times> world" where
  "run_pipeline rt tools h i [] st = (finish st, ps_world st)"
| "run_pipeline rt tools h i (stp # rest) st =
     (case pipeline_step rt tools h i stp st of
        Stop r w \<Rightarrow> (r, w)
      | Next st' \<Rightarrow> run_pipeline rt tools h (i + 1) rest st')"

definition initial :: "world \<Rightarrow> pstate" where
  "initial w = \<lparr>ps_world = w, ps_bindings = [], ps_completed = [], ps_label = None\<rparr>"

definition batchPipeline :: "runtime \<Rightarrow> registry \<Rightarrow> host \<Rightarrow> pipelineStep list \<Rightarrow> world \<Rightarrow> pipelineResult \<times> world" where
  "batchPipeline rt tools h pipeline w = run_pipeline rt tools h 0 pipeline (initial w)"

subsection \<open>A pipeline of three steps\<close>

text \<open>
  The registry restricted to the two tools of the example; the utility \<open>hexToRgb\<close> is
  not called in it.  Step 1 builds a feed frame, step 2 changes the opacity, the
  visibility and the rotation of that frame, step 3 names a node that does not exist.
\<close>

definition sample_tools :: registry where
  "sample_tools name =
     (if name = ''build_ad_skeleton'' then Some (buildAdSkeleton sample_runtime sample_host)
      else if name = ''update_node'' then Some (updateNode sample_runtime sample_host hexToRgb)
      else None)"

definition step1 :: pipelineStep where
  "step1 = \<lparr>s_id = ''s1'', s_tool = ''build_ad_skeleton'', s_args = JObj [(''format'', JStr ''feed'')]\<rparr>"

definition step2 :: pipelineStep where
  "step2 =
     \<lparr>s_id = ''s2'', s_tool = ''update_node'',
      s_args = JObj [(''nodeId'', JStr ''$s1.frameId''),
                     (''properties'', JObj [(''opacity'', JNum (1/2)), (''visible'', JBool False),
                                           (''rotation'', JNum 45)])]\<rparr>"

definition step3 :: pipelineStep where
  "step3 =
     \<lparr>s_id = ''s3'', s_tool = ''update_node'',
      s_args = JObj [(''nodeId'', JStr ''9:9''), (''properties'', JObj [(''x'', JNum 0)])]\<rparr>"

definition empty_world :: world where
  "empty_world = \<lparr>w_doc = empty_doc, w_store = []\<rparr>"

text \<open>The document after the first step alone, the properties of the node with a given
  id, and the comparison of two pages by what a snapshot captures of them.\<close>

definition after_step1 :: figma where
  "after_step1 = w_doc (snd (batchPipeline sample_runtime sample_tools sample_host [step1] empty_world))"

definition props_of :: "figma \<Rightarrow> string \<Rightarrow> string list \<Rightarrow> jsval list" where
  "props_of d i ks = (case getNodeById d i of None \<Rightarrow> [] | Some n \<Rightarrow> map (pget (nprops n)) ks)"

definition same_page :: "figma \<Rightarrow> figma \<Rightarrow> bool" where
  "same_page a b = same_captured_list (serializeChildren (page a) 10 0) (serializeChildren (page b) 10 0)"
section \<open>Properties\<close>

section \<open>Command channel: every sent command is settled once\<close>

lemma map_of_map_set: "map_of (map_set k v m) = (map_of m)(k \<mapsto> v)"
  by (induction m) (auto simp: fun_eq_iff)

lemma map_of_map_delete: "map_of (map_delete k m) = (map_of m)(k := None)"
  by (induction m) (auto simp: map_delete_def fun_eq_iff)

lemma map_set_keys: "fst ` set (map_set k v m) = insert k (fst ` set m)"
  by (induction m) (force split: if_splits)+

lemma map_set_set: "set (map_set k v m) \<subseteq> insert (k, v) (set m)"
  by (induction m) (auto split: if_splits)

lemma map_set_distinct_fst: "distinct (map fst m) \<Longrightarrow> distinct (map fst (map_set k v m))"
proof (induction m)
  case Nil then show ?case by simp
next
  case (Cons e m)
  obtain k' v' where e: "e = (k', v')" by (cases e)
  show ?case using Cons map_set_keys[of k v m] by (auto simp: e)
qed

lemma map_set_distinct_snd:
  "distinct (map snd m) \<Longrightarrow> v \<notin> snd ` set m \<Longrightarrow> distinct (map snd (map_set k v m))"
proof (induction m)
  case Nil then show ?case by simp
next
  case (Cons e m)
  obtain k' v' where e: "e = (k', v')" by (cases e)
  have "snd ` set (map_set k v m) \<subseteq> insert v (snd ` set m)"
    using map_set_set[of k v m] by force
  then show ?case using Cons by (auto simp: e)
qed

lemma map_delete_set: "set (map_delete k m) = {e \<in> set m. fst e \<noteq> k}"
  by (auto simp: map_delete_def)

lemma map_delete_distinct_fst: "distinct (map fst m) \<Longrightarrow> distinct (map fst (map_delete k m))"
  by (simp add: map_delete_def distinct_map_filter)

lemma map_delete_distinct_snd: "distinct (map snd m) \<Longrightarrow> distinct (map snd (map_delete k m))"
  by (simp add: map_delete_def distinct_map_filter)

lemma map_get_Some: "map_get m k = Some p \<Longrightarrow> (k, p) \<in> set m"
  by (simp add: map_get_def map_of_SomeD)

lemma map_get_None: "map_get m k = None \<longleftrightarrow> k \<notin> fst ` set m"
  by (simp add: map_get_def map_of_eq_None_iff)

lemma reject_all_fields:
  "readyState (reject_all msg es b) = readyState b"
  "pending (reject_all msg es b) = pending b"
  "nextFuture (reject_all msg es b) = nextFuture b"
  "wire (reject_all msg es b) = wire b"
  by (induction msg es b rule: reject_all.induct) auto

lemma reject_all_timers:
  "timers (reject_all msg es b) = (\<lambda>p. if p \<in> snd ` set es then None else timers b p)"
  by (induction msg es b rule: reject_all.induct) (auto simp: fun_eq_iff)

lemma reject_all_settles:
  "settles (reject_all msg es b) = settles b @ map (\<lambda>e. (snd e, Rejected ByTeardown msg)) es"
  by (induction msg es b rule: reject_all.induct) auto


lemma inv_fields_arm:
  assumes "inv_fields pd tm nf st wr" and w: "wr' = wr \<or> wr' = wr @ [(nf, uuid, c)]"
  shows "inv_fields (map_set uuid nf pd) (tm(nf \<mapsto> (uuid, ty))) (Suc nf) st wr'"
proof -
  have a1: "distinct (map fst pd)" and a2: "distinct (map snd pd)"
    and a3: "\<And>e. e \<in> set pd \<Longrightarrow> \<exists>ty. tm (snd e) = Some (fst e, ty)"
    and a4: "\<And>p. tm p \<noteq> None \<Longrightarrow> p < nf \<and> p \<notin> fst ` set st"
    and a5: "distinct (map fst st)" and a6: "\<And>e. e \<in> set st \<Longrightarrow> fst e < nf"
    and a7: "\<And>p. p \<in> fst ` set wr \<Longrightarrow> tm p \<noteq> None \<or> (\<exists>out. (p, out) \<in> set st \<and> terminal out)"
    using assms(1) unfolding inv_fields_def by blast+
  have f1: "tm nf = None"
  proof (rule ccontr)
    assume "tm nf \<noteq> None"
    then have "nf < nf" using a4[of nf] by blast
    then show False by simp
  qed
  have f2: "nf \<notin> snd ` set pd"
  proof
    assume "nf \<in> snd ` set pd"
    then obtain e where "e \<in> set pd" "snd e = nf" by auto
    then show False using a3[of e] f1 by simp
  qed
  have sub: "set (map_set uuid nf pd) \<subseteq> insert (uuid, nf) (set pd)" by (rule map_set_set)
  have c1: "distinct (map fst (map_set uuid nf pd))" using a1 by (rule map_set_distinct_fst)
  have c2: "distinct (map snd (map_set uuid nf pd))" using a2 f2 by (rule map_set_distinct_snd)
  have c3: "\<forall>e \<in> set (map_set uuid nf pd). \<exists>ty'. (tm(nf \<mapsto> (uuid, ty))) (snd e) = Some (fst e, ty')"
  proof
    fix e assume "e \<in> set (map_set uuid nf pd)"
    then consider "e = (uuid, nf)" | "e \<in> set pd" using sub by auto
    then show "\<exists>ty'. (tm(nf \<mapsto> (uuid, ty))) (snd e) = Some (fst e, ty')"
    proof cases
      case 1 then show ?thesis by simp
    next
      case 2
      then have "snd e \<noteq> nf" using f2 by auto
      then show ?thesis using a3[OF 2] by simp
    qed
  qed
  have c4: "\<forall>p. (tm(nf \<mapsto> (uuid, ty))) p \<noteq> None \<longrightarrow> p < Suc nf \<and> p \<notin> fst ` set st"
  proof (intro allI impI)
    fix p assume h: "(tm(nf \<mapsto> (uuid, ty))) p \<noteq> None"
    show "p < Suc nf \<and> p \<notin> fst ` set st"
    proof (cases "p = nf")
      case True
      have "nf \<notin> fst ` set st" using a6 by auto
      then show ?thesis using True by simp
    next
      case False
      then have "tm p \<noteq> None" using h by simp
      then show ?thesis using a4[of p] by auto
    qed
  qed
  have c6: "\<forall>e \<in> set st. fst e < Suc nf" using a6 by (auto simp: less_Suc_eq)
  have c7: "\<forall>p \<in> fst ` set wr'. (tm(nf \<mapsto> (uuid, ty))) p \<noteq> None \<or> (\<exists>out. (p, out) \<in> set st \<and> terminal out)"
  proof
    fix p assume "p \<in> fst ` set wr'"
    then have "p = nf \<or> p \<in> fst ` set wr" using w by force
    then consider "p = nf" | "p \<in> fst ` set wr" by blast
    then show "(tm(nf \<mapsto> (uuid, ty))) p \<noteq> None \<or> (\<exists>out. (p, out) \<in> set st \<and> terminal out)"
    proof cases
      case 1 then show ?thesis by simp
    next
      case 2 then show ?thesis using a7[OF 2] by auto
    qed
  qed
  show ?thesis unfolding inv_fields_def using c1 c2 c3 c4 a5 c6 c7 by blast
qed

lemma inv_fields_settle:
  assumes "inv_fields pd tm nf st wr" and armed: "tm p = Some (uuid, ty)"
    and ok: "terminal out \<or> p \<notin> fst ` set wr"
  shows "inv_fields (map_delete uuid pd) (tm(p := None)) nf (st @ [(p, out)]) wr"
proof -
  have a1: "distinct (map fst pd)" and a2: "distinct (map snd pd)"
    and a3: "\<And>e. e \<in> set pd \<Longrightarrow> \<exists>ty. tm (snd e) = Some (fst e, ty)"
    and a4: "\<And>p. tm p \<noteq> None \<Longrightarrow> p < nf \<and> p \<notin> fst ` set st"
    and a5: "distinct (map fst st)" and a6: "\<And>e. e \<in> set st \<Longrightarrow> fst e < nf"
    and a7: "\<And>p. p \<in> fst ` set wr \<Longrightarrow> tm p \<noteq> None \<or> (\<exists>out. (p, out) \<in> set st \<and> terminal out)"
    using assms(1) unfolding inv_fields_def by blast+
  have p4: "p < nf" "p \<notin> fst ` set st" using a4[of p] armed by auto
  have c1: "distinct (map fst (map_delete uuid pd))" using a1 by (rule map_delete_distinct_fst)
  have c2: "distinct (map snd (map_delete uuid pd))" using a2 by (rule map_delete_distinct_snd)
  have c3: "\<forall>e \<in> set (map_delete uuid pd). \<exists>ty'. (tm(p := None)) (snd e) = Some (fst e, ty')"
  proof
    fix e assume "e \<in> set (map_delete uuid pd)"
    then have e: "e \<in> set pd" "fst e \<noteq> uuid" by (auto simp: map_delete_set)
    obtain ty' where t: "tm (snd e) = Some (fst e, ty')" using a3[OF e(1)] by blast
    have "snd e \<noteq> p" using t armed e(2) by auto
    then show "\<exists>ty'. (tm(p := None)) (snd e) = Some (fst e, ty')" using t by simp
  qed
  have c4: "\<forall>q. (tm(p := None)) q \<noteq> None \<longrightarrow> q < nf \<and> q \<notin> fst ` set (st @ [(p, out)])"
  proof (intro allI impI)
    fix q assume h: "(tm(p := None)) q \<noteq> None"
    then have "q \<noteq> p" "tm q \<noteq> None" by (auto split: if_splits)
    then show "q < nf \<and> q \<notin> fst ` set (st @ [(p, out)])" using a4[of q] by auto
  qed
  have c5: "distinct (map fst (st @ [(p, out)]))" using a5 p4 by simp
  have c6: "\<forall>e \<in> set (st @ [(p, out)]). fst e < nf" using a6 p4 by auto
  have c7: "\<forall>q \<in> fst ` set wr. (tm(p := None)) q \<noteq> None \<or> (\<exists>o'. (q, o') \<in> set (st @ [(p, out)]) \<and> terminal o')"
  proof
    fix q assume q: "q \<in> fst ` set wr"
    show "(tm(p := None)) q \<noteq> None \<or> (\<exists>o'. (q, o') \<in> set (st @ [(p, out)]) \<and> terminal o')"
    proof (cases "q = p")
      case True
      then have "terminal out" using ok q by auto
      then show ?thesis using True by auto
    next
      case False
      then show ?thesis using a7[OF q] by auto
    qed
  qed
  show ?thesis unfolding inv_fields_def using c1 c2 c3 c4 c5 c6 c7 by blast
qed

lemma inv_fields_reject_all:
  assumes "inv_fields pd tm nf st wr"
  shows "inv_fields [] (\<lambda>p. if p \<in> snd ` set pd then None else tm p) nf
           (st @ map (\<lambda>e. (snd e, Rejected ByTeardown msg)) pd) wr"
proof -
  let ?tm = "\<lambda>p. if p \<in> snd ` set pd then None else tm p"
  let ?st = "st @ map (\<lambda>e. (snd e, Rejected ByTeardown msg)) pd"
  have a2: "distinct (map snd pd)"
    and a3: "\<And>e. e \<in> set pd \<Longrightarrow> \<exists>ty. tm (snd e) = Some (fst e, ty)"
    and a4: "\<And>p. tm p \<noteq> None \<Longrightarrow> p < nf \<and> p \<notin> fst ` set st"
    and a5: "distinct (map fst st)" and a6: "\<And>e. e \<in> set st \<Longrightarrow> fst e < nf"
    and a7: "\<And>p. p \<in> fst ` set wr \<Longrightarrow> tm p \<noteq> None \<or> (\<exists>out. (p, out) \<in> set st \<and> terminal out)"
    using assms(1) unfolding inv_fields_def by blast+
  have armed: "\<And>q. q \<in> snd ` set pd \<Longrightarrow> tm q \<noteq> None"
  proof -
    fix q assume "q \<in> snd ` set pd"
    then obtain e where e: "e \<in> set pd" "snd e = q" by auto
    show "tm q \<noteq> None" using a3[OF e(1)] e(2) by auto
  qed
  have fs: "fst ` set ?st = fst ` set st \<union> snd ` set pd" by force
  have ms: "map fst ?st = map fst st @ map snd pd" by simp
  have disj: "set (map fst st) \<inter> set (map snd pd) = {}"
  proof (rule ccontr)
    assume "set (map fst st) \<inter> set (map snd pd) \<noteq> {}"
    then obtain q where q: "q \<in> fst ` set st" "q \<in> snd ` set pd" by auto
    show False using a4[OF armed[OF q(2)]] q(1) by simp
  qed
  have c5: "distinct (map fst ?st)" unfolding ms using a5 a2 disj by simp
  have c4: "\<forall>q. ?tm q \<noteq> None \<longrightarrow> q < nf \<and> q \<notin> fst ` set ?st"
  proof (intro allI impI)
    fix q assume h: "?tm q \<noteq> None"
    then have "q \<notin> snd ` set pd" "tm q \<noteq> None" by (auto split: if_splits)
    then show "q < nf \<and> q \<notin> fst ` set ?st" unfolding fs using a4[of q] by auto
  qed
  have c6: "\<forall>e \<in> set ?st. fst e < nf"
  proof
    fix e assume "e \<in> set ?st"
    then have "fst e \<in> fst ` set ?st" by (rule imageI)
    then consider "fst e \<in> fst ` set st" | "fst e \<in> snd ` set pd" unfolding fs by auto
    then show "fst e < nf"
    proof cases
      case 1 then show ?thesis using a6 by auto
    next
      case 2 then show ?thesis using a4[OF armed[OF 2]] by simp
    qed
  qed
  have c7: "\<forall>q \<in> fst ` set wr. ?tm q \<noteq> None \<or> (\<exists>o'. (q, o') \<in> set ?st \<and> terminal o')"
  proof
    fix q assume q: "q \<in> fst ` set wr"
    show "?tm q \<noteq> None \<or> (\<exists>o'. (q, o') \<in> set ?st \<and> terminal o')"
    proof (cases "q \<in> snd ` set pd")
      case True
      then have "(q, Rejected ByTeardown msg) \<in> set ?st" by force
      moreover have "terminal (Rejected ByTeardown msg)" by simp
      ultimately show ?thesis by blast
    next
      case False
      then show ?thesis using a7[OF q] by auto
    qed
  qed
  show ?thesis unfolding inv_fields_def using c4 c5 c6 c7 by simp
qed

lemma inv_init: "bridge_inv (createBridge rs)"
  by (simp add: bridge_inv_def inv_fields_def createBridge_def)

lemma inv_state: "bridge_inv b \<Longrightarrow> bridge_inv (b\<lparr>readyState := rs\<rparr>)"
  by (simp add: bridge_inv_def)

lemma inv_send: assumes "bridge_inv b" shows "bridge_inv (snd (sendCommand c uuid thrown b))"
proof (cases "readyState b = OPEN")
  case False then show ?thesis using assms by (simp add: sendCommand_def)
next
  case True
  have I: "inv_fields (pending b) (timers b) (nextFuture b) (settles b) (wire b)"
    using assms by (simp add: bridge_inv_def)
  show ?thesis
  proof (cases thrown)
    case None
    have "inv_fields (map_set uuid (nextFuture b) (pending b))
            ((timers b)(nextFuture b \<mapsto> (uuid, ctype c))) (Suc (nextFuture b)) (settles b)
            (wire b @ [(nextFuture b, uuid, c)])"
      using I by (rule inv_fields_arm) simp
    then show ?thesis using True None by (simp add: sendCommand_def Let_def bridge_inv_def)
  next
    case (Some e)
    have A: "inv_fields (map_set uuid (nextFuture b) (pending b))
            ((timers b)(nextFuture b \<mapsto> (uuid, ctype c))) (Suc (nextFuture b)) (settles b) (wire b)"
      using I by (rule inv_fields_arm) simp
    have nw: "nextFuture b \<notin> fst ` set (wire b)"
    proof
      assume "nextFuture b \<in> fst ` set (wire b)"
      then have "timers b (nextFuture b) \<noteq> None \<or> (\<exists>out. (nextFuture b, out) \<in> set (settles b))"
        using I unfolding inv_fields_def by blast
      moreover have "\<And>p. timers b p \<noteq> None \<Longrightarrow> p < nextFuture b"
        using I unfolding inv_fields_def by blast
      moreover have "\<And>e. e \<in> set (settles b) \<Longrightarrow> fst e < nextFuture b"
        using I unfolding inv_fields_def by blast
      ultimately show False by force
    qed
    have "inv_fields (map_delete uuid (map_set uuid (nextFuture b) (pending b)))
            (((timers b)(nextFuture b \<mapsto> (uuid, ctype c)))(nextFuture b := None)) (Suc (nextFuture b))
            (settles b @ [(nextFuture b, Rejected BySendFailure e)]) (wire b)"
      using A by (rule inv_fields_settle) (simp_all add: nw)
    then show ?thesis using True Some by (simp add: sendCommand_def Let_def bridge_inv_def)
  qed
qed

lemma inv_timer: assumes "bridge_inv b" shows "bridge_inv (timerFires p b)"
proof (cases "timers b p")
  case None then show ?thesis using assms by (simp add: timerFires_def)
next
  case (Some a)
  obtain uuid ty where a: "a = (uuid, ty)" by (cases a)
  have "inv_fields (map_delete uuid (pending b)) ((timers b)(p := None)) (nextFuture b)
          (settles b @ [(p, Rejected ByTimeout (timeout_message ty))]) (wire b)"
    using assms Some unfolding bridge_inv_def a by (rule inv_fields_settle) simp
  then show ?thesis using Some a by (simp add: timerFires_def bridge_inv_def)
qed

lemma inv_settle_response:
  assumes "bridge_inv b" "terminal out" shows "bridge_inv (settle_response i out b)"
proof (cases "map_get (pending b) i")
  case None then show ?thesis using assms by (simp add: settle_response_def)
next
  case (Some p)
  have mem: "(i, p) \<in> set (pending b)" using Some by (rule map_get_Some)
  have "\<forall>e \<in> set (pending b). \<exists>ty. timers b (snd e) = Some (fst e, ty)"
    using assms(1) unfolding bridge_inv_def inv_fields_def by blast
  then obtain ty where armed: "timers b p = Some (i, ty)" using mem by force
  have "inv_fields (map_delete i (pending b)) ((timers b)(p := None)) (nextFuture b)
          (settles b @ [(p, out)]) (wire b)"
    using assms(1) armed unfolding bridge_inv_def by (rule inv_fields_settle) (simp add: assms(2))
  then show ?thesis using Some by (simp add: settle_response_def bridge_inv_def)
qed

lemma inv_response: "bridge_inv b \<Longrightarrow> bridge_inv (handleResponse r b)"
  by (cases r) (simp_all add: inv_settle_response)

lemma inv_reject_all:
  assumes "bridge_inv b"
  shows "bridge_inv ((reject_all msg (pending b) b)\<lparr>pending := []\<rparr>)"
  using inv_fields_reject_all[of "pending b" "timers b" "nextFuture b" "settles b" "wire b" msg] assms
  by (simp add: bridge_inv_def reject_all_fields reject_all_timers reject_all_settles)

lemma inv_socket_close: "bridge_inv b \<Longrightarrow> bridge_inv (onSocketClose b)"
  by (simp add: onSocketClose_def inv_state inv_reject_all)

lemma inv_close: "bridge_inv b \<Longrightarrow> bridge_inv (close b)"
  by (simp add: close_def Let_def inv_state inv_reject_all)

lemma inv_step: "bridge_inv b \<Longrightarrow> bridge_inv (step e b)"
  by (cases e) (simp_all add: inv_send inv_response inv_timer inv_socket_close inv_close inv_state)

lemma inv_run: "bridge_inv b \<Longrightarrow> bridge_inv (run es b)"
  by (induction es arbitrary: b) (simp_all add: inv_step)

lemma outcomes_single:
  "distinct (map fst st) \<Longrightarrow> (p, out) \<in> set st \<Longrightarrow> map snd (filter (\<lambda>e. fst e = p) st) = [out]"
proof (induction st)
  case Nil then show ?case by simp
next
  case (Cons e st)
  show ?case
  proof (cases "e = (p, out)")
    case True
    have "p \<notin> fst ` set st" using Cons.prems(1) True by simp
    then have "filter (\<lambda>e. fst e = p) st = []" by (auto simp: filter_empty_conv)
    then show ?thesis using True by simp
  next
    case False
    then have m: "(p, out) \<in> set st" using Cons.prems(2) by simp
    then have "p \<in> fst ` set st" by force
    then have "fst e \<noteq> p" using Cons.prems(1) by auto
    then show ?thesis using Cons.IH m Cons.prems(1) by simp
  qed
qed

lemma outcomes_none: "p \<notin> fst ` set st \<Longrightarrow> map snd (filter (\<lambda>e. fst e = p) st) = []"
  by (auto simp: filter_empty_conv)

lemma sent_settled_or_armed:
  assumes "bridge_inv b" "p \<in> sentFutures b"
  shows "(timers b p \<noteq> None \<and> outcomesOf p b = []) \<or>
         (timers b p = None \<and> (\<exists>out. outcomesOf p b = [out] \<and> terminal out))"
proof (cases "timers b p")
  case (Some a)
  have "\<forall>q. timers b q \<noteq> None \<longrightarrow> q < nextFuture b \<and> q \<notin> fst ` set (settles b)"
    using assms(1) unfolding bridge_inv_def inv_fields_def by blast
  then have "p \<notin> fst ` set (settles b)" using Some by simp
  then show ?thesis using Some by (simp add: outcomesOf_def outcomes_none)
next
  case None
  have "\<forall>q \<in> fst ` set (wire b). timers b q \<noteq> None \<or> (\<exists>out. (q, out) \<in> set (settles b) \<and> terminal out)"
    using assms(1) unfolding bridge_inv_def inv_fields_def by blast
  then obtain out where o: "(p, out) \<in> set (settles b)" "terminal out"
    using assms(2) None unfolding sentFutures_def by blast
  have "distinct (map fst (settles b))"
    using assms(1) unfolding bridge_inv_def inv_fields_def by blast
  then have "outcomesOf p b = [out]" using o(1) unfolding outcomesOf_def by (rule outcomes_single)
  then show ?thesis using None o(2) by simp
qed

lemma timer_progress:
  assumes "bridge_inv b" "timers b p = Some (uuid, ty)"
  shows "outcomesOf p (timerFires p b) = [Rejected ByTimeout (timeout_message ty)]"
proof -
  have "\<forall>q. timers b q \<noteq> None \<longrightarrow> q < nextFuture b \<and> q \<notin> fst ` set (settles b)"
    using assms(1) unfolding bridge_inv_def inv_fields_def by blast
  then have "p \<notin> fst ` set (settles b)" using assms(2) by simp
  then have "filter (\<lambda>e. fst e = p) (settles b) = []" by (auto simp: filter_empty_conv)
  then show ?thesis using assms(2) by (simp add: outcomesOf_def timerFires_def)
qed

lemma pending_unsettled:
  assumes "bridge_inv b" "(i, q) \<in> set (pending b)"
  shows "q \<notin> fst ` set (settles b)" "q < nextFuture b" "\<exists>ty. timers b q = Some (i, ty)"
proof -
  have a3: "\<forall>e \<in> set (pending b). \<exists>ty. timers b (snd e) = Some (fst e, ty)"
    and a4: "\<forall>p. timers b p \<noteq> None \<longrightarrow> p < nextFuture b \<and> p \<notin> fst ` set (settles b)"
    using assms(1) unfolding bridge_inv_def inv_fields_def by blast+
  show t: "\<exists>ty. timers b q = Some (i, ty)" using a3 assms(2) by force
  then have "timers b q \<noteq> None" by auto
  then show "q \<notin> fst ` set (settles b)" "q < nextFuture b" using a4 by blast+
qed

lemma response_settles:
  assumes "bridge_inv b" "map_get (pending b) i = Some q"
  shows "outcomesOf q (settle_response i out b) = [out]"
    and "r \<noteq> q \<Longrightarrow> outcomesOf r (settle_response i out b) = outcomesOf r b"
    and "map_get (pending (settle_response i out b)) i = None"
    and "timers (settle_response i out b) q = None"
proof -
  have m: "(i, q) \<in> set (pending b)" using assms(2) by (rule map_get_Some)
  have "q \<notin> fst ` set (settles b)" using pending_unsettled(1)[OF assms(1) m] .
  then have "filter (\<lambda>e. fst e = q) (settles b) = []" by (auto simp: filter_empty_conv)
  then show "outcomesOf q (settle_response i out b) = [out]"
    using assms(2) by (simp add: outcomesOf_def settle_response_def)
  show "r \<noteq> q \<Longrightarrow> outcomesOf r (settle_response i out b) = outcomesOf r b"
    using assms(2) by (simp add: outcomesOf_def settle_response_def)
  show "map_get (pending (settle_response i out b)) i = None"
    using assms(2) by (auto simp: settle_response_def map_get_None map_delete_set)
  show "timers (settle_response i out b) q = None"
    using assms(2) by (simp add: settle_response_def)
qed

lemma teardown_settles:
  assumes "bridge_inv b" "(i, q) \<in> set (pending b)"
  shows "outcomesOf q (reject_all msg (pending b) b) = [Rejected ByTeardown msg]"
proof -
  have d: "distinct (map snd (pending b))"
    using assms(1) unfolding bridge_inv_def inv_fields_def by blast
  have "q \<notin> fst ` set (settles b)" using pending_unsettled(1)[OF assms] .
  then have e: "filter (\<lambda>e. fst e = q) (settles b) = []" by (auto simp: filter_empty_conv)
  have "map snd (filter (\<lambda>e. fst e = q) (map (\<lambda>e. (snd e, Rejected ByTeardown msg)) pd))
          = [Rejected ByTeardown msg]" if "distinct (map snd pd)" "(i, q) \<in> set pd" for pd
    using that
  proof (induction pd)
    case Nil then show ?case by simp
  next
    case (Cons a pd)
    show ?case
    proof (cases "snd a = q")
      case True
      then have "q \<notin> snd ` set pd" using Cons.prems(1) by auto
      then have "filter (\<lambda>e. fst e = q) (map (\<lambda>e. (snd e, Rejected ByTeardown msg)) pd) = []"
        by (auto simp: filter_empty_conv)
      then show ?thesis using True by simp
    next
      case False
      then have "(i, q) \<in> set pd" using Cons.prems(2) by auto
      then show ?thesis using Cons.IH Cons.prems(1) False by simp
    qed
  qed
  then show ?thesis using d assms(2) e by (simp add: outcomesOf_def reject_all_settles)
qed

lemma teardown_others:
  assumes "q \<notin> snd ` set (pending b)"
  shows "outcomesOf q (reject_all msg (pending b) b) = outcomesOf q b"
proof -
  have "filter (\<lambda>e. fst e = q) (map (\<lambda>e. (snd e, Rejected ByTeardown msg)) (pending b)) = []"
    using assms by (auto simp: filter_empty_conv)
  then show ?thesis by (simp add: outcomesOf_def reject_all_settles)
qed

lemma outcomesOf_fields:
  "outcomesOf q (b\<lparr>pending := pd\<rparr>) = outcomesOf q b"
  "outcomesOf q (b\<lparr>readyState := rs\<rparr>) = outcomesOf q b"
  "outcomesOf q (b\<lparr>pending := pd, readyState := rs\<rparr>) = outcomesOf q b"
  by (simp_all add: outcomesOf_def)

lemma socket_close_settles:
  assumes "bridge_inv b" "(i, q) \<in> set (pending b)"
  shows "outcomesOf q (onSocketClose b) = [Rejected ByTeardown ''WebSocket connection closed'']"
    and "outcomesOf q (close b) = [Rejected ByTeardown ''Bridge closed'']"
  using teardown_settles[OF assms]
  by (simp_all add: onSocketClose_def close_def Let_def outcomesOf_def)

lemma socket_close_others:
  assumes "q \<notin> snd ` set (pending b)"
  shows "outcomesOf q (onSocketClose b) = outcomesOf q b" "outcomesOf q (close b) = outcomesOf q b"
  using teardown_others[OF assms]
  by (simp_all add: onSocketClose_def close_def Let_def outcomesOf_def)

lemma send_registers:
  assumes "bridge_inv b" "readyState b = OPEN"
  shows "fst (sendCommand c uuid None b) = Awaiting (nextFuture b)"
    and "map_get (pending (snd (sendCommand c uuid None b))) uuid = Some (nextFuture b)"
    and "timers (snd (sendCommand c uuid None b)) (nextFuture b) = Some (uuid, ctype c)"
    and "nextFuture b \<in> sentFutures (snd (sendCommand c uuid None b))"
    and "outcomesOf (nextFuture b) (snd (sendCommand c uuid None b)) = []"
proof -
  have a6: "\<forall>e \<in> set (settles b). fst e < nextFuture b"
    using assms(1) unfolding bridge_inv_def inv_fields_def by blast
  then have n: "filter (\<lambda>e. fst e = nextFuture b) (settles b) = []"
    by (auto simp: filter_empty_conv)
  show "fst (sendCommand c uuid None b) = Awaiting (nextFuture b)"
    using assms(2) by (simp add: sendCommand_def Let_def)
  show "map_get (pending (snd (sendCommand c uuid None b))) uuid = Some (nextFuture b)"
    using assms(2) by (simp add: sendCommand_def Let_def map_get_def map_of_map_set)
  show "timers (snd (sendCommand c uuid None b)) (nextFuture b) = Some (uuid, ctype c)"
    using assms(2) by (simp add: sendCommand_def Let_def)
  show "nextFuture b \<in> sentFutures (snd (sendCommand c uuid None b))"
    using assms(2) by (simp add: sendCommand_def Let_def sentFutures_def)
  show "outcomesOf (nextFuture b) (snd (sendCommand c uuid None b)) = []"
    using assms(2) n by (simp add: sendCommand_def Let_def outcomesOf_def)
qed

lemma send_fails:
  assumes "bridge_inv b" "readyState b = OPEN"
  shows "fst (sendCommand c uuid (Some e) b) = Awaiting (nextFuture b)"
    and "outcomesOf (nextFuture b) (snd (sendCommand c uuid (Some e) b)) = [Rejected BySendFailure e]"
    and "map_get (pending (snd (sendCommand c uuid (Some e) b))) uuid = None"
    and "timers (snd (sendCommand c uuid (Some e) b)) (nextFuture b) = None"
    and "sentFutures (snd (sendCommand c uuid (Some e) b)) = sentFutures b"
proof -
  have a6: "\<forall>e \<in> set (settles b). fst e < nextFuture b"
    using assms(1) unfolding bridge_inv_def inv_fields_def by blast
  then have n: "filter (\<lambda>e. fst e = nextFuture b) (settles b) = []"
    by (auto simp: filter_empty_conv)
  show "fst (sendCommand c uuid (Some e) b) = Awaiting (nextFuture b)"
    using assms(2) by (simp add: sendCommand_def Let_def)
  show "outcomesOf (nextFuture b) (snd (sendCommand c uuid (Some e) b)) = [Rejected BySendFailure e]"
    using assms(2) n by (simp add: sendCommand_def Let_def outcomesOf_def)
  show "map_get (pending (snd (sendCommand c uuid (Some e) b))) uuid = None"
    using assms(2) by (auto simp: sendCommand_def Let_def map_get_None map_delete_set)
  show "timers (snd (sendCommand c uuid (Some e) b)) (nextFuture b) = None"
    using assms(2) by (simp add: sendCommand_def Let_def)
  show "sentFutures (snd (sendCommand c uuid (Some e) b)) = sentFutures b"
    using assms(2) by (simp add: sendCommand_def Let_def sentFutures_def)
qed

lemma in_outcomes: "out \<in> set (outcomesOf p b) \<longleftrightarrow> (p, out) \<in> set (settles b)"
  by (force simp: outcomesOf_def)

lemma new_outcome_caused:
  assumes "(p, out) \<in> set (settles (step ev b))" "(p, out) \<notin> set (settles b)"
  shows "caused_by ev b p out"
proof (cases ev)
  case (Send c uuid thrown)
  then show ?thesis using assms
    by (cases thrown) (auto simp: caused_by_def sendCommand_def Let_def split: if_splits)
next
  case (Response r)
  then show ?thesis using assms
    by (cases r) (auto simp: caused_by_def settle_response_def split: option.splits)
next
  case (TimerFires q)
  then show ?thesis using assms
    by (auto simp: caused_by_def timerFires_def split: option.splits)
next
  case SocketClose
  then show ?thesis using assms
    by (auto simp: caused_by_def onSocketClose_def reject_all_settles)
next
  case Close
  then show ?thesis using assms
    by (auto simp: caused_by_def close_def Let_def reject_all_settles split: if_splits)
next
  case (SocketState rs)
  then show ?thesis using assms by simp
qed

text \<open>
  Claim C1.  In every state the bridge can reach from \<open>createBridge\<close>, by any sequence
  of calls and events, a command that was transmitted (its promise is in \<open>wire\<close>) is
  either still waiting, with its timer armed and no call of its \<open>resolve\<close> or \<open>reject\<close>
  so far, or its timer is gone and exactly one such call was made: resolved by a result
  response, or rejected by an error response, by the timeout, or by the teardown loop.
  An armed timer that fires settles its promise with the timeout error.  No promise is
  ever settled twice.  A response whose id has no entry in \<open>pending\<close> leaves the bridge
  as it is.  A response whose id has an entry settles the promise of that entry and no
  other: a result resolves it with the data of the response, an error rejects it with
  the error of the response.  The socket's close and \<open>close()\<close> reject every pending
  promise and leave the others as they are.  A call of \<open>sendCommand\<close> on an open socket
  registers its promise under its own id with its own timer; when \<open>socket.send\<close> throws,
  the promise is rejected with what was thrown and the command counts as not
  transmitted.  And a promise gets an outcome only in these ways: whenever an event adds
  an outcome to a promise, the event is the cause of that outcome.
\<close>

theorem sent_command_exactly_one_outcome:
  fixes es :: "event list" and rs :: readyState
  defines "b \<equiv> run es (createBridge rs)"
  shows "(p \<in> sentFutures b \<longrightarrow>
            (timers b p \<noteq> None \<and> outcomesOf p b = []) \<or>
            (timers b p = None \<and> (\<exists>out. outcomesOf p b = [out] \<and> terminal out)))
       \<and> (\<forall>uuid ty. timers b p = Some (uuid, ty) \<longrightarrow>
            outcomesOf p (timerFires p b) = [Rejected ByTimeout (timeout_message ty)])
       \<and> (length (outcomesOf p b) \<le> 1)
       \<and> (map_get (pending b) i = None \<longrightarrow>
            handleResponse (Result i d) b = b \<and> handleResponse (Error i e) b = b)
       \<and> (map_get (pending b) i = Some q \<longrightarrow>
            outcomesOf q (handleResponse (Result i d) b) = [Resolved d]
            \<and> outcomesOf q (handleResponse (Error i e) b) = [Rejected ByErrorResponse e]
            \<and> (\<forall>r. r \<noteq> q \<longrightarrow> outcomesOf r (handleResponse (Result i d) b) = outcomesOf r b
                              \<and> outcomesOf r (handleResponse (Error i e) b) = outcomesOf r b))
       \<and> (q \<in> snd ` set (pending b) \<longrightarrow>
            outcomesOf q (onSocketClose b) = [Rejected ByTeardown ''WebSocket connection closed'']
            \<and> outcomesOf q (close b) = [Rejected ByTeardown ''Bridge closed''])
       \<and> (q \<notin> snd ` set (pending b) \<longrightarrow>
            outcomesOf q (onSocketClose b) = outcomesOf q b \<and> outcomesOf q (close b) = outcomesOf q b)
       \<and> (readyState b = OPEN \<longrightarrow>
            fst (sendCommand c uuid None b) = Awaiting (nextFuture b)
            \<and> map_get (pending (snd (sendCommand c uuid None b))) uuid = Some (nextFuture b)
            \<and> timers (snd (sendCommand c uuid None b)) (nextFuture b) = Some (uuid, ctype c)
            \<and> nextFuture b \<in> sentFutures (snd (sendCommand c uuid None b))
            \<and> outcomesOf (nextFuture b) (snd (sendCommand c uuid None b)) = [])
       \<and> (readyState b = OPEN \<longrightarrow>
            fst (sendCommand c uuid (Some e) b) = Awaiting (nextFuture b)
            \<and> outcomesOf (nextFuture b) (snd (sendCommand c uuid (Some e) b)) = [Rejected BySendFailure e]
            \<and> sentFutures (snd (sendCommand c uuid (Some e) b)) = sentFutures b)
       \<and> (out \<in> set (outcomesOf p (step ev b)) \<and> out \<notin> set (outcomesOf p b) \<longrightarrow> caused_by ev b p out)"
proof -
  have I: "bridge_inv b" unfolding b_def by (rule inv_run[OF inv_init])
  have one: "length (outcomesOf p b) \<le> 1"
  proof (cases "p \<in> fst ` set (settles b)")
    case False then show ?thesis by (simp add: outcomesOf_def outcomes_none)
  next
    case True
    then obtain out where "(p, out) \<in> set (settles b)" by force
    moreover have "distinct (map fst (settles b))"
      using I unfolding bridge_inv_def inv_fields_def by blast
    ultimately have "outcomesOf p b = [out]" unfolding outcomesOf_def by (simp add: outcomes_single)
    then show ?thesis by simp
  qed
  have c1: "p \<in> sentFutures b \<longrightarrow>
            (timers b p \<noteq> None \<and> outcomesOf p b = []) \<or>
            (timers b p = None \<and> (\<exists>out. outcomesOf p b = [out] \<and> terminal out))"
    using sent_settled_or_armed[OF I] by blast
  have c2: "\<forall>uuid ty. timers b p = Some (uuid, ty) \<longrightarrow>
            outcomesOf p (timerFires p b) = [Rejected ByTimeout (timeout_message ty)]"
    using timer_progress[OF I] by blast
  have c4: "map_get (pending b) i = None \<longrightarrow>
            handleResponse (Result i d) b = b \<and> handleResponse (Error i e) b = b"
    by (simp add: settle_response_def)
  have c5: "map_get (pending b) i = Some q \<longrightarrow>
            outcomesOf q (handleResponse (Result i d) b) = [Resolved d]
            \<and> outcomesOf q (handleResponse (Error i e) b) = [Rejected ByErrorResponse e]
            \<and> (\<forall>r. r \<noteq> q \<longrightarrow> outcomesOf r (handleResponse (Result i d) b) = outcomesOf r b
                              \<and> outcomesOf r (handleResponse (Error i e) b) = outcomesOf r b)"
    using response_settles(1,2)[OF I] by simp
  have c6: "q \<in> snd ` set (pending b) \<longrightarrow>
            outcomesOf q (onSocketClose b) = [Rejected ByTeardown ''WebSocket connection closed'']
            \<and> outcomesOf q (close b) = [Rejected ByTeardown ''Bridge closed'']"
    using socket_close_settles[OF I] by force
  have c7: "q \<notin> snd ` set (pending b) \<longrightarrow>
            outcomesOf q (onSocketClose b) = outcomesOf q b \<and> outcomesOf q (close b) = outcomesOf q b"
    using socket_close_others by blast
  have c8: "readyState b = OPEN \<longrightarrow>
            fst (sendCommand c uuid None b) = Awaiting (nextFuture b)
            \<and> map_get (pending (snd (sendCommand c uuid None b))) uuid = Some (nextFuture b)
            \<and> timers (snd (sendCommand c uuid None b)) (nextFuture b) = Some (uuid, ctype c)
            \<and> nextFuture b \<in> sentFutures (snd (sendCommand c uuid None b))
            \<and> outcomesOf (nextFuture b) (snd (sendCommand c uuid None b)) = []"
    using send_registers[OF I] by blast
  have c9: "readyState b = OPEN \<longrightarrow>
            fst (sendCommand c uuid (Some e) b) = Awaiting (nextFuture b)
            \<and> outcomesOf (nextFuture b) (snd (sendCommand c uuid (Some e) b)) = [Rejected BySendFailure e]
            \<and> sentFutures (snd (sendCommand c uuid (Some e) b)) = sentFutures b"
    using send_fails[OF I] by blast
  have c10: "out \<in> set (outcomesOf p (step ev b)) \<and> out \<notin> set (outcomesOf p b) \<longrightarrow> caused_by ev b p out"
    using new_outcome_caused by (simp add: in_outcomes)
  show ?thesis using c1 c2 one c4 c5 c6 c7 c8 c9 c10 by blast
qed

lemma two_sent_value:
  "two_sent = \<lparr>readyState = OPEN, pending = [(''a'', 0), (''b'', 1)],
               timers = [0 \<mapsto> (''a'', ''get_state''), 1 \<mapsto> (''b'', ''get_state'')], nextFuture = 2,
               settles = [], wire = [(0, ''a'', demo_command), (1, ''b'', demo_command)]\<rparr>"
  by (simp add: two_sent_def createBridge_def sendCommand_def Let_def demo_command_def fun_eq_iff)

lemma demo_run:
  "run demo_events (createBridge OPEN) =
     \<lparr>readyState = CLOSING, pending = [], timers = Map.empty, nextFuture = 2,
      settles = [(0, Resolved ''ok''), (1, Rejected ByTeardown ''Bridge closed'')],
      wire = [(0, ''a'', demo_command), (1, ''b'', demo_command)]\<rparr>"
  by (simp add: demo_events_def createBridge_def sendCommand_def Let_def settle_response_def
      map_get_def map_delete_def timerFires_def close_def fun_eq_iff)

theorem sent_command_exactly_one_outcome_witness:
  "0 \<in> sentFutures (run demo_events (createBridge OPEN))
   \<and> timers (run demo_events (createBridge OPEN)) 0 = None
   \<and> outcomesOf 0 (run demo_events (createBridge OPEN)) = [Resolved ''ok'']
   \<and> outcomesOf 1 (run demo_events (createBridge OPEN)) = [Rejected ByTeardown ''Bridge closed'']
   \<and> length (outcomesOf 0 (run demo_events (createBridge OPEN))) \<le> 1
   \<and> map_get (pending two_sent) ''b'' = Some 1
   \<and> outcomesOf 1 (handleResponse (Result ''b'' ''done'') two_sent) = [Resolved ''done'']
   \<and> outcomesOf 0 (handleResponse (Result ''b'' ''done'') two_sent) = []
   \<and> outcomesOf 1 (handleResponse (Error ''b'' ''bad'') two_sent) = [Rejected ByErrorResponse ''bad'']
   \<and> outcomesOf 0 (onSocketClose two_sent) = [Rejected ByTeardown ''WebSocket connection closed'']
   \<and> outcomesOf 1 (onSocketClose two_sent) = [Rejected ByTeardown ''WebSocket connection closed'']"
proof -
  have a: "0 \<in> sentFutures (run demo_events (createBridge OPEN))
   \<and> timers (run demo_events (createBridge OPEN)) 0 = None
   \<and> outcomesOf 0 (run demo_events (createBridge OPEN)) = [Resolved ''ok'']
   \<and> outcomesOf 1 (run demo_events (createBridge OPEN)) = [Rejected ByTeardown ''Bridge closed'']
   \<and> length (outcomesOf 0 (run demo_events (createBridge OPEN))) \<le> 1"
    using sent_command_exactly_one_outcome [where p = 0 and es = demo_events and rs = OPEN]
    by (simp add: demo_run sentFutures_def outcomesOf_def)
  have g: "map_get (pending two_sent) ''b'' = Some 1" "map_get (pending two_sent) ''a'' = Some 0"
    by (simp_all add: two_sent_value map_get_def)
  have o0: "outcomesOf 0 two_sent = []" by (simp add: two_sent_value outcomesOf_def)
  note T = sent_command_exactly_one_outcome [where es = "[Send demo_command ''a'' None, Send demo_command ''b'' None]"
      and rs = OPEN, folded two_sent_def]
  have r: "outcomesOf 1 (handleResponse (Result ''b'' ''done'') two_sent) = [Resolved ''done'']
     \<and> outcomesOf 0 (handleResponse (Result ''b'' ''done'') two_sent) = []
     \<and> outcomesOf 1 (handleResponse (Error ''b'' ''bad'') two_sent) = [Rejected ByErrorResponse ''bad'']"
    using T [where i = "''b''" and q = 1 and d = "''done''" and e = "''bad''"] g o0 by simp
  have p0: "(0::nat) \<in> snd ` set (pending two_sent)" "(1::nat) \<in> snd ` set (pending two_sent)"
    by (simp_all add: two_sent_value)
  have c: "outcomesOf 0 (onSocketClose two_sent) = [Rejected ByTeardown ''WebSocket connection closed'']"
    using T [where q = 0] p0 by simp
  have c': "outcomesOf 1 (onSocketClose two_sent) = [Rejected ByTeardown ''WebSocket connection closed'']"
    using T [where q = 1] p0 by simp
  show ?thesis using a g(1) r c c' by simp
qed


text \<open>
  Claim C10.  When the socket is not \<open>OPEN\<close>, \<open>sendCommand\<close> returns a promise already
  rejected with the not-connected error and the bridge is unchanged: no promise or timer
  is allocated, no entry is added to \<open>pending\<close>, nothing is transmitted.
\<close>

theorem sendCommand_not_connected:
  "readyState b \<noteq> OPEN \<Longrightarrow>
     sendCommand c uuid thrown b = (Immediate (Rejected ByNotConnected ''WebSocket not connected''), b)"
  by (simp add: sendCommand_def)

theorem sendCommand_not_connected_witness:
  "readyState (createBridge CLOSED) \<noteq> OPEN
   \<and> sendCommand demo_command ''a'' None (createBridge CLOSED)
       = (Immediate (Rejected ByNotConnected ''WebSocket not connected''), createBridge CLOSED)
   \<and> pending (snd (sendCommand demo_command ''a'' None (createBridge CLOSED))) = []
   \<and> nextFuture (snd (sendCommand demo_command ''a'' None (createBridge CLOSED))) = 0"
  using sendCommand_not_connected [of "createBridge CLOSED" demo_command "''a''" None]
  by (simp add: createBridge_def)

section \<open>Pipeline references\<close>















section \<open>Snapshots and restore\<close>

lemma pget_put: "pget (put k v m) k' = (if k' = k then v else pget m k')"
  by (simp add: pget_def put_def map_of_map_set map_of_map_delete)

lemma has_put: "has (put k v m) k' = (if k' = k then v \<noteq> JUndefined else has m k')"
  by (simp add: has_def put_def map_of_map_set map_of_map_delete)

lemma assign_sel:
  "ntype (assign k v n) = ntype n" "nid (assign k v n) = nid n" "nname (assign k v n) = nname n"
  "nkids (assign k v n) = nkids n" "nprops (assign k v n) = put k v (nprops n)"
  by (simp_all add: assign_def)

lemma rename_sel:
  "ntype (rename s n) = ntype n" "nid (rename s n) = nid n" "nname (rename s n) = s"
  "nkids (rename s n) = nkids n" "nprops (rename s n) = nprops n"
  by (simp_all add: rename_def)

lemma fresh_sel:
  "ntype (fresh h kind c) = kind" "nid (fresh h kind c) = fresh_id c"
  "nname (fresh h kind c) = fst (defaults h kind)"
  "nprops (fresh h kind c) = fst (snd (defaults h kind))"
  "nkids (fresh h kind c) = snd (snd (defaults h kind))"
  by (simp_all add: fresh_def split: prod.splits)

text \<open>
  Claim C2 (the code falls short of it).  \<open>handleSerializeFrame\<close> calls
  \<open>serializeNode(node, 10)\<close>: children are captured only while the current depth is
  below 10.  For a root with a chain of eleven nested frames below it (twelve nodes),
  \<open>saveCheckpoint\<close> reports and stores eleven nodes; the innermost frame, which is in
  the document, is not in the stored snapshot.
\<close>

theorem checkpoint_depth_cap:
  "countNodes (chain 11) = 12
   \<and> map_sum id sv_nodeCount
        (fst (saveCheckpoint (fresh_id 11) ''cp'' \<lparr>w_doc = \<lparr>page = [chain 11], nextNode = 12\<rparr>, w_store = []\<rparr>))
       = Inr 11
   \<and> map (\<lambda>e. idsOf (cp_data (snd e)))
        (w_store (snd (saveCheckpoint (fresh_id 11) ''cp'' \<lparr>w_doc = \<lparr>page = [chain 11], nextNode = 12\<rparr>, w_store = []\<rparr>)))
       = [[''1:11'', ''1:10'', ''1:9'', ''1:8'', ''1:7'', ''1:6'', ''1:5'', ''1:4'',
           ''1:3'', ''1:2'', ''1:1'']]
   \<and> map_option nid (getNodeById \<lparr>page = [chain 11], nextNode = 12\<rparr> ''1:0'') = Some ''1:0''"
  by code_simp

text \<open>
  Claim C9, as amended.  For a snapshot whose kind is none of \<open>FRAME\<close>, \<open>TEXT\<close>,
  \<open>RECTANGLE\<close>, \<open>ELLIPSE\<close>, \<open>rebuildNode\<close> returns a new \<open>RECTANGLE\<close> named
  \<open>[kind] name\<close>; its width and height are the recorded ones, with 100 in place of a
  value that is absent or zero, and its position is the recorded one, with 0 in place of
  an absent value.
\<close>

theorem rebuildNode_placeholder:
  assumes "ty \<noteq> ''FRAME''" "ty \<noteq> ''TEXT''" "ty \<noteq> ''RECTANGLE''" "ty \<noteq> ''ELLIPSE''"
  shows "\<exists>n. rebuildNode h (Node ty i nm p ks) c = (n, Suc c)
           \<and> ntype n = ''RECTANGLE''
           \<and> nid n = fresh_id c
           \<and> nname n = ''['' @ ty @ ''] '' @ nm
           \<and> pget (nprops n) ''width'' = (if truthy (pget p ''width'') then pget p ''width'' else JNum 100)
           \<and> pget (nprops n) ''height'' = (if truthy (pget p ''height'') then pget p ''height'' else JNum 100)
           \<and> pget (nprops n) ''x'' = (if truthy (pget p ''x'') then pget p ''x'' else JNum 0)
           \<and> pget (nprops n) ''y'' = (if truthy (pget p ''y'') then pget p ''y'' else JNum 0)"
  using assms
  by (simp add: placeholder_def Let_def assign_sel rename_sel fresh_sel resize_def pget_put js_or_def)

theorem rebuildNode_placeholder_witness:
  "\<exists>n. rebuildNode sample_host
          (Node ''VECTOR'' ''9:9'' ''Vector 1'' [(''x'', JNum 5), (''width'', JNum 40)] None) 7 = (n, 8)
        \<and> ntype n = ''RECTANGLE'' \<and> nname n = ''[VECTOR] Vector 1''
        \<and> pget (nprops n) ''width'' = JNum 40 \<and> pget (nprops n) ''height'' = JNum 100
        \<and> pget (nprops n) ''x'' = JNum 5 \<and> pget (nprops n) ''y'' = JNum 0"
  using rebuildNode_placeholder [of "''VECTOR''" sample_host "''9:9''" "''Vector 1''"
      "[(''x'', JNum 5), (''width'', JNum 40)]" None 7]
  by (simp add: pget_def)

text \<open>A line has height 0; its placeholder does not take the recorded height.\<close>

theorem placeholder_zero_height_counterexample:
  "pget (nprops sample_line) ''height'' = JNum 0
   \<and> pget (nprops (fst (rebuildNode sample_host sample_line 7))) ''height'' = JNum 100"
  by code_simp

section \<open>Batch script: stopping at the first failure\<close>

lemma place_and_fill_success:
  "place_and_fill h opn props i doc vars = (Continue r, d, v) \<Longrightarrow> r_success r"
  by (auto simp: place_and_fill_def success_entry_def split: sum.splits option.splits prod.splits if_splits)

lemma success_entry_flag: "r_success (success_entry opn var i)"
  by (simp add: success_entry_def)

lemma exec_create_frame:
  "o_op opn = ''CREATE_FRAME'' \<Longrightarrow> exec_op h opn doc vars = (Continue r, d, v) \<Longrightarrow> r_success r"
  by (auto simp: exec_op_def split: prod.splits dest: place_and_fill_success)

lemma exec_create_rect:
  "o_op opn = ''CREATE_RECT'' \<Longrightarrow> exec_op h opn doc vars = (Continue r, d, v) \<Longrightarrow> r_success r"
  by (auto simp: exec_op_def split: prod.splits dest: place_and_fill_success)

lemma exec_create_text:
  "o_op opn = ''CREATE_TEXT'' \<Longrightarrow> exec_op h opn doc vars = (Continue r, d, v) \<Longrightarrow> r_success r"
  by (auto simp: exec_op_def Let_def split: prod.splits sum.splits dest: place_and_fill_success)

lemma exec_set_image_fill:
  "o_op opn = ''SET_IMAGE_FILL'' \<Longrightarrow> exec_op h opn doc vars = (Continue r, d, v) \<Longrightarrow> r_success r"
  by (auto simp: exec_op_def success_entry_flag split: sum.splits if_splits)

lemma exec_trim:
  "o_op opn = ''TRIM'' \<Longrightarrow> exec_op h opn doc vars = (Continue r, d, v) \<Longrightarrow> r_success r"
  by (auto simp: exec_op_def success_entry_flag split: sum.splits)

lemma exec_update:
  "o_op opn = ''UPDATE'' \<Longrightarrow> exec_op h opn doc vars = (Continue r, d, v) \<Longrightarrow> r_success r"
  by (auto simp: exec_op_def success_entry_flag split: sum.splits prod.splits option.splits)

lemma exec_set_gradient:
  "o_op opn = ''SET_GRADIENT'' \<Longrightarrow> exec_op h opn doc vars = (Continue r, d, v) \<Longrightarrow> r_success r"
  by (auto simp: exec_op_def success_entry_flag split: sum.splits)

lemma exec_add_effect:
  "o_op opn = ''ADD_EFFECT'' \<Longrightarrow> exec_op h opn doc vars = (Continue r, d, v) \<Longrightarrow> r_success r"
  by (auto simp: exec_op_def success_entry_flag split: sum.splits)

lemma exec_delete:
  "o_op opn = ''DELETE'' \<Longrightarrow> exec_op h opn doc vars = (Continue r, d, v) \<Longrightarrow> r_success r"
  by (auto simp: exec_op_def success_entry_flag split: sum.splits)

lemma exec_reparent:
  "o_op opn = ''REPARENT'' \<Longrightarrow> exec_op h opn doc vars = (Continue r, d, v) \<Longrightarrow> r_success r"
  by (auto simp: exec_op_def success_entry_flag split: sum.splits prod.splits option.splits if_splits)

lemma exec_op_success:
  assumes "exec_op h opn doc vars = (Continue r, d, v)"
  shows "r_success r = (o_op opn \<in> set known_ops)"
proof (cases "o_op opn \<in> set known_ops")
  case False
  then have "exec_op h opn doc vars = (Continue (unknown_entry opn), doc, vars)"
    by (simp add: exec_op_def known_ops_def)
  then show ?thesis using assms False by (simp add: unknown_entry_def)
next
  case True
  then consider "o_op opn = ''CREATE_FRAME''" | "o_op opn = ''CREATE_TEXT''" | "o_op opn = ''CREATE_RECT''"
    | "o_op opn = ''SET_IMAGE_FILL''" | "o_op opn = ''UPDATE''" | "o_op opn = ''SET_GRADIENT''"
    | "o_op opn = ''ADD_EFFECT''" | "o_op opn = ''TRIM''" | "o_op opn = ''DELETE''"
    | "o_op opn = ''REPARENT''"
    unfolding known_ops_def by auto
  then have "r_success r"
    using assms exec_create_frame exec_create_text exec_create_rect exec_set_image_fill exec_update
      exec_set_gradient exec_add_effect exec_trim exec_delete exec_reparent
    by cases blast+
  then show ?thesis using True by simp
qed

lemma run_ops_append:
  "all_continue h pre st \<Longrightarrow> run_ops h (pre @ rest) st = run_ops h rest (run_ops h pre st)"
proof (induction pre arbitrary: st)
  case Nil then show ?case by simp
next
  case (Cons a pre)
  then show ?case by (auto split: prod.splits outcome_of_op.splits)
qed

lemma run_ops_flags:
  "all_continue h pre st \<Longrightarrow>
     map r_success (b_results (run_ops h pre st))
       = map r_success (b_results st) @ map (\<lambda>x. o_op x \<in> set known_ops) pre"
proof (induction pre arbitrary: st)
  case Nil then show ?case by simp
next
  case (Cons a pre)
  obtain out d v where e: "exec_op h a (b_doc st) (b_vars st) = (out, d, v)"
    by (cases "exec_op h a (b_doc st) (b_vars st)") auto
  then obtain r where out: "out = Continue r" using Cons.prems by (cases out) auto
  have ac: "all_continue h pre \<lparr>b_doc = d, b_vars = v, b_results = b_results st @ [r]\<rparr>"
    using Cons.prems e out by simp
  have "r_success r = (o_op a \<in> set known_ops)" using e out exec_op_success by blast
  then show ?case using Cons.IH[OF ac] e out by simp
qed


text \<open>
  Claim C4, as amended.  When the operation at position \<open>k\<close> is the first that throws,
  the document and the bindings returned are those left by operations \<open>1..k-1\<close>
  followed by what operation \<open>k\<close> did before it threw; the operations after \<open>k\<close> play
  no part in the result; the result lists exactly \<open>k\<close> entries, one per attempted
  operation: the entry of an operation before \<open>k\<close> is flagged true when its kind is one
  of the ten known kinds and false when it is not (an operation of unknown kind does not
  throw: it is recorded as failed and the script goes on), and the last entry is the
  failing one, flagged false, with its error.  A script of four operations that fails at
  the third is answered with three entries.
\<close>

theorem batch_stops_at_first_throw:
  assumes "all_continue h pre (start doc)"
    and "exec_op h opk (b_doc (run_ops h pre (start doc))) (b_vars (run_ops h pre (start doc)))
           = (Break e, d, v)"
  shows "handleBatchOperations h (pre @ opk # post) doc
           = (\<lparr>br_results = b_results (run_ops h pre (start doc)) @ [failure_entry opk e],
               br_variableBindings = v,
               br_errors = filter (\<lambda>r. \<not> r_success r)
                             (b_results (run_ops h pre (start doc)) @ [failure_entry opk e])\<rparr>, d)
       \<and> handleBatchOperations h (pre @ opk # post) doc = handleBatchOperations h (pre @ [opk]) doc
       \<and> length (br_results (fst (handleBatchOperations h (pre @ opk # post) doc))) = length pre + 1
       \<and> map r_success (br_results (fst (handleBatchOperations h (pre @ opk # post) doc)))
           = map (\<lambda>x. o_op x \<in> set known_ops) pre @ [False]
       \<and> r_error (last (br_results (fst (handleBatchOperations h (pre @ opk # post) doc)))) = Some e"
proof -
  let ?s = "run_ops h pre (start doc)"
  have step: "\<And>rest. run_ops h (pre @ opk # rest) (start doc)
      = \<lparr>b_doc = d, b_vars = v, b_results = b_results ?s @ [failure_entry opk e]\<rparr>"
    using assms by (simp add: run_ops_append)
  have fl: "map r_success (b_results ?s) = map (\<lambda>x. o_op x \<in> set known_ops) pre"
    using run_ops_flags[OF assms(1)] by (simp add: start_def)
  have len: "length (b_results ?s) = length pre"
    using arg_cong[OF fl, of length] by simp
  have H: "\<And>rest. handleBatchOperations h (pre @ opk # rest) doc
           = (\<lparr>br_results = b_results ?s @ [failure_entry opk e],
               br_variableBindings = v,
               br_errors = filter (\<lambda>r. \<not> r_success r) (b_results ?s @ [failure_entry opk e])\<rparr>, d)"
    using step by (simp add: handleBatchOperations_def Let_def start_def)
  show ?thesis
    using H[of post] H[of "[]"] fl len by (simp add: failure_entry_def)
qed


lemma sample_pre_continues: "all_continue sample_host sample_pre (start empty_doc)"
  by code_simp

lemma sample_third_breaks:
  "fst (exec_op sample_host sample_failing (b_doc (run_ops sample_host sample_pre (start empty_doc)))
          (b_vars (run_ops sample_host sample_pre (start empty_doc))))
     = Break ''Unresolved variable: $c''"
  by code_simp

lemma sample_doc_after:
  "idsOfList (page (fst (snd (exec_op sample_host sample_failing
        (b_doc (run_ops sample_host sample_pre (start empty_doc)))
        (b_vars (run_ops sample_host sample_pre (start empty_doc))))))) = [''1:1'', ''1:2'']"
  by code_simp

lemma unknown_continues: "all_continue sample_host [blank_op\<lparr>o_op := ''NOPE''\<rparr>] (start empty_doc)"
  by code_simp

lemma after_unknown_breaks:
  "exec_op sample_host sample_failing
      (b_doc (run_ops sample_host [blank_op\<lparr>o_op := ''NOPE''\<rparr>] (start empty_doc)))
      (b_vars (run_ops sample_host [blank_op\<lparr>o_op := ''NOPE''\<rparr>] (start empty_doc)))
     = (Break ''Unresolved variable: $c'', empty_doc, [])"
  by code_simp

theorem batch_stops_at_first_throw_witness:
  "all_continue sample_host sample_pre (start empty_doc)
   \<and> map r_success (br_results (fst (handleBatchOperations sample_host
           (blank_op\<lparr>o_op := ''NOPE''\<rparr> # sample_failing # sample_post) empty_doc)))
       = [False, False]
   \<and> length (br_results (fst (handleBatchOperations sample_host sample_script empty_doc))) = 3
   \<and> map r_success (br_results (fst (handleBatchOperations sample_host sample_script empty_doc)))
       = [True, True, False]
   \<and> r_error (last (br_results (fst (handleBatchOperations sample_host sample_script empty_doc))))
       = Some ''Unresolved variable: $c''
   \<and> idsOfList (page (snd (handleBatchOperations sample_host sample_script empty_doc)))
       = [''1:1'', ''1:2'']"
proof -
  let ?x = "exec_op sample_host sample_failing (b_doc (run_ops sample_host sample_pre (start empty_doc)))
          (b_vars (run_ops sample_host sample_pre (start empty_doc)))"
  have b: "?x = (Break ''Unresolved variable: $c'', fst (snd ?x), snd (snd ?x))"
    using sample_third_breaks by (cases ?x) simp
  have k: "map (\<lambda>x. o_op x \<in> set known_ops) sample_pre = [True, True]"
    by (simp add: sample_pre_def known_ops_def blank_op_def)
  have l: "length sample_pre = 2" by (simp add: sample_pre_def)
  note T = batch_stops_at_first_throw [OF sample_pre_continues b, of sample_post,
      folded sample_script_def]
  have d: "snd (handleBatchOperations sample_host sample_script empty_doc) = fst (snd ?x)"
    using T [THEN conjunct1] by simp
  have n: "length (br_results (fst (handleBatchOperations sample_host sample_script empty_doc))) = 3"
    using T [THEN conjunct2, THEN conjunct2, THEN conjunct1] l by simp
  have f: "map r_success (br_results (fst (handleBatchOperations sample_host sample_script empty_doc)))
       = [True, True, False]"
    using T [THEN conjunct2, THEN conjunct2, THEN conjunct2, THEN conjunct1] k by simp
  have e: "r_error (last (br_results (fst (handleBatchOperations sample_host sample_script empty_doc))))
       = Some ''Unresolved variable: $c''"
    using T [THEN conjunct2, THEN conjunct2, THEN conjunct2, THEN conjunct2] by simp
  have ku: "map (\<lambda>x. o_op x \<in> set known_ops) [blank_op\<lparr>o_op := ''NOPE''\<rparr>] = [False]"
    by (simp add: known_ops_def blank_op_def)
  have u: "map r_success (br_results (fst (handleBatchOperations sample_host
           (blank_op\<lparr>o_op := ''NOPE''\<rparr> # sample_failing # sample_post) empty_doc)))
       = [False, False]"
    using batch_stops_at_first_throw [OF unknown_continues after_unknown_breaks, of sample_post,
        THEN conjunct2, THEN conjunct2, THEN conjunct2, THEN conjunct1] ku
    by simp
  show ?thesis
    using sample_pre_continues u n f e sample_doc_after unfolding d by blast
qed

text \<open>The operation after the failing one is not attempted and has no entry: the result
  of the sample script of four operations does not list four.  And an operation can fail
  without stopping the script: an operation of unknown kind gets an entry flagged false,
  and the operation after it is attempted and applied.\<close>

theorem batch_result_count_counterexample:
  "length sample_script = 4
   \<and> length (br_results (fst (handleBatchOperations sample_host sample_script empty_doc))) \<noteq> 4
   \<and> map r_success (br_results (fst (handleBatchOperations sample_host unknown_first empty_doc)))
       = [False, True]
   \<and> idsOfList (page (snd (handleBatchOperations sample_host unknown_first empty_doc))) = [''1:1'']"
  by code_simp

section \<open>Batch script: validation before execution\<close>

text \<open>
  Claim C8.  \<open>batchOperations\<close> parses the whole script first and checks the number of
  parsed operations next; only then does it prepare the operations and send them.  A
  parse error, or more than 50 parsed operations, is returned as the error with the
  plugin untouched: nothing was sent and the document is the same.  Whenever something
  did reach the plugin, the script had parsed to between 1 and 50 operations, and the
  document changes only through what was sent.
\<close>

theorem batchOperations_validates_first:
  "(parseDSL ev input = Inl e \<longrightarrow> batchOperations ev h input pl = (Inl e, pl))
   \<and> (parseDSL ev input = Inr parsed \<and> length parsed > 50 \<longrightarrow>
        batchOperations ev h input pl
          = (Inl (''Too many operations: '' @ digits (length parsed) @ '' (max 50)''), pl))
   \<and> (p_received (snd (batchOperations ev h input pl)) \<noteq> p_received pl \<longrightarrow>
        (\<exists>ops. parseDSL ev input = Inr ops \<and> 0 < length ops \<and> length ops \<le> 50))
   \<and> (p_doc (snd (batchOperations ev h input pl)) \<noteq> p_doc pl \<longrightarrow>
        p_received (snd (batchOperations ev h input pl)) \<noteq> p_received pl)"
proof (intro conjI impI)
  assume "parseDSL ev input = Inl e"
  then show "batchOperations ev h input pl = (Inl e, pl)" by (simp add: batchOperations_def)
next
  assume "parseDSL ev input = Inr parsed \<and> length parsed > 50"
  then show "batchOperations ev h input pl
          = (Inl (''Too many operations: '' @ digits (length parsed) @ '' (max 50)''), pl)"
    by (simp add: batchOperations_def)
next
  assume a: "p_received (snd (batchOperations ev h input pl)) \<noteq> p_received pl"
  show "\<exists>ops. parseDSL ev input = Inr ops \<and> 0 < length ops \<and> length ops \<le> 50"
  proof (cases "parseDSL ev input")
    case (Inl e') then show ?thesis using a by (simp add: batchOperations_def)
  next
    case (Inr ops)
    then show ?thesis using a by (cases "length ops > 50"; cases "length ops = 0")
        (simp_all add: batchOperations_def)
  qed
next
  assume a: "p_doc (snd (batchOperations ev h input pl)) \<noteq> p_doc pl"
  show "p_received (snd (batchOperations ev h input pl)) \<noteq> p_received pl"
  proof (cases "parseDSL ev input")
    case (Inl e') then show ?thesis using a by (simp add: batchOperations_def)
  next
    case (Inr ops)
    show ?thesis
    proof (cases "length ops > 50 \<or> length ops = 0")
      case True then show ?thesis using a Inr by (auto simp: batchOperations_def)
    next
      case False
      show ?thesis
      proof (cases "processAll ev ops")
        case (Inl e') then show ?thesis using a Inr False by (simp add: batchOperations_def)
      next
        case (Inr ps)
        obtain result doc' where hb: "handleBatchOperations h ps (p_doc pl) = (result, doc')"
          by (cases "handleBatchOperations h ps (p_doc pl)") auto
        have n: "\<not> length ops > 50" "length ops \<noteq> 0" using False by auto
        have "p_received (snd (batchOperations ev h input pl)) = p_received pl @ [ps]"
          unfolding batchOperations_def using \<open>parseDSL ev input = Inr ops\<close> n Inr hb by simp
        then show ?thesis by simp
      qed
    qed
  qed
qed

lemma long_script_parses: "map_sum id length (parseDSL sample_env long_script) = Inr 51"
  by code_simp

lemma broken_script_fails:
  "parseDSL sample_env broken_script = Inl ''Line 2: Missing opening parenthesis: DELETE 1:1''"
  by code_simp

theorem batchOperations_validates_first_witness:
  "(\<exists>parsed. parseDSL sample_env long_script = Inr parsed \<and> length parsed = 51)
   \<and> batchOperations sample_env sample_host long_script one_frame
       = (Inl ''Too many operations: 51 (max 50)'', one_frame)
   \<and> batchOperations sample_env sample_host broken_script one_frame
       = (Inl ''Line 2: Missing opening parenthesis: DELETE 1:1'', one_frame)"
proof -
  obtain parsed where p: "parseDSL sample_env long_script = Inr parsed" "length parsed = 51"
    using long_script_parses by (cases "parseDSL sample_env long_script") auto
  have d: "digits 51 = ''51''" by code_simp
  have 1: "batchOperations sample_env sample_host long_script one_frame
       = (Inl ''Too many operations: 51 (max 50)'', one_frame)"
    using batchOperations_validates_first [of sample_env long_script "[]" sample_host one_frame parsed] p d
    by simp
  have 2: "batchOperations sample_env sample_host broken_script one_frame
       = (Inl ''Line 2: Missing opening parenthesis: DELETE 1:1'', one_frame)"
    using batchOperations_validates_first [of sample_env broken_script
        "''Line 2: Missing opening parenthesis: DELETE 1:1''" sample_host one_frame "[]"]
      broken_script_fails by simp
  show ?thesis using p 1 2 by blast
qed

section \<open>Script references\<close>







lemma fresh_id_not_none: "fresh_id c \<noteq> ''none''"
  by (simp add: fresh_id_def)








text \<open>The theorem on single lines, and the script \<open>f=CREATE_FRAME(none)\<close>,
  \<open>r=CREATE_RECT($f)\<close>, \<open>s=CREATE_RECT(1:1)\<close>, \<open>t=CREATE_RECT(none)\<close> run from the
  parser to the document: the frame and the last rectangle are at the top level, the two
  other rectangles are the frame's children.\<close>

lemma tokens_script_parsed:
  "parseDSL sample_env tokens_script
     = Inr [creation_line ''CREATE_FRAME'' ''f'' ''none'', creation_line ''CREATE_RECT'' ''r'' ''$f'',
            creation_line ''CREATE_RECT'' ''s'' ''1:1'', creation_line ''CREATE_RECT'' ''t'' ''none'']"
  by code_simp




section \<open>Pipeline: rollback after a failing step\<close>

text \<open>
  Claim C5.  The pipeline of three steps stops at its third step, whose tool throws
  \<open>Node not found: 9:9\<close>; the automatic checkpoint taken after step 1 is restored and
  the result reports the two completed steps, the failing step and \<open>rolledBack = true\<close>.
  The root frame is not in its state after step 1: step 1 left it with opacity 1,
  visible and unrotated, step 2 set opacity 1/2, hid it and rotated it by 45 degrees,
  and after the reported rollback it still has the values of step 2.  The snapshot
  omits a rotation of 0, a true \<open>visible\<close> and an opacity of 1, and the restore assigns
  only what the snapshot holds.
\<close>

theorem pipeline_rollback_keeps_changes:
  "fst (batchPipeline sample_runtime sample_tools sample_host [step1, step2, step3] empty_world)
     = Failed
         [\<lparr>c_id = ''s1'', c_tool = ''build_ad_skeleton'',
           c_summary = ''Created feed frame (1080x1080px) with 80px padding. ''\<rparr>,
          \<lparr>c_id = ''s2'', c_tool = ''update_node'', c_summary = ''Updated properties''\<rparr>]
         \<lparr>f_step = ''s3'', f_tool = ''update_node'', f_error = ''Node not found: 9:9''\<rparr> True
   \<and> props_of after_step1 ''1:1'' [''opacity'', ''visible'', ''rotation'']
       = [JNum 1, JBool True, JNum 0]
   \<and> props_of (w_doc (snd (batchPipeline sample_runtime sample_tools sample_host [step1, step2, step3] empty_world)))
         ''1:1'' [''opacity'', ''visible'', ''rotation'']
       = [JNum (1/2), JBool False, JNum 45]
   \<and> \<not> same_page after_step1
         (w_doc (snd (batchPipeline sample_runtime sample_tools sample_host [step1, step2, step3] empty_world)))"
  by code_simp

end
